theory Spec2Isabelle
  imports Complex_Main
begin

section \<open>Python values, exceptions and the library functions the code calls\<close>

text \<open>
  Values that come out of \<^verbatim>\<open>json.loads\<close> and that travel in the \<^verbatim>\<open>Dict[str, Any]\<close>
  fields of the program. A Python \<^verbatim>\<open>dict\<close> keeps insertion order, so an object is an
  association list (with distinct keys). Python floats are idealised as reals.
\<close>

datatype json =
    JNull
  | JBool bool
  | JInt int
  | JFloat real
  | JStr string
  | JArr "json list"
  | JObj "(string \<times> json) list"

text \<open>
  The exceptions that the modelled code can see, each with the data it was raised about.
  \<^verbatim>\<open>ValidationError\<close> is pydantic's (a subclass of \<^verbatim>\<open>ValueError\<close>), \<^verbatim>\<open>JSONDecodeError\<close>
  is the json module's (also a \<^verbatim>\<open>ValueError\<close>), \<^verbatim>\<open>RuntimeError\<close> stands for any other
  \<^verbatim>\<open>Exception\<close> raised by a provider, a callback or the file system.
\<close>

datatype exn =
    TimeoutError
  | JSONDecodeError string
  | KeyError string
  | ValueError string json
  | ValidationError string
  | TypeError json
  | AttributeError json string
  | IndexError
  | RuntimeError string

text \<open>The clause \<^verbatim>\<open>except (KeyError, ValueError)\<close> catches these classes and their subclasses.\<close>

fun is_KeyError_or_ValueError :: "exn \<Rightarrow> bool" where
  "is_KeyError_or_ValueError (KeyError k) = True"
| "is_KeyError_or_ValueError (ValueError c v) = True"
| "is_KeyError_or_ValueError (ValidationError f) = True"
| "is_KeyError_or_ValueError (JSONDecodeError m) = True"
| "is_KeyError_or_ValueError e = False"

text \<open>
  What the interpreter and its libraries supply, as parameters of the model:
  \<^verbatim>\<open>str(e)\<close> of an exception, \<^verbatim>\<open>json.loads\<close>, \<^verbatim>\<open>json.JSONDecoder().raw_decode\<close>,
  \<^verbatim>\<open>json.dumps\<close>, \<^verbatim>\<open>re.search(pattern, s)\<close> with the text of the match,
  the successive readings of \<^verbatim>\<open>time.time()\<close>, the reading of \<^verbatim>\<open>datetime.now()\<close>,
  and pydantic's coercion of a value to a \<^verbatim>\<open>float\<close> or an \<^verbatim>\<open>int\<close> field.
\<close>

record runtime =
  str_exn :: "exn \<Rightarrow> string"
  json_loads :: "string \<Rightarrow> exn + json"
  raw_decode :: "string \<Rightarrow> exn + json \<times> nat"
  json_dumps :: "json \<Rightarrow> string"
  re_search :: "string \<Rightarrow> string \<Rightarrow> string option"
  time_time :: "nat \<Rightarrow> real"
  now_iso :: string
  validate_float :: "json \<Rightarrow> real option"
  validate_int :: "json \<Rightarrow> int option"

text \<open>\<^verbatim>\<open>d.get(k)\<close> and \<^verbatim>\<open>d[k]\<close> on a dict.\<close>

definition dict_get :: "(string \<times> json) list \<Rightarrow> string \<Rightarrow> json option" where
  "dict_get d k = map_of d k"

fun subscript :: "json \<Rightarrow> string \<Rightarrow> exn + json" where
  "subscript (JObj d) k = (case dict_get d k of None \<Rightarrow> Inl (KeyError k) | Some v \<Rightarrow> Inr v)"
| "subscript v k = Inl (TypeError v)"

text \<open>A pydantic field of type \<^verbatim>\<open>str\<close> accepts a string and nothing else that JSON can hold.\<close>

fun validate_str :: "string \<Rightarrow> json \<Rightarrow> exn + string" where
  "validate_str field (JStr s) = Inr s"
| "validate_str field v = Inl (ValidationError field)"

fun validate_optional_str :: "string \<Rightarrow> json option \<Rightarrow> exn + string option" where
  "validate_optional_str field None = Inr None"
| "validate_optional_str field (Some JNull) = Inr None"
| "validate_optional_str field (Some (JStr s)) = Inr (Some s)"
| "validate_optional_str field (Some v) = Inl (ValidationError field)"

section \<open>Evaluation data model (evaluation/models.py)\<close>

datatype EvaluationCriteria =
    TASK_PERFORMANCE
  | RESPONSE_QUALITY
  | LANGUAGE_QUALITY
  | TOOL_USAGE
  | FACTUAL_ACCURACY

datatype ScoreLevel = EXCELLENT | GOOD | SATISFACTORY | POOR | VERY_POOR

text \<open>Iterating over the enum class yields its members in definition order.\<close>

definition all_criteria :: "EvaluationCriteria list" where
  "all_criteria =
     [TASK_PERFORMANCE, RESPONSE_QUALITY, LANGUAGE_QUALITY, TOOL_USAGE, FACTUAL_ACCURACY]"

text \<open>\<^verbatim>\<open>EvaluationCriteria(name)\<close>: lookup by value, \<^verbatim>\<open>ValueError\<close> when there is none.\<close>

definition EvaluationCriteria_of :: "string \<Rightarrow> exn + EvaluationCriteria" where
  "EvaluationCriteria_of name =
     (if name = ''task_performance'' then Inr TASK_PERFORMANCE
      else if name = ''response_quality'' then Inr RESPONSE_QUALITY
      else if name = ''language_quality'' then Inr LANGUAGE_QUALITY
      else if name = ''tool_usage'' then Inr TOOL_USAGE
      else if name = ''factual_accuracy'' then Inr FACTUAL_ACCURACY
      else Inl (ValueError ''EvaluationCriteria'' (JStr name)))"

text \<open>\<^verbatim>\<open>ScoreLevel(value)\<close>: only the five level names are values of the enum.\<close>

definition ScoreLevel_of :: "json \<Rightarrow> exn + ScoreLevel" where
  "ScoreLevel_of v =
     (if v = JStr ''excellent'' then Inr EXCELLENT
      else if v = JStr ''good'' then Inr GOOD
      else if v = JStr ''satisfactory'' then Inr SATISFACTORY
      else if v = JStr ''poor'' then Inr POOR
      else if v = JStr ''very_poor'' then Inr VERY_POOR
      else Inl (ValueError ''ScoreLevel'' v))"

fun SCORE_VALUES :: "ScoreLevel \<Rightarrow> int" where
  "SCORE_VALUES EXCELLENT = 5"
| "SCORE_VALUES GOOD = 4"
| "SCORE_VALUES SATISFACTORY = 3"
| "SCORE_VALUES POOR = 2"
| "SCORE_VALUES VERY_POOR = 1"

record CriteriaScore =
  criteria :: EvaluationCriteria
  score :: ScoreLevel
  reasoning :: string
  score_value :: int

text \<open>
  \<^verbatim>\<open>CriteriaScore.__init__\<close>: the numeric value is filled in from the level unless the
  caller passes one. The fourth argument is the optional keyword \<^verbatim>\<open>score_value\<close>.
\<close>

definition CriteriaScore_init ::
  "EvaluationCriteria \<Rightarrow> ScoreLevel \<Rightarrow> string \<Rightarrow> int option \<Rightarrow> CriteriaScore" where
  "CriteriaScore_init c s r sv =
     \<lparr>criteria = c, score = s, reasoning = r,
      score_value = (case sv of None \<Rightarrow> SCORE_VALUES s | Some v \<Rightarrow> v)\<rparr>"

record EvaluationResult =
  er_test_case_id :: string
  er_model_id :: string
  er_scenario_type :: string
  er_user_query :: string
  er_model_response :: string
  er_expected_behavior :: string
  scores :: "CriteriaScore list"
  overall_score :: real
  er_tool_calls_made :: "json list"
  er_tool_results :: "json list"
  er_judge_model :: string
  evaluation_timestamp :: string
  additional_notes :: "string option"

record EvaluationConfig =
  judge_model :: string
  temperature :: real
  criteria_weights :: "EvaluationCriteria \<rightharpoonup> real"
  timeout_seconds :: int

text \<open>The \<^verbatim>\<open>default_factory\<close> of \<^verbatim>\<open>criteria_weights\<close>.\<close>

definition default_criteria_weights :: "EvaluationCriteria \<rightharpoonup> real" where
  "default_criteria_weights =
     [TASK_PERFORMANCE \<mapsto> 0.30, RESPONSE_QUALITY \<mapsto> 0.25, LANGUAGE_QUALITY \<mapsto> 0.15,
      TOOL_USAGE \<mapsto> 0.15, FACTUAL_ACCURACY \<mapsto> 0.15]"

definition default_config :: EvaluationConfig where
  "default_config =
     \<lparr>judge_model = ''gpt-4o'', temperature = 0.1,
      criteria_weights = default_criteria_weights, timeout_seconds = 60\<rparr>"

section \<open>Provider and benchmark data model (providers/base.py, benchmark/models.py)\<close>

record ModelResponse =
  mr_content :: string
  mr_usage :: "(string \<times> int) list option"
  mr_model :: string
  mr_provider :: string
  mr_tool_calls :: "(string \<times> json) list list"
  mr_error :: "string option"
  mr_latency_ms :: "real option"

record ToolCall =
  tc_name :: string
  tc_arguments :: "(string \<times> json) list"
  tc_call_id :: "string option"

record Message =
  msg_role :: string
  msg_content :: string
  msg_tool_calls :: "ToolCall list"
  msg_tool_call_id :: "string option"

record ModelConfig =
  mc_model_name :: string
  mc_temperature :: real
  mc_max_tokens :: int

text \<open>
  A provider object. \<^verbatim>\<open>generate_response\<close> is the awaited call under
  \<^verbatim>\<open>asyncio.wait_for\<close>: it returns a response, raises, or raises \<^verbatim>\<open>TimeoutError\<close>
  when the timeout expires. The two prompt texts and the tool declarations are fields.
\<close>

record provider =
  provider_name :: string
  default_system_prompt :: string
  response_formatting_prompt :: string
  database_tools :: "json list"
  generate_response ::
    "Message list \<Rightarrow> ModelConfig \<Rightarrow> json list option \<Rightarrow> exn + ModelResponse"
  execute_tool_call :: "ToolCall \<Rightarrow> exn + json"

record TestCase =
  case_id :: string
  case_scenario_type :: string
  case_user_query :: string
  case_expected_behavior :: string

record TestResult =
  tr_test_case_id :: string
  tr_model_id :: string
  tr_scenario_type :: string
  tr_user_query :: string
  tr_model_response :: ModelResponse
  tr_tool_calls_made :: "json list"
  tr_tool_results :: "json list"
  tr_execution_time_ms :: real
  tr_timestamp :: string
  tr_error :: "string option"

datatype BenchmarkStatus = PENDING | RUNNING | COMPLETED | FAILED | CANCELLED

record ModelBenchmarkResults =
  mb_model_id :: string
  test_results :: "TestResult list"
  status :: BenchmarkStatus

record BenchmarkConfig =
  concurrent_models :: nat
  timeout_per_test :: int
  save_intermediate_results :: bool
  include_tool_execution :: bool

text \<open>The defaults of the fields of \<^verbatim>\<open>BenchmarkConfig\<close>.\<close>

definition default_benchmark_config :: BenchmarkConfig where
  "default_benchmark_config =
     \<lparr>concurrent_models = 3, timeout_per_test = 60, save_intermediate_results = True,
      include_tool_execution = True\<rparr>"

record BenchmarkProgress =
  bp_total_tests :: nat
  bp_completed_tests :: nat
  bp_failed_tests :: nat
  bp_current_model :: "string option"
  bp_progress_percentage :: real

section \<open>The judge (evaluation/judge.py)\<close>

subsection \<open>Weighted score\<close>

text \<open>
  \<^verbatim>\<open>_calculate_weighted_score\<close>: the loop accumulates \<^verbatim>\<open>total_score\<close> and
  \<^verbatim>\<open>total_weight\<close>; a criterion without a configured weight counts with 0.2.
\<close>

definition weight_of :: "EvaluationConfig \<Rightarrow> CriteriaScore \<Rightarrow> real" where
  "weight_of cfg s = (case criteria_weights cfg (criteria s) of None \<Rightarrow> 0.2 | Some w \<Rightarrow> w)"

fun weighted_loop :: "EvaluationConfig \<Rightarrow> CriteriaScore list \<Rightarrow> real \<times> real \<Rightarrow> real \<times> real" where
  "weighted_loop cfg [] acc = acc"
| "weighted_loop cfg (s # ss) (total_score, total_weight) =
     weighted_loop cfg ss
       (total_score + of_int (score_value s) * weight_of cfg s, total_weight + weight_of cfg s)"

definition calculate_weighted_score :: "EvaluationConfig \<Rightarrow> CriteriaScore list \<Rightarrow> real" where
  "calculate_weighted_score cfg ss =
     (case weighted_loop cfg ss (0, 0) of
        (total_score, total_weight) \<Rightarrow>
          if total_weight > 0 then total_score / total_weight else 3.0)"

subsection \<open>Text helpers: the methods of \<^verbatim>\<open>str\<close> that the parser uses\<close>

text \<open>
  A \<^typ>\<open>char\<close> stands for a code point below 256. \<^verbatim>\<open>str.strip()\<close> removes the code
  points for which \<^verbatim>\<open>str.isspace\<close> holds: in this range 9 to 13, 28 to 32, 133 and 160.
\<close>

definition py_isspace :: "char \<Rightarrow> bool" where
  "py_isspace c =
     (let n = (of_char c :: nat)
      in (9 \<le> n \<and> n \<le> 13) \<or> (28 \<le> n \<and> n \<le> 32) \<or> n = 133 \<or> n = 160)"

definition strip :: "string \<Rightarrow> string" where
  "strip s = rev (dropWhile py_isspace (rev (dropWhile py_isspace s)))"

definition startswith :: "string \<Rightarrow> string \<Rightarrow> bool" where
  "startswith s p = (take (length p) s = p)"

definition endswith :: "string \<Rightarrow> string \<Rightarrow> bool" where
  "endswith s p = (length p \<le> length s \<and> drop (length s - length p) s = p)"

text \<open>\<^verbatim>\<open>s.find(c)\<close> and \<^verbatim>\<open>s.rfind(c)\<close> for a one-character needle: an index, or -1.\<close>

fun find_char :: "string \<Rightarrow> char \<Rightarrow> int" where
  "find_char [] c = -1"
| "find_char (x # xs) c =
     (if x = c then 0 else (let r = find_char xs c in if r < 0 then -1 else r + 1))"

definition rfind_char :: "string \<Rightarrow> char \<Rightarrow> int" where
  "rfind_char s c =
     (let r = find_char (rev s) c in if r < 0 then -1 else int (length s) - 1 - r)"

subsection \<open>Trimming the judge's response\<close>

text \<open>
  The first lines of \<^verbatim>\<open>_parse_evaluation_response\<close>, up to the call of \<^verbatim>\<open>json.loads\<close>:
  the string that is handed to the JSON parser.
\<close>

definition trim_response_content :: "string \<Rightarrow> string" where
  "trim_response_content response_content =
     (let s1 = strip response_content;
          s2 = (if startswith s1 ''```json'' then drop 7 s1 else s1);
          s3 = (if endswith s2 ''```'' then take (length s2 - 3) s2 else s2);
          json_start = find_char s3 CHR ''{'';
          s4 = (if json_start > 0 then drop (nat json_start) s3 else s3);
          json_end = rfind_char s4 CHR ''}'';
          s5 = (if json_end > 0 \<and> json_end < int (length s4) - 1
                then take (nat (json_end + 1)) s4 else s4)
      in strip s5)"

subsection \<open>Parsing the criteria\<close>

text \<open>\<^verbatim>\<open>isinstance(v, int)\<close> holds for integers and for booleans, which count as 1 and 0.\<close>

fun as_int :: "json \<Rightarrow> int option" where
  "as_int (JInt n) = Some n"
| "as_int (JBool b) = Some (if b then 1 else 0)"
| "as_int v = None"

definition score_mapping :: "int \<Rightarrow> ScoreLevel" where
  "score_mapping n =
     (if n = 5 then EXCELLENT else if n = 4 then GOOD else if n = 3 then SATISFACTORY
      else if n = 2 then POOR else if n = 1 then VERY_POOR else SATISFACTORY)"

text \<open>The body of the inner \<^verbatim>\<open>try\<close> for one entry of the judge's object.\<close>

definition parse_criteria :: "string \<Rightarrow> json \<Rightarrow> exn + CriteriaScore" where
  "parse_criteria criteria_name criteria_data =
     (case EvaluationCriteria_of criteria_name of
        Inl e \<Rightarrow> Inl e
      | Inr c \<Rightarrow>
     (case subscript criteria_data ''score'' of
        Inl e \<Rightarrow> Inl e
      | Inr sv \<Rightarrow>
     (case (case as_int sv of Some n \<Rightarrow> Inr (score_mapping n) | None \<Rightarrow> ScoreLevel_of sv) of
        Inl e \<Rightarrow> Inl e
      | Inr score_level \<Rightarrow>
     (case subscript criteria_data ''reasoning'' of
        Inl e \<Rightarrow> Inl e
      | Inr rv \<Rightarrow>
     (case validate_str ''CriteriaScore'' rv of
        Inl e \<Rightarrow> Inl e
      | Inr r \<Rightarrow> Inr (CriteriaScore_init c score_level r None))))))"

text \<open>
  The loop over \<^verbatim>\<open>evaluation_data.items()\<close> with its handler for
  \<^verbatim>\<open>(KeyError, ValueError)\<close>. The handler looks the criterion name up again, and an
  exception raised there, like any other exception, leaves the loop.
\<close>

fun parse_scores ::
  "runtime \<Rightarrow> (string \<times> json) list \<Rightarrow> CriteriaScore list \<Rightarrow> exn + CriteriaScore list" where
  "parse_scores rt [] acc = Inr acc"
| "parse_scores rt ((criteria_name, criteria_data) # rest) acc =
     (if criteria_name = ''additional_notes'' then parse_scores rt rest acc
      else case parse_criteria criteria_name criteria_data of
        Inr cs \<Rightarrow> parse_scores rt rest (acc @ [cs])
      | Inl e \<Rightarrow>
          if is_KeyError_or_ValueError e then
            (case EvaluationCriteria_of criteria_name of
               Inl e' \<Rightarrow> Inl e'
             | Inr c \<Rightarrow>
                 parse_scores rt rest
                   (acc @ [CriteriaScore_init c SATISFACTORY
                             (''Failed to parse score: '' @ str_exn rt e) None]))
          else Inl e)"

text \<open>\<^verbatim>\<open>test_case_context.get("expected_behavior", "")\<close>.\<close>

definition context_expected_behavior :: "(string \<times> json) list \<Rightarrow> json" where
  "context_expected_behavior ctx =
     (case dict_get ctx ''expected_behavior'' of None \<Rightarrow> JStr [] | Some v \<Rightarrow> v)"

text \<open>
  \<^verbatim>\<open>_create_fallback_evaluation\<close>. The constructor of \<^verbatim>\<open>EvaluationResult\<close> validates
  \<^verbatim>\<open>expected_behavior\<close>, which comes from the caller's dictionary.
\<close>

definition create_fallback_evaluation ::
  "runtime \<Rightarrow> EvaluationConfig \<Rightarrow> TestResult \<Rightarrow> (string \<times> json) list \<Rightarrow> string \<Rightarrow>
   exn + EvaluationResult" where
  "create_fallback_evaluation rt cfg test_result ctx error_msg =
     (let scores = map (\<lambda>c. CriteriaScore_init c SATISFACTORY
                               (''Evaluation failed: '' @ error_msg) None) all_criteria
      in case validate_str ''EvaluationResult'' (context_expected_behavior ctx) of
           Inl e \<Rightarrow> Inl e
         | Inr eb \<Rightarrow>
             Inr \<lparr>er_test_case_id = tr_test_case_id test_result,
                  er_model_id = tr_model_id test_result,
                  er_scenario_type = tr_scenario_type test_result,
                  er_user_query = tr_user_query test_result,
                  er_model_response = mr_content (tr_model_response test_result),
                  er_expected_behavior = eb,
                  scores = scores,
                  overall_score = 3.0,
                  er_tool_calls_made = tr_tool_calls_made test_result,
                  er_tool_results = tr_tool_results test_result,
                  er_judge_model = judge_model cfg,
                  evaluation_timestamp = now_iso rt,
                  additional_notes =
                    Some (''Fallback evaluation due to error: '' @ error_msg)\<rparr>)"

text \<open>\<^verbatim>\<open>evaluation_data.items()\<close>: only a dict has the method.\<close>

fun items :: "json \<Rightarrow> exn + (string \<times> json) list" where
  "items (JObj d) = Inr d"
| "items v = Inl (AttributeError v ''items'')"

text \<open>The body of the outer \<^verbatim>\<open>try\<close> of \<^verbatim>\<open>_parse_evaluation_response\<close>.\<close>

definition parse_evaluation_body ::
  "runtime \<Rightarrow> EvaluationConfig \<Rightarrow> string \<Rightarrow> TestResult \<Rightarrow> (string \<times> json) list \<Rightarrow>
   exn + EvaluationResult" where
  "parse_evaluation_body rt cfg response_content test_result ctx =
     (case json_loads rt (trim_response_content response_content) of
        Inl e \<Rightarrow> Inl e
      | Inr evaluation_data \<Rightarrow>
     (case items evaluation_data of
        Inl e \<Rightarrow> Inl e
      | Inr d \<Rightarrow>
     (case parse_scores rt d [] of
        Inl e \<Rightarrow> Inl e
      | Inr ss \<Rightarrow>
     (case validate_str ''EvaluationResult'' (context_expected_behavior ctx) of
        Inl e \<Rightarrow> Inl e
      | Inr eb \<Rightarrow>
     (case validate_optional_str ''EvaluationResult'' (dict_get d ''additional_notes'') of
        Inl e \<Rightarrow> Inl e
      | Inr notes \<Rightarrow>
          Inr \<lparr>er_test_case_id = tr_test_case_id test_result,
               er_model_id = tr_model_id test_result,
               er_scenario_type = tr_scenario_type test_result,
               er_user_query = tr_user_query test_result,
               er_model_response = mr_content (tr_model_response test_result),
               er_expected_behavior = eb,
               scores = ss,
               overall_score = calculate_weighted_score cfg ss,
               er_tool_calls_made = tr_tool_calls_made test_result,
               er_tool_results = tr_tool_results test_result,
               er_judge_model = judge_model cfg,
               evaluation_timestamp = now_iso rt,
               additional_notes = notes\<rparr>)))))"

definition parse_evaluation_response ::
  "runtime \<Rightarrow> EvaluationConfig \<Rightarrow> string \<Rightarrow> TestResult \<Rightarrow> (string \<times> json) list \<Rightarrow>
   exn + EvaluationResult" where
  "parse_evaluation_response rt cfg response_content test_result ctx =
     (case parse_evaluation_body rt cfg response_content test_result ctx of
        Inr r \<Rightarrow> Inr r
      | Inl e \<Rightarrow>
          create_fallback_evaluation rt cfg test_result ctx (''Parse error: '' @ str_exn rt e))"

subsection \<open>Evaluating one test result\<close>

text \<open>
  The judge object: its configuration, the \<^verbatim>\<open>models\<close> table of the provider factory,
  the prompt builder and the judge's provider. The prompt text is not modelled; building
  it can raise on malformed tool results.
\<close>

record LLMJudge =
  config :: EvaluationConfig
  models_config :: "string \<rightharpoonup> (string \<times> json) list"
  create_evaluation_prompt :: "TestResult \<Rightarrow> (string \<times> json) list \<Rightarrow> exn + string"
  judge_provider :: provider

text \<open>
  \<^verbatim>\<open>judge_model_config.get("model_name") if judge_model_config else self.config.judge_model\<close>;
  an absent or empty table entry is falsy. A missing \<^verbatim>\<open>model_name\<close> is \<^verbatim>\<open>None\<close>.
\<close>

definition actual_model_name :: "LLMJudge \<Rightarrow> json" where
  "actual_model_name judge =
     (case models_config judge (judge_model (config judge)) of
        None \<Rightarrow> JStr (judge_model (config judge))
      | Some [] \<Rightarrow> JStr (judge_model (config judge))
      | Some d \<Rightarrow> (case dict_get d ''model_name'' of None \<Rightarrow> JNull | Some v \<Rightarrow> v))"

text \<open>
  The first half of the \<^verbatim>\<open>try\<close> of \<^verbatim>\<open>evaluate_test_result\<close>: the prompt, the
  message list, the model configuration and the awaited provider call.
\<close>

definition call_judge ::
  "LLMJudge \<Rightarrow> TestResult \<Rightarrow> (string \<times> json) list \<Rightarrow> exn + ModelResponse" where
  "call_judge judge test_result ctx =
     (case create_evaluation_prompt judge test_result ctx of
        Inl e \<Rightarrow> Inl e
      | Inr evaluation_prompt \<Rightarrow>
          (case validate_str ''ModelConfig'' (actual_model_name judge) of
             Inl e \<Rightarrow> Inl e
           | Inr name \<Rightarrow>
               generate_response (judge_provider judge)
                 [\<lparr>msg_role = ''user'', msg_content = evaluation_prompt,
                   msg_tool_calls = [], msg_tool_call_id = None\<rparr>]
                 \<lparr>mc_model_name = name, mc_temperature = temperature (config judge),
                  mc_max_tokens = 2000\<rparr>
                 None))"

text \<open>The whole body of that \<^verbatim>\<open>try\<close>: the response content goes to the parser.\<close>

definition evaluate_body ::
  "runtime \<Rightarrow> LLMJudge \<Rightarrow> TestResult \<Rightarrow> (string \<times> json) list \<Rightarrow> exn + EvaluationResult" where
  "evaluate_body rt judge test_result ctx =
     (case call_judge judge test_result ctx of
        Inl e \<Rightarrow> Inl e
      | Inr response \<Rightarrow>
          parse_evaluation_response rt (config judge) (mr_content response) test_result ctx)"

definition evaluate_test_result ::
  "runtime \<Rightarrow> LLMJudge \<Rightarrow> TestResult \<Rightarrow> (string \<times> json) list \<Rightarrow> exn + EvaluationResult" where
  "evaluate_test_result rt judge test_result ctx =
     (case evaluate_body rt judge test_result ctx of
        Inr r \<Rightarrow> Inr r
      | Inl e \<Rightarrow> create_fallback_evaluation rt (config judge) test_result ctx (str_exn rt e))"

section \<open>The benchmark executor (benchmark/executor.py)\<close>

subsection \<open>Recovering tool-call arguments\<close>

datatype log_record = LogWarning string | LogError string

text \<open>\<^verbatim>\<open>isinstance(v, str)\<close>.\<close>

fun is_str :: "json \<Rightarrow> bool" where
  "is_str (JStr s) = True"
| "is_str v = False"

fun is_JSONDecodeError :: "exn \<Rightarrow> bool" where
  "is_JSONDecodeError (JSONDecodeError m) = True"
| "is_JSONDecodeError e = False"

text \<open>Python's \<^verbatim>\<open>sub in s\<close> for strings.\<close>

fun contains :: "string \<Rightarrow> string \<Rightarrow> bool" where
  "contains [] sub = (sub = [])"
| "contains (x # xs) sub = (startswith (x # xs) sub \<or> contains xs sub)"

text \<open>The pattern of the last recovery step, \<^verbatim>\<open>\{.*?\}(?=\s*[^\}\s]|$)\<close>.\<close>

definition json_pattern :: string where
  "json_pattern =
     [CHR 0x5C] @ ''{.*?'' @ [CHR 0x5C] @ ''}(?='' @ [CHR 0x5C] @ ''s*[^'' @ [CHR 0x5C] @ ''}''
     @ [CHR 0x5C] @ ''s]|$)''"

text \<open>
  \<^verbatim>\<open>safe_json_loads\<close>, with the records it hands to the logger. The argument is any
  Python value; a string is a \<^const>\<open>JStr\<close>. Only \<^verbatim>\<open>JSONDecodeError\<close> is caught, and the
  error raised at the end is the first one.
\<close>

definition safe_json_loads :: "runtime \<Rightarrow> json \<Rightarrow> (exn + json) \<times> log_record list" where
  "safe_json_loads rt v =
     (case v of
        JStr json_str \<Rightarrow>
          (case json_loads rt json_str of
             Inr obj \<Rightarrow> (Inr obj, [])
           | Inl e \<Rightarrow>
               if \<not> is_JSONDecodeError e then (Inl e, [])
               else if contains (str_exn rt e) ''Extra data'' then
                 (case raw_decode rt json_str of
                    Inr (obj, idx) \<Rightarrow>
                      (Inr obj,
                       [LogWarning (''Found extra data after JSON: '' @ [CHR 0x27]
                                     @ drop idx json_str @ [CHR 0x27])])
                  | Inl e2 \<Rightarrow>
                      if \<not> is_JSONDecodeError e2 then (Inl e2, [])
                      else
                        (case re_search rt json_pattern json_str of
                           None \<Rightarrow> (Inl e, [LogError (''Failed to parse JSON: '' @ json_str)])
                         | Some m \<Rightarrow>
                             (case json_loads rt m of
                                Inr obj \<Rightarrow> (Inr obj, [])
                              | Inl e3 \<Rightarrow>
                                  if is_JSONDecodeError e3
                                  then (Inl e, [LogError (''Failed to parse JSON: '' @ json_str)])
                                  else (Inl e3, []))))
               else (Inl e, [LogError (''Failed to parse JSON: '' @ json_str)]))
      | _ \<Rightarrow> (Inr v, []))"

subsection \<open>Rate limiting\<close>

text \<open>
  The mutable state of the executor that a worker touches: how many times
  \<^verbatim>\<open>time.time()\<close> has been read, the map \<^verbatim>\<open>last_request_time\<close>, and the durations
  passed to \<^verbatim>\<open>asyncio.sleep\<close>.
\<close>

record executor_state =
  tick :: nat
  last_request_time :: "string \<rightharpoonup> real"
  sleeps :: "real list"

definition apply_rate_limit ::
  "runtime \<Rightarrow> real \<Rightarrow> string \<Rightarrow> executor_state \<Rightarrow> executor_state" where
  "apply_rate_limit rt delay model_id st =
     (let current_time = time_time rt (tick st);
          last_request = (case last_request_time st model_id of None \<Rightarrow> 0 | Some t \<Rightarrow> t);
          time_since_last = current_time - last_request
      in st\<lparr>tick := tick st + 2,
            last_request_time := (last_request_time st)(model_id \<mapsto> time_time rt (tick st + 1)),
            sleeps := (if time_since_last < delay
                       then sleeps st @ [delay - time_since_last] else sleeps st)\<rparr>)"

subsection \<open>One test\<close>

text \<open>
  Normalising one entry of \<^verbatim>\<open>response.tool_calls\<close> into a \<^verbatim>\<open>ToolCall\<close>: the fields
  come from the \<^verbatim>\<open>function\<close> member when there is one, otherwise from the entry itself;
  string arguments go through \<^const>\<open>safe_json_loads\<close>; the constructor validates.
\<close>

definition tool_call_holder :: "(string \<times> json) list \<Rightarrow> json" where
  "tool_call_holder tool_call_info =
     (case dict_get tool_call_info ''function'' of
        Some func \<Rightarrow> func | None \<Rightarrow> JObj tool_call_info)"

definition make_tool_call :: "runtime \<Rightarrow> (string \<times> json) list \<Rightarrow> exn + ToolCall" where
  "make_tool_call rt tool_call_info =
     (let holder = tool_call_holder tool_call_info
      in (case subscript holder ''name'' of
            Inl e \<Rightarrow> Inl e
          | Inr name \<Rightarrow>
         (case subscript holder ''arguments'' of
            Inl e \<Rightarrow> Inl e
          | Inr raw \<Rightarrow>
         (case (if is_str raw then fst (safe_json_loads rt raw) else Inr raw) of
            Inl e \<Rightarrow> Inl e
          | Inr arguments \<Rightarrow>
         (case validate_str ''ToolCall'' name of
            Inl e \<Rightarrow> Inl e
          | Inr n \<Rightarrow>
         (case items arguments of
            Inl e \<Rightarrow> Inl (ValidationError ''ToolCall'')
          | Inr a \<Rightarrow>
         (case validate_optional_str ''ToolCall'' (dict_get tool_call_info ''id'') of
            Inl e \<Rightarrow> Inl e
          | Inr cid \<Rightarrow> Inr \<lparr>tc_name = n, tc_arguments = a, tc_call_id = cid\<rparr>)))))))"

text \<open>Merging the second response into the first: content and token usage.\<close>

definition usage_get :: "(string \<times> int) list \<Rightarrow> string \<Rightarrow> int" where
  "usage_get d k = (case map_of d k of None \<Rightarrow> 0 | Some n \<Rightarrow> n)"

fun usage_set :: "(string \<times> int) list \<Rightarrow> string \<Rightarrow> int \<Rightarrow> (string \<times> int) list" where
  "usage_set [] k v = [(k, v)]"
| "usage_set ((k', v') # d) k v = (if k' = k then (k, v) # d else (k', v') # usage_set d k v)"

definition truthy_usage :: "(string \<times> int) list option \<Rightarrow> bool" where
  "truthy_usage u = (case u of None \<Rightarrow> False | Some d \<Rightarrow> d \<noteq> [])"

definition merge_final_response :: "ModelResponse \<Rightarrow> ModelResponse \<Rightarrow> ModelResponse" where
  "merge_final_response response final_response =
     (let r = response\<lparr>mr_content := mr_content final_response\<rparr>
      in if truthy_usage (mr_usage final_response) then
           (case mr_usage r of
              None \<Rightarrow> r\<lparr>mr_usage := mr_usage final_response\<rparr>
            | Some u \<Rightarrow>
                if u = [] then r\<lparr>mr_usage := mr_usage final_response\<rparr>
                else
                  r\<lparr>mr_usage :=
                       Some (usage_set u ''total_tokens''
                               (usage_get u ''total_tokens''
                                + (case mr_usage final_response of
                                     None \<Rightarrow> 0
                                   | Some f \<Rightarrow> usage_get f ''total_tokens'')))\<rparr>)
         else r)"

record loop_state =
  ls_messages :: "Message list"
  ls_response :: ModelResponse
  ls_tool_calls_made :: "json list"
  ls_tool_results :: "json list"
  ls_exec :: executor_state

definition error_payload :: "runtime \<Rightarrow> exn \<Rightarrow> json" where
  "error_payload rt e = JObj [(''error'', JStr (str_exn rt e))]"

text \<open>
  The body of the loop over the tool calls with its handler: whatever the body had
  appended before the exception stays, and the handler appends an error payload.
\<close>

definition tool_call_step ::
  "runtime \<Rightarrow> real \<Rightarrow> provider \<Rightarrow> ModelConfig \<Rightarrow> string \<Rightarrow> loop_state \<Rightarrow>
   (string \<times> json) list \<Rightarrow> loop_state" where
  "tool_call_step rt delay p model_config model_id ls tool_call_info =
     (case make_tool_call rt tool_call_info of
        Inl e \<Rightarrow> ls\<lparr>ls_tool_results := ls_tool_results ls @ [error_payload rt e]\<rparr>
      | Inr tool_call \<Rightarrow>
          (case execute_tool_call p tool_call of
             Inl e \<Rightarrow> ls\<lparr>ls_tool_results := ls_tool_results ls @ [error_payload rt e]\<rparr>
           | Inr tool_result \<Rightarrow>
              (let ls1 = ls\<lparr>
                     ls_tool_calls_made := ls_tool_calls_made ls @
                       [JObj [(''name'', JStr (tc_name tool_call)),
                              (''arguments'', JObj (tc_arguments tool_call)),
                              (''id'', (case tc_call_id tool_call of
                                           None \<Rightarrow> JNull | Some c \<Rightarrow> JStr c))]],
                     ls_tool_results := ls_tool_results ls @ [tool_result],
                     ls_messages :=
                       (ls_messages ls @
                        [\<lparr>msg_role = ''assistant'', msg_content = mr_content (ls_response ls),
                          msg_tool_calls = [tool_call], msg_tool_call_id = None\<rparr>,
                         \<lparr>msg_role = ''tool'', msg_content = json_dumps rt tool_result,
                          msg_tool_calls = [], msg_tool_call_id = tc_call_id tool_call\<rparr>])
                       [0 := \<lparr>msg_role = ''system'',
                              msg_content = response_formatting_prompt p,
                              msg_tool_calls = [], msg_tool_call_id = None\<rparr>],
                     ls_exec := apply_rate_limit rt delay model_id (ls_exec ls)\<rparr>
               in (case generate_response p (ls_messages ls1) model_config None of
                     Inl e \<Rightarrow>
                       ls1\<lparr>ls_tool_results := ls_tool_results ls1 @ [error_payload rt e]\<rparr>
                   | Inr final_response \<Rightarrow>
                       ls1\<lparr>ls_response :=
                             merge_final_response (ls_response ls1) final_response\<rparr>))))"

fun tool_call_loop ::
  "runtime \<Rightarrow> real \<Rightarrow> provider \<Rightarrow> ModelConfig \<Rightarrow> string \<Rightarrow> loop_state \<Rightarrow>
   (string \<times> json) list list \<Rightarrow> loop_state" where
  "tool_call_loop rt delay p model_config model_id ls [] = ls"
| "tool_call_loop rt delay p model_config model_id ls (info # rest) =
     tool_call_loop rt delay p model_config model_id
       (tool_call_step rt delay p model_config model_id ls info) rest"

text \<open>\<^verbatim>\<open>format_messages_with_system_prompt\<close> of the provider base class.\<close>

definition format_messages_with_system_prompt :: "provider \<Rightarrow> string \<Rightarrow> Message list" where
  "format_messages_with_system_prompt p user_query =
     [\<lparr>msg_role = ''system'', msg_content = default_system_prompt p,
       msg_tool_calls = [], msg_tool_call_id = None\<rparr>,
      \<lparr>msg_role = ''user'', msg_content = user_query,
       msg_tool_calls = [], msg_tool_call_id = None\<rparr>]"

text \<open>The two handlers at the end of \<^verbatim>\<open>_run_single_test\<close>; each reads the clock once.\<close>

definition failed_test_result ::
  "runtime \<Rightarrow> provider \<Rightarrow> ModelConfig \<Rightarrow> TestCase \<Rightarrow> string \<Rightarrow> real \<Rightarrow> exn \<Rightarrow>
   executor_state \<Rightarrow> TestResult \<times> executor_state" where
  "failed_test_result rt p model_config test_case model_id start_time e st =
     (let execution_time = (time_time rt (tick st) - start_time) * 1000;
          st' = st\<lparr>tick := tick st + 1\<rparr>
      in (\<lparr>tr_test_case_id = case_id test_case,
           tr_model_id = model_id,
           tr_scenario_type = case_scenario_type test_case,
           tr_user_query = case_user_query test_case,
           tr_model_response =
             \<lparr>mr_content = [], mr_usage = None, mr_model = mc_model_name model_config,
              mr_provider = provider_name p, mr_tool_calls = [],
              mr_error = Some (if e = TimeoutError then ''Timeout'' else str_exn rt e),
              mr_latency_ms = None\<rparr>,
           tr_tool_calls_made = [],
           tr_tool_results = [],
           tr_execution_time_ms = execution_time,
           tr_timestamp = now_iso rt,
           tr_error = Some (if e = TimeoutError then ''Test timed out'' else str_exn rt e)\<rparr>,
          st'))"

fun is_dict :: "json \<Rightarrow> bool" where
  "is_dict (JObj d) = True"
| "is_dict v = False"

text \<open>
  \<^verbatim>\<open>_run_single_test\<close>. The constructor of \<^verbatim>\<open>TestResult\<close> validates that every tool
  result is a dict; its \<^verbatim>\<open>ValidationError\<close> reaches the second handler.
\<close>

definition run_single_test ::
  "runtime \<Rightarrow> BenchmarkConfig \<Rightarrow> real \<Rightarrow> provider \<Rightarrow> ModelConfig \<Rightarrow> TestCase \<Rightarrow> string \<Rightarrow>
   executor_state \<Rightarrow> TestResult \<times> executor_state" where
  "run_single_test rt cfg delay p model_config test_case model_id st =
     (let start_time = time_time rt (tick st);
          st1 = st\<lparr>tick := tick st + 1\<rparr>;
          messages = format_messages_with_system_prompt p (case_user_query test_case);
          tools = (if include_tool_execution cfg then Some (database_tools p) else None)
      in case generate_response p messages model_config tools of
           Inl e \<Rightarrow> failed_test_result rt p model_config test_case model_id start_time e st1
         | Inr response \<Rightarrow>
             let ls0 = \<lparr>ls_messages = messages, ls_response = response,
                        ls_tool_calls_made = [], ls_tool_results = [], ls_exec = st1\<rparr>;
                 ls = (if mr_tool_calls response \<noteq> [] \<and> include_tool_execution cfg
                       then tool_call_loop rt delay p model_config model_id ls0
                              (mr_tool_calls response)
                       else ls0);
                 execution_time = (time_time rt (tick (ls_exec ls)) - start_time) * 1000;
                 st2 = (ls_exec ls)\<lparr>tick := tick (ls_exec ls) + 1\<rparr>
             in if list_all is_dict (ls_tool_results ls) then
                  (\<lparr>tr_test_case_id = case_id test_case,
                    tr_model_id = model_id,
                    tr_scenario_type = case_scenario_type test_case,
                    tr_user_query = case_user_query test_case,
                    tr_model_response = ls_response ls,
                    tr_tool_calls_made = ls_tool_calls_made ls,
                    tr_tool_results = ls_tool_results ls,
                    tr_execution_time_ms = execution_time,
                    tr_timestamp = now_iso rt,
                    tr_error = None\<rparr>, st2)
                else failed_test_result rt p model_config test_case model_id start_time
                       (ValidationError ''TestResult'') st2)"

subsection \<open>One model\<close>

text \<open>
  The executor object: configuration, pacing delay, the provider factory's two lookups,
  the optional progress callback (which may raise) and the outcome of writing a
  model's results to disk.
\<close>

record BenchmarkExecutor =
  exec_config :: BenchmarkConfig
  rate_limit_delay :: real
  get_provider :: "string \<Rightarrow> provider option"
  get_model_config :: "string \<Rightarrow> (string \<times> json) list option"
  progress_callback :: "(BenchmarkProgress \<Rightarrow> exn option) option"
  save_model_results :: "ModelBenchmarkResults \<Rightarrow> exn option"

record BenchmarkRun =
  run_test_cases :: "TestCase list"
  models_to_test :: "string list"
  model_results :: "ModelBenchmarkResults list"
  estimated_total_tests :: nat

text \<open>The part of \<^verbatim>\<open>run_benchmark\<close> that creates the run and one pending entry per model.\<close>

definition initial_run :: "TestCase list \<Rightarrow> string list \<Rightarrow> BenchmarkRun" where
  "initial_run test_cases model_ids =
     \<lparr>run_test_cases = test_cases,
      models_to_test = model_ids,
      model_results =
        map (\<lambda>model_id. \<lparr>mb_model_id = model_id, test_results = [], status = PENDING\<rparr>)
          model_ids,
      estimated_total_tests = length test_cases * length model_ids\<rparr>"

text \<open>The constructor call \<^verbatim>\<open>ModelConfig(model_name=..., temperature=..., max_tokens=...)\<close>.\<close>

definition model_config_of ::
  "runtime \<Rightarrow> (string \<times> json) list \<Rightarrow> string \<Rightarrow> exn + ModelConfig" where
  "model_config_of rt d model_id =
     (case validate_str ''ModelConfig''
             (case dict_get d ''model_name'' of None \<Rightarrow> JStr model_id | Some v \<Rightarrow> v) of
        Inl e \<Rightarrow> Inl e
      | Inr name \<Rightarrow>
          (case validate_float rt
                  (case dict_get d ''temperature'' of None \<Rightarrow> JFloat 0.7 | Some v \<Rightarrow> v) of
             None \<Rightarrow> Inl (ValidationError ''ModelConfig'')
           | Some t \<Rightarrow>
               (case validate_int rt
                       (case dict_get d ''max_tokens'' of None \<Rightarrow> JInt 1000 | Some v \<Rightarrow> v) of
                  None \<Rightarrow> Inl (ValidationError ''ModelConfig'')
                | Some m \<Rightarrow>
                    Inr \<lparr>mc_model_name = name, mc_temperature = t, mc_max_tokens = m\<rparr>)))"

text \<open>
  The progress report inside the loop. \<^verbatim>\<open>BenchmarkProgress\<close> rejects a percentage
  above 100; the callback may raise.
\<close>

definition report_progress ::
  "BenchmarkExecutor \<Rightarrow> BenchmarkRun \<Rightarrow> string \<Rightarrow> nat \<Rightarrow> nat \<Rightarrow> exn option" where
  "report_progress ex run model_id n_cases n_collected =
     (case progress_callback ex of
        None \<Rightarrow> None
      | Some callback \<Rightarrow>
          let total_tests = n_cases * length (models_to_test run);
              completed_tests =
                sum_list (map (\<lambda>mr. length (test_results mr)) (model_results run)) + n_collected;
              percentage = (if total_tests > 0
                            then (real completed_tests / real total_tests) * 100 else 0)
          in if percentage > 100 then Some (ValidationError ''BenchmarkProgress'')
             else callback \<lparr>bp_total_tests = total_tests,
                            bp_completed_tests = completed_tests,
                            bp_failed_tests = 0,
                            bp_current_model = Some model_id,
                            bp_progress_percentage = percentage\<rparr>)"

text \<open>
  The loop over the test cases. \<^verbatim>\<open>test_results\<close> collects results and, from the
  handler, exception objects.
\<close>

fun run_tests ::
  "runtime \<Rightarrow> BenchmarkExecutor \<Rightarrow> BenchmarkRun \<Rightarrow> provider \<Rightarrow> ModelConfig \<Rightarrow> string \<Rightarrow> nat \<Rightarrow>
   TestCase list \<Rightarrow> (exn + TestResult) list \<Rightarrow> executor_state \<Rightarrow>
   (exn + TestResult) list \<times> executor_state" where
  "run_tests rt ex run p model_config model_id n_cases [] collected st = (collected, st)"
| "run_tests rt ex run p model_config model_id n_cases (test_case # rest) collected st =
     (let st1 = apply_rate_limit rt (rate_limit_delay ex) model_id st;
          (result, st2) = run_single_test rt (exec_config ex) (rate_limit_delay ex) p
                            model_config test_case model_id st1;
          collected1 = collected @ [Inr result]
      in case report_progress ex run model_id n_cases (length collected1) of
           None \<Rightarrow> run_tests rt ex run p model_config model_id n_cases rest collected1 st2
         | Some e \<Rightarrow>
             run_tests rt ex run p model_config model_id n_cases rest (collected1 @ [Inl e]) st2)"

text \<open>The second loop keeps the entries that are \<^verbatim>\<open>TestResult\<close> objects.\<close>

fun keep_test_results :: "(exn + TestResult) list \<Rightarrow> TestResult list" where
  "keep_test_results [] = []"
| "keep_test_results (Inr r # xs) = r # keep_test_results xs"
| "keep_test_results (Inl e # xs) = keep_test_results xs"

text \<open>\<^verbatim>\<open>_update_progress\<close>: a report with the percentage capped at 100.\<close>

definition update_progress :: "BenchmarkExecutor \<Rightarrow> BenchmarkRun \<Rightarrow> exn option" where
  "update_progress ex run =
     (case progress_callback ex of
        None \<Rightarrow> None
      | Some callback \<Rightarrow>
          let completed_tests =
                sum_list (map (\<lambda>mr. length (test_results mr)) (model_results run));
              total_tests = estimated_total_tests run;
              failed_tests =
                sum_list (map (\<lambda>mr. length (filter (\<lambda>r. tr_error r \<noteq> None \<and> tr_error r \<noteq> Some [])
                                                (test_results mr))) (model_results run))
          in callback \<lparr>bp_total_tests = total_tests,
                        bp_completed_tests = completed_tests,
                        bp_failed_tests = failed_tests,
                        bp_current_model = None,
                        bp_progress_percentage =
                          min 100 (if total_tests > 0
                                   then real completed_tests / real total_tests * 100 else 0)\<rparr>)"

text \<open>
  \<^verbatim>\<open>_run_model_benchmark\<close>, the part under the semaphore. The entry of the model is
  read outside the \<^verbatim>\<open>try\<close>; every exception inside it marks the model as failed.
\<close>

definition run_model_benchmark ::
  "runtime \<Rightarrow> BenchmarkExecutor \<Rightarrow> BenchmarkRun \<Rightarrow> string \<Rightarrow> TestCase list \<Rightarrow> nat \<Rightarrow>
   executor_state \<Rightarrow> exn + BenchmarkRun \<times> executor_state" where
  "run_model_benchmark rt ex run model_id test_cases model_index st =
     (if model_index \<ge> length (model_results run) then Inl IndexError
      else
        let model_result = (model_results run ! model_index)\<lparr>status := RUNNING\<rparr>;
            store = (\<lambda>mr. run\<lparr>model_results := (model_results run)[model_index := mr]\<rparr>);
            failed = (\<lambda>mr s. Inr (store (mr\<lparr>status := FAILED\<rparr>), s))
        in case get_provider ex model_id of
             None \<Rightarrow> failed model_result st
           | Some p \<Rightarrow>
               (case get_model_config ex model_id of
                  None \<Rightarrow> failed model_result st
                | Some [] \<Rightarrow> failed model_result st
                | Some d \<Rightarrow>
                    (case model_config_of rt d model_id of
                       Inl e \<Rightarrow> failed model_result st
                     | Inr model_config \<Rightarrow>
                         let (collected, st') =
                               run_tests rt ex (store model_result) p model_config model_id
                                 (length test_cases) test_cases [] st;
                             completed = model_result\<lparr>
                               test_results :=
                                 test_results model_result @ keep_test_results collected,
                               status := COMPLETED\<rparr>
                         in if save_intermediate_results (exec_config ex)
                               \<and> save_model_results ex completed \<noteq> None
                            then failed completed st'
                            else if update_progress ex (store completed) \<noteq> None
                            then failed completed st'
                            else Inr (store completed, st'))))"

section \<open>Consensus of several judges (evaluation/multi_judge.py)\<close>

text \<open>\<^verbatim>\<open>str(n)\<close> of an integer, \<^verbatim>\<open>sep.join(xs)\<close>, and \<^verbatim>\<open>str\<close> of a list of integers.\<close>

fun str_nat :: "nat \<Rightarrow> string" where
  "str_nat n =
     (if n < 10 then [''0123456789'' ! n]
      else str_nat (n div 10) @ [''0123456789'' ! (n mod 10)])"

definition str_int :: "int \<Rightarrow> string" where
  "str_int i = (if i < 0 then CHR ''-'' # str_nat (nat (- i)) else str_nat (nat i))"

fun join :: "string \<Rightarrow> string list \<Rightarrow> string" where
  "join sep [] = []"
| "join sep [x] = x"
| "join sep (x # y # ys) = x @ sep @ join sep (y # ys)"

definition str_int_list :: "int list \<Rightarrow> string" where
  "str_int_list xs = ''['' @ join '', '' (map str_int xs) @ '']''"

text \<open>
  \<^verbatim>\<open>round(x)\<close> with one argument: the nearest integer, a tie going to the even one.
\<close>

definition py_round :: "real \<Rightarrow> int" where
  "py_round x =
     (let f = \<lfloor>x\<rfloor>; d = x - of_int f
      in if d < 1 / 2 then f else if d > 1 / 2 then f + 1
         else if even f then f else f + 1)"

text \<open>\<^verbatim>\<open>{v: k for k, v in SCORE_VALUES.items()}\<close>, and the subscript on it.\<close>

definition score_level_map :: "int \<Rightarrow> ScoreLevel option" where
  "score_level_map v =
     (if v = 5 then Some EXCELLENT else if v = 4 then Some GOOD
      else if v = 3 then Some SATISFACTORY else if v = 2 then Some POOR
      else if v = 1 then Some VERY_POOR else None)"

text \<open>
  The two inner loops for one criterion: for each judge in order, the first score of
  that criterion (the \<^verbatim>\<open>break\<close>), as its numeric value and its prefixed reasoning.
\<close>

fun collect_criteria ::
  "EvaluationCriteria \<Rightarrow> (string \<times> EvaluationResult) list \<Rightarrow> (int \<times> string) list" where
  "collect_criteria c [] = []"
| "collect_criteria c ((judge_name, evaluation) # rest) =
     (case find (\<lambda>s. criteria s = c) (scores evaluation) of
        None \<Rightarrow> collect_criteria c rest
      | Some s \<Rightarrow>
          (score_value s, judge_name @ '': '' @ reasoning s) # collect_criteria c rest)"

definition consensus_score ::
  "EvaluationCriteria \<Rightarrow> (string \<times> EvaluationResult) list \<Rightarrow> exn + CriteriaScore option" where
  "consensus_score c judge_evaluations =
     (let collected = collect_criteria c judge_evaluations;
          criteria_scores = map fst collected;
          criteria_reasonings = map snd collected
      in if criteria_scores = [] then Inr None
         else
           let consensus_score_value =
                 max 1 (min 5 (py_round (of_int (sum_list criteria_scores)
                                         / of_nat (length criteria_scores))))
           in case score_level_map consensus_score_value of
                None \<Rightarrow> Inl (KeyError (str_int consensus_score_value))
              | Some consensus_score_level \<Rightarrow>
                  Inr (Some (CriteriaScore_init c consensus_score_level
                        (''Consensus from '' @ str_nat (length criteria_scores)
                         @ '' judges (scores: '' @ str_int_list criteria_scores @ ''). ''
                         @ join ''; '' criteria_reasonings) None)))"

fun consensus_scores ::
  "EvaluationCriteria list \<Rightarrow> (string \<times> EvaluationResult) list \<Rightarrow> exn + CriteriaScore list" where
  "consensus_scores [] judge_evaluations = Inr []"
| "consensus_scores (c # cs) judge_evaluations =
     (case consensus_score c judge_evaluations of
        Inl e \<Rightarrow> Inl e
      | Inr r \<Rightarrow>
          (case consensus_scores cs judge_evaluations of
             Inl e \<Rightarrow> Inl e
           | Inr rest \<Rightarrow> Inr ((case r of None \<Rightarrow> [] | Some s \<Rightarrow> [s]) @ rest)))"

fun collect_notes :: "(string \<times> EvaluationResult) list \<Rightarrow> string list" where
  "collect_notes [] = []"
| "collect_notes ((judge_name, evaluation) # rest) =
     (case additional_notes evaluation of
        None \<Rightarrow> collect_notes rest
      | Some n \<Rightarrow>
          if n = [] then collect_notes rest
          else (judge_name @ '': '' @ n) # collect_notes rest)"

text \<open>
  \<^verbatim>\<open>_create_consensus_for_test\<close>; the dict of evaluations by judge is an association
  list in insertion order.
\<close>

definition create_consensus_for_test ::
  "runtime \<Rightarrow> string \<Rightarrow> (string \<times> EvaluationResult) list \<Rightarrow> exn + EvaluationResult" where
  "create_consensus_for_test rt test_id judge_evaluations =
     (case judge_evaluations of
        [] \<Rightarrow> Inl (ValueError ''No evaluations found for test'' (JStr test_id))
      | (first_judge, first_eval) # others \<Rightarrow>
          (case consensus_scores all_criteria judge_evaluations of
             Inl e \<Rightarrow> Inl e
           | Inr consensus \<Rightarrow>
               let overall_scores = map (\<lambda>(j, ev). overall_score ev) judge_evaluations;
                   consensus_overall = sum_list overall_scores / of_nat (length overall_scores);
                   notes = collect_notes judge_evaluations
               in Inr \<lparr>er_test_case_id = er_test_case_id first_eval,
                       er_model_id = er_model_id first_eval,
                       er_scenario_type = er_scenario_type first_eval,
                       er_user_query = er_user_query first_eval,
                       er_model_response = er_model_response first_eval,
                       er_expected_behavior = er_expected_behavior first_eval,
                       scores = consensus,
                       overall_score = consensus_overall,
                       er_tool_calls_made = er_tool_calls_made first_eval,
                       er_tool_results = er_tool_results first_eval,
                       er_judge_model = ''consensus_of_''
                         @ str_nat (length judge_evaluations) @ ''_judges'',
                       evaluation_timestamp = now_iso rt,
                       additional_notes =
                         (if notes = [] then None else Some (join ''; '' notes))\<rparr>))"

text \<open>\<^verbatim>\<open>MultiJudgeEvaluation._create_fallback_evaluation\<close>, used when a judge's task raises.\<close>

definition multi_create_fallback_evaluation ::
  "runtime \<Rightarrow> TestResult \<Rightarrow> (string \<times> json) list \<Rightarrow> string \<Rightarrow> string \<Rightarrow>
   exn + EvaluationResult" where
  "multi_create_fallback_evaluation rt test_result ctx judge_name error_msg =
     (let fallback_scores =
            map (\<lambda>c. CriteriaScore_init c SATISFACTORY
                        (''Judge '' @ judge_name @ '' failed: '' @ error_msg) None) all_criteria
      in case validate_str ''EvaluationResult'' (context_expected_behavior ctx) of
           Inl e \<Rightarrow> Inl e
         | Inr eb \<Rightarrow>
             Inr \<lparr>er_test_case_id = tr_test_case_id test_result,
                  er_model_id = tr_model_id test_result,
                  er_scenario_type = tr_scenario_type test_result,
                  er_user_query = tr_user_query test_result,
                  er_model_response = mr_content (tr_model_response test_result),
                  er_expected_behavior = eb,
                  scores = fallback_scores,
                  overall_score = 3.0,
                  er_tool_calls_made = tr_tool_calls_made test_result,
                  er_tool_results = tr_tool_results test_result,
                  er_judge_model = judge_name,
                  evaluation_timestamp = now_iso rt,
                  additional_notes =
                    Some (''Fallback evaluation due to judge failure: '' @ error_msg)\<rparr>)"

section \<open>Admission of model workers (run_benchmark and the semaphore)\<close>

text \<open>
  \<^verbatim>\<open>run_benchmark\<close> creates one task per model; each task is the coroutine
  \<^verbatim>\<open>_run_model_benchmark\<close>, whose whole body is inside \<^verbatim>\<open>async with semaphore\<close>.
  A worker is before the block, inside it, or past it; its model's status is changed
  only inside. The semaphore is its counter: entering the block needs a positive
  counter and decrements it, leaving increments it. The event loop interleaves the
  workers in any order.

  The block is left in three ways. The body ends, with the status \<^verbatim>\<open>COMPLETED\<close> or,
  from the handler of \<^verbatim>\<open>except Exception\<close>, \<^verbatim>\<open>FAILED\<close>. Or an exception that this
  handler does not catch passes through it: \<^verbatim>\<open>asyncio.CancelledError\<close>, raised at an
  \<^verbatim>\<open>await\<close> of a cancelled task or by the provider, is a \<^verbatim>\<open>BaseException\<close>; the
  status stays as it was, \<^verbatim>\<open>async with\<close> releases the permit, and
  \<^verbatim>\<open>gather(..., return_exceptions=True)\<close> keeps the other workers going; the rule
  \<open>cancel\<close> allows this at every point of the block. A worker cancelled while it
  waits for a permit never enters (\<open>give_up\<close>).
\<close>

datatype position = Before | Inside | Past

record worker =
  w_position :: position
  w_status :: BenchmarkStatus

record pool =
  workers :: "worker list"
  semaphore :: nat

definition initial_pool :: "BenchmarkConfig \<Rightarrow> string list \<Rightarrow> pool" where
  "initial_pool cfg model_ids =
     \<lparr>workers = map (\<lambda>m. \<lparr>w_position = Before, w_status = PENDING\<rparr>) model_ids,
      semaphore = concurrent_models cfg\<rparr>"

inductive step :: "pool \<Rightarrow> pool \<Rightarrow> bool" where
  acquire:
    "i < length (workers s) \<Longrightarrow> w_position (workers s ! i) = Before \<Longrightarrow> semaphore s > 0 \<Longrightarrow>
     step s (s\<lparr>workers := (workers s)[i := (workers s ! i)\<lparr>w_position := Inside\<rparr>],
               semaphore := semaphore s - 1\<rparr>)"
| start:
    "i < length (workers s) \<Longrightarrow> w_position (workers s ! i) = Inside \<Longrightarrow>
     w_status (workers s ! i) = PENDING \<Longrightarrow>
     step s (s\<lparr>workers := (workers s)[i := (workers s ! i)\<lparr>w_status := RUNNING\<rparr>]\<rparr>)"
| complete:
    "i < length (workers s) \<Longrightarrow> w_position (workers s ! i) = Inside \<Longrightarrow>
     w_status (workers s ! i) = RUNNING \<Longrightarrow>
     step s (s\<lparr>workers := (workers s)[i := (workers s ! i)\<lparr>w_status := COMPLETED\<rparr>]\<rparr>)"
| fail:
    "i < length (workers s) \<Longrightarrow> w_position (workers s ! i) = Inside \<Longrightarrow>
     w_status (workers s ! i) = RUNNING \<or> w_status (workers s ! i) = COMPLETED \<Longrightarrow>
     step s (s\<lparr>workers := (workers s)[i := (workers s ! i)\<lparr>w_status := FAILED\<rparr>]\<rparr>)"
| release:
    "i < length (workers s) \<Longrightarrow> w_position (workers s ! i) = Inside \<Longrightarrow>
     w_status (workers s ! i) = COMPLETED \<or> w_status (workers s ! i) = FAILED \<Longrightarrow>
     step s (s\<lparr>workers := (workers s)[i := (workers s ! i)\<lparr>w_position := Past\<rparr>],
               semaphore := semaphore s + 1\<rparr>)"
| cancel:
    "i < length (workers s) \<Longrightarrow> w_position (workers s ! i) = Inside \<Longrightarrow>
     step s (s\<lparr>workers := (workers s)[i := (workers s ! i)\<lparr>w_position := Past\<rparr>],
               semaphore := semaphore s + 1\<rparr>)"
| give_up:
    "i < length (workers s) \<Longrightarrow> w_position (workers s ! i) = Before \<Longrightarrow>
     step s (s\<lparr>workers := (workers s)[i := (workers s ! i)\<lparr>w_position := Past\<rparr>]\<rparr>)"

inductive reachable :: "BenchmarkConfig \<Rightarrow> string list \<Rightarrow> pool \<Rightarrow> bool" where
  start_of_run: "reachable cfg model_ids (initial_pool cfg model_ids)"
| after_step: "reachable cfg model_ids s \<Longrightarrow> step s s' \<Longrightarrow> reachable cfg model_ids s'"

definition running_workers :: "pool \<Rightarrow> nat" where
  "running_workers s = length (filter (\<lambda>w. w_status w = RUNNING) (workers s))"

section \<open>Properties named in the specification\<close>

text \<open>
  The whole-evaluation fallback in the specification's words: one score per criterion,
  in the order of the enum, each at level satisfactory with value 3 and with a reasoning
  that cites the error, and an overall score of 3.
\<close>

definition is_fallback_evaluation :: "EvaluationResult \<Rightarrow> string \<Rightarrow> bool" where
  "is_fallback_evaluation r error_msg \<longleftrightarrow>
     map criteria (scores r) = all_criteria
     \<and> list_all (\<lambda>s. score s = SATISFACTORY \<and> score_value s = 3
                     \<and> reasoning s = ''Evaluation failed: '' @ error_msg) (scores r)
     \<and> overall_score r = 3"

text \<open>The score mapping invariant on all the scores of an evaluation.\<close>

definition canonical_scores :: "EvaluationResult \<Rightarrow> bool" where
  "canonical_scores r \<longleftrightarrow> list_all (\<lambda>s. score_value s = SCORE_VALUES (score s)) (scores r)"

text \<open>
  The trimming of the judge's response described on lists instead of indices: strip,
  drop a leading \<^verbatim>\<open>```json\<close> and a trailing \<^verbatim>\<open>```\<close>, drop what precedes the first
  opening brace, drop what follows the last closing brace when a closing brace occurs
  after the first character, strip again.
\<close>

definition spec_trim :: "string \<Rightarrow> string" where
  "spec_trim response_content =
     (let t1 = strip response_content;
          t2 = (if startswith t1 ''```json'' then drop 7 t1 else t1);
          t3 = (if endswith t2 ''```'' then take (length t2 - 3) t2 else t2);
          t4 = (if CHR ''{'' \<in> set t3 then dropWhile (\<lambda>x. x \<noteq> CHR ''{'') t3 else t3);
          t5 = (if CHR ''}'' \<in> set (tl t4)
                then rev (dropWhile (\<lambda>x. x \<noteq> CHR ''}'') (rev t4)) else t4)
      in strip t5)"

text \<open>
  What a valid JSON value followed by trailing garbage is for the json module. The
  module reads one value with its scanner, from a position of the string, and reports
  the value and the position where it ends, or "Expecting value". \<^verbatim>\<open>raw_decode(s)\<close>
  is the scanner at position 0. \<^verbatim>\<open>json.loads\<close> is \<^verbatim>\<open>JSONDecoder.decode\<close>: it skips
  the whitespace at the start, scans one value, skips the whitespace after it, and
  raises "Extra data" when this is not the end of the string. The text of a
  \<^verbatim>\<open>JSONDecodeError\<close> is its message followed by the line, the column and the
  position.
\<close>

definition json_whitespace :: "char \<Rightarrow> bool" where
  "json_whitespace c \<longleftrightarrow> c = CHR '' '' \<or> c = CHR 0x09 \<or> c = CHR 0x0A \<or> c = CHR 0x0D"

definition skip_whitespace :: "string \<Rightarrow> nat \<Rightarrow> nat" where
  "skip_whitespace s i = i + length (takeWhile json_whitespace (drop i s))"

definition decode_error_text :: "string \<Rightarrow> string \<Rightarrow> nat \<Rightarrow> string" where
  "decode_error_text msg doc pos =
     (let before = take pos doc;
          lineno = length (filter (\<lambda>c. c = CHR 0x0A) before) + 1;
          colno = length (takeWhile (\<lambda>c. c \<noteq> CHR 0x0A) (rev before)) + 1
      in msg @ '': line '' @ str_nat lineno @ '' column '' @ str_nat colno
         @ '' (char '' @ str_nat pos @ '')'')"

definition decode :: "(string \<Rightarrow> nat \<Rightarrow> exn + json \<times> nat) \<Rightarrow> string \<Rightarrow> exn + json" where
  "decode scan s =
     (case scan s (skip_whitespace s 0) of
        Inl e \<Rightarrow> Inl e
      | Inr (obj, end_of_value) \<Rightarrow>
          let end_of_text = skip_whitespace s end_of_value
          in if end_of_text \<noteq> length s
             then Inl (JSONDecodeError (decode_error_text ''Extra data'' s end_of_text))
             else Inr obj)"

text \<open>
  The runtime's json functions are the module's, built on the scanner \<open>scan\<close>, at the
  string \<open>s\<close>; and \<^verbatim>\<open>str\<close> of a \<^verbatim>\<open>JSONDecodeError\<close> is its text.
\<close>

definition json_module :: "runtime \<Rightarrow> (string \<Rightarrow> nat \<Rightarrow> exn + json \<times> nat) \<Rightarrow> string \<Rightarrow> bool" where
  "json_module rt scan s \<longleftrightarrow>
     json_loads rt s = decode scan s
     \<and> raw_decode rt s = scan s 0
     \<and> (\<forall>m. str_exn rt (JSONDecodeError m) = m)"

text \<open>
  The string \<open>s\<close> is a JSON value \<open>obj\<close>, possibly after whitespace, that ends at
  \<open>idx\<close> and is followed by text that is not only whitespace.
\<close>

definition json_then_garbage ::
  "(string \<Rightarrow> nat \<Rightarrow> exn + json \<times> nat) \<Rightarrow> string \<Rightarrow> json \<Rightarrow> nat \<Rightarrow> bool" where
  "json_then_garbage scan s obj idx \<longleftrightarrow>
     scan s (skip_whitespace s 0) = Inr (obj, idx) \<and> skip_whitespace s idx < length s"

text \<open>
  The consensus score of one criterion in the specification's words. The judges that
  scored the criterion are the judges whose evaluation has a score of it, in order,
  each with its first such score. A real number rounds to the integer nearest to it,
  and, half way between two integers, to the even one. The consensus value is the
  rounded mean of the values of the judges that scored the criterion, clamped to 1..5;
  the level is the one that has this value; the reasoning is the judges' reasonings,
  each prefixed by the judge's id, joined after a header that names the number of
  judges and their values.
\<close>

definition judges_scoring ::
  "EvaluationCriteria \<Rightarrow> (string \<times> EvaluationResult) list \<Rightarrow> (string \<times> CriteriaScore) list" where
  "judges_scoring c judge_evaluations =
     map (\<lambda>(judge_name, evaluation).
            (judge_name, hd (filter (\<lambda>s. criteria s = c) (scores evaluation))))
       (filter (\<lambda>(judge_name, evaluation). list_ex (\<lambda>s. criteria s = c) (scores evaluation))
          judge_evaluations)"

definition rounds_to :: "real \<Rightarrow> int \<Rightarrow> bool" where
  "rounds_to x r \<longleftrightarrow>
     \<bar>x - of_int r\<bar> < 1 / 2 \<or> (\<bar>x - of_int r\<bar> = 1 / 2 \<and> even r)"

definition is_consensus_score :: "(string \<times> EvaluationResult) list \<Rightarrow> CriteriaScore \<Rightarrow> bool" where
  "is_consensus_score judge_evaluations s \<longleftrightarrow>
     (let given = judges_scoring (criteria s) judge_evaluations;
          given_values = map (\<lambda>(judge_name, given_score). score_value given_score) given;
          mean = of_int (sum_list given_values) / of_nat (length given_values)
      in given \<noteq> []
         \<and> (\<exists>r. rounds_to mean r \<and> score_value s = max 1 (min 5 r))
         \<and> SCORE_VALUES (score s) = score_value s
         \<and> reasoning s =
             ''Consensus from '' @ str_nat (length given) @ '' judges (scores: ''
             @ str_int_list given_values @ ''). ''
             @ join ''; '' (map (\<lambda>(judge_name, given_score).
                                   judge_name @ '': '' @ reasoning given_score) given))"

text \<open>
  The results of a model's tests in the specification's words: the tests run one after
  the other, in input order, each after the pacing delay, and each gives one result.
\<close>

fun results_in_order ::
  "runtime \<Rightarrow> BenchmarkConfig \<Rightarrow> real \<Rightarrow> provider \<Rightarrow> ModelConfig \<Rightarrow> string \<Rightarrow>
   TestCase list \<Rightarrow> executor_state \<Rightarrow> TestResult list" where
  "results_in_order rt cfg delay p model_config model_id [] st = []"
| "results_in_order rt cfg delay p model_config model_id (test_case # rest) st =
     (let (result, st') = run_single_test rt cfg delay p model_config test_case model_id
                            (apply_rate_limit rt delay model_id st)
      in result # results_in_order rt cfg delay p model_config model_id rest st')"

text \<open>
  The result \<open>r\<close> records the outcome of the test case: it carries the ids of the test
  case and of the model; when the generation call raises, its error is the exception's
  text ("Test timed out" for the timeout) and the response in it is empty with the same
  error ("Timeout" for the timeout); when the call answers and asks for no tool, the
  result has no error and holds that answer; and the only other error is that of the
  constructor of \<^verbatim>\<open>TestResult\<close>.
\<close>

definition outcome_recorded ::
  "runtime \<Rightarrow> BenchmarkConfig \<Rightarrow> provider \<Rightarrow> ModelConfig \<Rightarrow> string \<Rightarrow> TestCase \<Rightarrow> TestResult \<Rightarrow>
   bool" where
  "outcome_recorded rt cfg p model_config model_id test_case r \<longleftrightarrow>
     tr_test_case_id r = case_id test_case
     \<and> tr_model_id r = model_id
     \<and> tr_user_query r = case_user_query test_case
     \<and> (case generate_response p
               (format_messages_with_system_prompt p (case_user_query test_case))
               model_config
               (if include_tool_execution cfg then Some (database_tools p) else None) of
           Inl e \<Rightarrow>
             tr_error r = Some (if e = TimeoutError then ''Test timed out'' else str_exn rt e)
             \<and> mr_error (tr_model_response r)
                 = Some (if e = TimeoutError then ''Timeout'' else str_exn rt e)
             \<and> mr_content (tr_model_response r) = []
             \<and> tr_tool_calls_made r = [] \<and> tr_tool_results r = []
         | Inr response \<Rightarrow>
             (if mr_tool_calls response = [] \<or> \<not> include_tool_execution cfg
              then tr_error r = None \<and> tr_model_response r = response
                   \<and> tr_tool_calls_made r = [] \<and> tr_tool_results r = []
              else tr_error r = None
                   \<or> tr_error r = Some (str_exn rt (ValidationError ''TestResult''))))"

text \<open>
  What the semaphore maintains: the workers inside its block and its free permits add up
  to the configured bound, and a worker that has not entered the block has left its
  model pending. A model is executing when its worker is inside the block with the
  status \<^const>\<open>RUNNING\<close>; its status is stale when the worker has left the block and the
  status is still \<^const>\<open>RUNNING\<close>.
\<close>

definition inside_workers :: "pool \<Rightarrow> nat" where
  "inside_workers s = length (filter (\<lambda>w. w_position w = Inside) (workers s))"

definition executing_workers :: "pool \<Rightarrow> nat" where
  "executing_workers s =
     length (filter (\<lambda>w. w_position w = Inside \<and> w_status w = RUNNING) (workers s))"

definition stale_workers :: "pool \<Rightarrow> nat" where
  "stale_workers s =
     length (filter (\<lambda>w. w_position w = Past \<and> w_status w = RUNNING) (workers s))"

definition admission_invariant :: "BenchmarkConfig \<Rightarrow> pool \<Rightarrow> bool" where
  "admission_invariant cfg s \<longleftrightarrow>
     inside_workers s + semaphore s = concurrent_models cfg
     \<and> list_all (\<lambda>w. w_position w = Before \<longrightarrow> w_status w = PENDING) (workers s)"

section \<open>Concrete inputs\<close>

definition example_object_text :: string where
  \<open>example_object_text = ''{"task_performance": {"score": 5, "reasoning": "ok"}}''\<close>

definition example_object :: json where
  "example_object =
     JObj [(''task_performance'', JObj [(''score'', JInt 5), (''reasoning'', JStr ''ok'')])]"

definition unknown_criterion_text :: string where
  \<open>unknown_criterion_text = ''{"task_performance": {"score": 5, "reasoning": "ok"}, "accuracy": {"score": 4, "reasoning": "fine"}}''\<close>

definition unknown_criterion_object :: json where
  "unknown_criterion_object =
     JObj [(''task_performance'', JObj [(''score'', JInt 5), (''reasoning'', JStr ''ok'')]),
           (''accuracy'', JObj [(''score'', JInt 4), (''reasoning'', JStr ''fine'')])]"

definition arguments_with_garbage :: string where
  \<open>arguments_with_garbage = ''{"query": "laptop"} trailing''\<close>

fun example_str_exn :: "exn \<Rightarrow> string" where
  "example_str_exn TimeoutError = []"
| "example_str_exn (JSONDecodeError m) = m"
| "example_str_exn (KeyError k) = [CHR 0x27] @ k @ [CHR 0x27]"
| "example_str_exn (ValueError c (JStr s)) =
     [CHR 0x27] @ s @ [CHR 0x27] @ '' is not a valid '' @ c"
| "example_str_exn (ValueError c v) = ''value is not a valid '' @ c"
| "example_str_exn (ValidationError f) = ''validation error for '' @ f"
| "example_str_exn (TypeError v) = ''object is not subscriptable''"
| "example_str_exn (AttributeError v a) = ''object has no attribute '' @ a"
| "example_str_exn IndexError = ''list index out of range''"
| "example_str_exn (RuntimeError m) = m"

definition example_loads :: "string \<Rightarrow> exn + json" where
  "example_loads s =
     (if s = example_object_text then Inr example_object
      else if s = unknown_criterion_text then Inr unknown_criterion_object
      else if s = arguments_with_garbage
        then Inl (JSONDecodeError ''Extra data: line 1 column 21 (char 20)'')
      else Inl (JSONDecodeError ''Expecting value: line 1 column 1 (char 0)''))"

definition example_raw_decode :: "string \<Rightarrow> exn + json \<times> nat" where
  "example_raw_decode s =
     (if s = arguments_with_garbage then Inr (JObj [(''query'', JStr ''laptop'')], 19)
      else Inl (JSONDecodeError ''Expecting value: line 1 column 1 (char 0)''))"

definition example_runtime :: runtime where
  "example_runtime =
     \<lparr>str_exn = example_str_exn,
      json_loads = example_loads,
      raw_decode = example_raw_decode,
      json_dumps = (\<lambda>v. ''{}''),
      re_search = (\<lambda>pattern s. None),
      time_time = (\<lambda>n. real n),
      now_iso = ''2025-01-01T00:00:00'',
      validate_float = (\<lambda>v. case v of JFloat x \<Rightarrow> Some x | JInt n \<Rightarrow> Some (of_int n)
                                | _ \<Rightarrow> None),
      validate_int = (\<lambda>v. case v of JInt n \<Rightarrow> Some n | _ \<Rightarrow> None)\<rparr>"

definition example_response :: "string \<Rightarrow> (string \<times> json) list list \<Rightarrow> ModelResponse" where
  "example_response text calls =
     \<lparr>mr_content = text, mr_usage = None, mr_model = ''mock-1'', mr_provider = ''mock'',
      mr_tool_calls = calls, mr_error = None, mr_latency_ms = None\<rparr>"

definition example_provider ::
  "(Message list \<Rightarrow> ModelConfig \<Rightarrow> json list option \<Rightarrow> exn + ModelResponse) \<Rightarrow> provider" where
  "example_provider gen =
     \<lparr>provider_name = ''mock'',
      default_system_prompt = ''system'',
      response_formatting_prompt = ''format'',
      database_tools = [],
      generate_response = gen,
      execute_tool_call = (\<lambda>tool_call. Inr (JObj [(''products'', JArr [])]))\<rparr>"

definition always_timeout ::
  "Message list \<Rightarrow> ModelConfig \<Rightarrow> json list option \<Rightarrow> exn + ModelResponse" where
  "always_timeout messages model_config tools = Inl TimeoutError"

definition always_answer ::
  "string \<Rightarrow> Message list \<Rightarrow> ModelConfig \<Rightarrow> json list option \<Rightarrow> exn + ModelResponse" where
  "always_answer text messages model_config tools = Inr (example_response text [])"

definition example_judge ::
  "(Message list \<Rightarrow> ModelConfig \<Rightarrow> json list option \<Rightarrow> exn + ModelResponse) \<Rightarrow> LLMJudge" where
  "example_judge gen =
     \<lparr>config = default_config,
      models_config = Map.empty,
      create_evaluation_prompt = (\<lambda>test_result ctx. Inr ''prompt''),
      judge_provider = example_provider gen\<rparr>"

definition example_test_result :: TestResult where
  "example_test_result =
     \<lparr>tr_test_case_id = ''t1'', tr_model_id = ''m1'', tr_scenario_type = ''correct'',
      tr_user_query = ''laptops?'', tr_model_response = example_response ''Here they are'' [],
      tr_tool_calls_made = [], tr_tool_results = [], tr_execution_time_ms = 12,
      tr_timestamp = ''2025-01-01T00:00:00'', tr_error = None\<rparr>"

definition example_context :: "(string \<times> json) list" where
  "example_context = [(''expected_behavior'', JStr ''list laptops''), (''difficulty'', JInt 1)]"

definition example_evaluation :: EvaluationResult where
  "example_evaluation =
     \<lparr>er_test_case_id = ''t1'', er_model_id = ''m1'', er_scenario_type = ''correct'',
      er_user_query = ''laptops?'', er_model_response = ''Here they are'',
      er_expected_behavior = ''list laptops'',
      scores = [\<lparr>criteria = TASK_PERFORMANCE, score = EXCELLENT, reasoning = ''ok'',
                 score_value = 5\<rparr>],
      overall_score = 5,
      er_tool_calls_made = [], er_tool_results = [],
      er_judge_model = ''gpt-4o'', evaluation_timestamp = ''2025-01-01T00:00:00'',
      additional_notes = None\<rparr>"

definition second_evaluation :: EvaluationResult where
  "second_evaluation =
     example_evaluation\<lparr>
       scores := [\<lparr>criteria = TASK_PERFORMANCE, score = GOOD, reasoning = ''decent'',
                   score_value = 4\<rparr>],
       overall_score := 4, er_judge_model := ''gemini''\<rparr>"

definition example_judge_evaluations :: "(string \<times> EvaluationResult) list" where
  "example_judge_evaluations = [(''gpt-4o'', example_evaluation), (''gemini'', second_evaluation)]"

definition example_consensus :: EvaluationResult where
  "example_consensus =
     example_evaluation\<lparr>
       scores := [\<lparr>criteria = TASK_PERFORMANCE, score = GOOD,
                   reasoning =
                     ''Consensus from 2 judges (scores: [5, 4]). gpt-4o: ok; gemini: decent'',
                   score_value = 4\<rparr>],
       overall_score := 4.5, er_judge_model := ''consensus_of_2_judges''\<rparr>"

definition example_case :: "string \<Rightarrow> TestCase" where
  "example_case i =
     \<lparr>case_id = i, case_scenario_type = ''correct'', case_user_query = ''laptops?'',
      case_expected_behavior = ''list laptops''\<rparr>"

definition example_model_config :: ModelConfig where
  "example_model_config =
     \<lparr>mc_model_name = ''mock-1'', mc_temperature = 0.7, mc_max_tokens = 1000\<rparr>"

definition example_benchmark_config :: BenchmarkConfig where
  "example_benchmark_config =
     \<lparr>concurrent_models = 2, timeout_per_test = 60, save_intermediate_results = True,
      include_tool_execution = True\<rparr>"

definition initial_state :: executor_state where
  "initial_state = \<lparr>tick = 0, last_request_time = Map.empty, sleeps = []\<rparr>"

definition example_executor ::
  "(Message list \<Rightarrow> ModelConfig \<Rightarrow> json list option \<Rightarrow> exn + ModelResponse) \<Rightarrow>
   BenchmarkExecutor" where
  "example_executor gen =
     \<lparr>exec_config = example_benchmark_config,
      rate_limit_delay = 1,
      get_provider = (\<lambda>model_id. Some (example_provider gen)),
      get_model_config = (\<lambda>model_id. Some [(''model_name'', JStr ''mock-1'')]),
      progress_callback = None,
      save_model_results = (\<lambda>model_result. None)\<rparr>"

definition always_raise ::
  "Message list \<Rightarrow> ModelConfig \<Rightarrow> json list option \<Rightarrow> exn + ModelResponse" where
  "always_raise messages model_config tools = Inl (RuntimeError ''connection reset'')"

definition search_call :: "(string \<times> json) list" where
  "search_call =
     [(''id'', JStr ''call_1''),
      (''function'', JObj [(''name'', JStr ''search_products''),
                          (''arguments'', JObj [(''query'', JStr ''laptop'')])])]"

definition bad_arguments_call :: "(string \<times> json) list" where
  "bad_arguments_call =
     [(''id'', JStr ''call_1''),
      (''function'', JObj [(''name'', JStr ''search_products''),
                          (''arguments'', JStr ''not json'')])]"

text \<open>A model that asks for a tool on the first call and answers on the later ones.\<close>

definition answer_with_calls ::
  "(string \<times> json) list list \<Rightarrow> Message list \<Rightarrow> ModelConfig \<Rightarrow> json list option \<Rightarrow>
   exn + ModelResponse" where
  "answer_with_calls calls messages model_config tools =
     (if length messages = 2 then Inr (example_response ''searching'' calls)
      else Inr (example_response ''Here they are'' []))"

text \<open>A model that asks for a tool on the first call and times out on the later ones.\<close>

definition tool_then_timeout ::
  "Message list \<Rightarrow> ModelConfig \<Rightarrow> json list option \<Rightarrow> exn + ModelResponse" where
  "tool_then_timeout messages model_config tools =
     (if length messages = 2 then Inr (example_response ''searching'' [search_call])
      else Inl TimeoutError)"

definition example_run :: BenchmarkRun where
  "example_run = initial_run [example_case ''t1'', example_case ''t2''] [''m1'']"

definition five_models :: "string list" where
  "five_models = [''m1'', ''m2'', ''m3'', ''m4'', ''m5'']"

definition pool_one_inside :: pool where
  "pool_one_inside =
     \<lparr>workers = [\<lparr>w_position = Inside, w_status = PENDING\<rparr>,
                 \<lparr>w_position = Before, w_status = PENDING\<rparr>,
                 \<lparr>w_position = Before, w_status = PENDING\<rparr>,
                 \<lparr>w_position = Before, w_status = PENDING\<rparr>,
                 \<lparr>w_position = Before, w_status = PENDING\<rparr>],
      semaphore = 1\<rparr>"

definition pool_one_running :: pool where
  "pool_one_running =
     \<lparr>workers = [\<lparr>w_position = Inside, w_status = RUNNING\<rparr>,
                 \<lparr>w_position = Before, w_status = PENDING\<rparr>,
                 \<lparr>w_position = Before, w_status = PENDING\<rparr>,
                 \<lparr>w_position = Before, w_status = PENDING\<rparr>,
                 \<lparr>w_position = Before, w_status = PENDING\<rparr>],
      semaphore = 1\<rparr>"

definition pool_two_inside :: pool where
  "pool_two_inside =
     \<lparr>workers = [\<lparr>w_position = Inside, w_status = RUNNING\<rparr>,
                 \<lparr>w_position = Inside, w_status = PENDING\<rparr>,
                 \<lparr>w_position = Before, w_status = PENDING\<rparr>,
                 \<lparr>w_position = Before, w_status = PENDING\<rparr>,
                 \<lparr>w_position = Before, w_status = PENDING\<rparr>],
      semaphore = 0\<rparr>"

definition pool_two_running :: pool where
  "pool_two_running =
     \<lparr>workers = [\<lparr>w_position = Inside, w_status = RUNNING\<rparr>,
                 \<lparr>w_position = Inside, w_status = RUNNING\<rparr>,
                 \<lparr>w_position = Before, w_status = PENDING\<rparr>,
                 \<lparr>w_position = Before, w_status = PENDING\<rparr>,
                 \<lparr>w_position = Before, w_status = PENDING\<rparr>],
      semaphore = 0\<rparr>"

definition pool_one_cancelled :: pool where
  "pool_one_cancelled =
     \<lparr>workers = [\<lparr>w_position = Past, w_status = RUNNING\<rparr>,
                 \<lparr>w_position = Inside, w_status = RUNNING\<rparr>,
                 \<lparr>w_position = Before, w_status = PENDING\<rparr>,
                 \<lparr>w_position = Before, w_status = PENDING\<rparr>,
                 \<lparr>w_position = Before, w_status = PENDING\<rparr>],
      semaphore = 1\<rparr>"

definition pool_third_inside :: pool where
  "pool_third_inside =
     \<lparr>workers = [\<lparr>w_position = Past, w_status = RUNNING\<rparr>,
                 \<lparr>w_position = Inside, w_status = RUNNING\<rparr>,
                 \<lparr>w_position = Inside, w_status = PENDING\<rparr>,
                 \<lparr>w_position = Before, w_status = PENDING\<rparr>,
                 \<lparr>w_position = Before, w_status = PENDING\<rparr>],
      semaphore = 0\<rparr>"

definition pool_three_running :: pool where
  "pool_three_running =
     \<lparr>workers = [\<lparr>w_position = Past, w_status = RUNNING\<rparr>,
                 \<lparr>w_position = Inside, w_status = RUNNING\<rparr>,
                 \<lparr>w_position = Inside, w_status = RUNNING\<rparr>,
                 \<lparr>w_position = Before, w_status = PENDING\<rparr>,
                 \<lparr>w_position = Before, w_status = PENDING\<rparr>],
      semaphore = 0\<rparr>"

definition pool_second_completed :: pool where
  "pool_second_completed =
     \<lparr>workers = [\<lparr>w_position = Past, w_status = RUNNING\<rparr>,
                 \<lparr>w_position = Inside, w_status = COMPLETED\<rparr>,
                 \<lparr>w_position = Inside, w_status = RUNNING\<rparr>,
                 \<lparr>w_position = Before, w_status = PENDING\<rparr>,
                 \<lparr>w_position = Before, w_status = PENDING\<rparr>],
      semaphore = 0\<rparr>"

text \<open>
  Tool-call arguments as a model writes them: an object on several lines after a line
  break and before a closing fence; and the same object after a space and before a
  word. The scanner, the regular-expression search and the json functions on these
  strings.
\<close>

definition query_object :: json where
  "query_object = JObj [(''query'', JStr ''laptop'')]"

definition query_text :: string where
  \<open>query_text = ''{"query": "laptop"}''\<close>

definition fenced_arguments :: string where
  \<open>fenced_arguments =
     [CHR 0x0A] @ ''{"query":'' @ [CHR 0x0A] @ '' "laptop"}'' @ [CHR 0x0A] @ ''```''\<close>

definition spaced_arguments :: string where
  \<open>spaced_arguments = '' {"query": "laptop"} trailing''\<close>

definition example_scan :: "string \<Rightarrow> nat \<Rightarrow> exn + json \<times> nat" where
  \<open>example_scan s i =
     (if s = arguments_with_garbage \<and> i = 0 then Inr (query_object, 19)
      else if s = fenced_arguments \<and> i = 1 then Inr (query_object, 21)
      else if s = spaced_arguments \<and> i = 1 then Inr (query_object, 20)
      else if s = query_text \<and> i = 0 then Inr (query_object, 19)
      else Inl (JSONDecodeError (decode_error_text ''Expecting value'' s i)))\<close>

definition example_search :: "string \<Rightarrow> string \<Rightarrow> string option" where
  \<open>example_search pattern s =
     (if pattern = json_pattern \<and> (s = spaced_arguments \<or> s = arguments_with_garbage)
      then Some query_text else None)\<close>

definition scanning_runtime :: runtime where
  "scanning_runtime =
     example_runtime\<lparr>json_loads := decode example_scan,
                     raw_decode := (\<lambda>s. example_scan s 0),
                     re_search := example_search\<rparr>"

text \<open>
  Three judges: the first two score two criteria, the third only the second one.
\<close>

definition first_of_three :: EvaluationResult where
  "first_of_three =
     example_evaluation\<lparr>
       scores := [\<lparr>criteria = TASK_PERFORMANCE, score = EXCELLENT, reasoning = ''ok'',
                   score_value = 5\<rparr>,
                  \<lparr>criteria = RESPONSE_QUALITY, score = EXCELLENT, reasoning = ''clear'',
                   score_value = 5\<rparr>],
       overall_score := 5\<rparr>"

definition second_of_three :: EvaluationResult where
  "second_of_three =
     example_evaluation\<lparr>
       scores := [\<lparr>criteria = TASK_PERFORMANCE, score = GOOD, reasoning = ''decent'',
                   score_value = 4\<rparr>,
                  \<lparr>criteria = RESPONSE_QUALITY, score = EXCELLENT, reasoning = ''polite'',
                   score_value = 5\<rparr>],
       overall_score := 4.5, er_judge_model := ''gemini''\<rparr>"

definition third_of_three :: EvaluationResult where
  "third_of_three =
     example_evaluation\<lparr>
       scores := [\<lparr>criteria = RESPONSE_QUALITY, score = GOOD, reasoning = ''long'',
                   score_value = 4\<rparr>],
       overall_score := 4, er_judge_model := ''claude''\<rparr>"

definition three_judge_evaluations :: "(string \<times> EvaluationResult) list" where
  "three_judge_evaluations =
     [(''gpt-4o'', first_of_three), (''gemini'', second_of_three), (''claude'', third_of_three)]"

definition three_judge_consensus :: EvaluationResult where
  "three_judge_consensus =
     example_evaluation\<lparr>
       scores := [\<lparr>criteria = TASK_PERFORMANCE, score = GOOD,
                   reasoning =
                     ''Consensus from 2 judges (scores: [5, 4]). gpt-4o: ok; gemini: decent'',
                   score_value = 4\<rparr>,
                  \<lparr>criteria = RESPONSE_QUALITY, score = EXCELLENT,
                   reasoning =
                     ''Consensus from 3 judges (scores: [5, 5, 4]). ''
                     @ ''gpt-4o: clear; gemini: polite; claude: long'',
                   score_value = 5\<rparr>],
       overall_score := 4.5, er_judge_model := ''consensus_of_3_judges''\<rparr>"

section \<open>Lemmas about the text helpers\<close>

lemma not_space_braces [simp]: "\<not> py_isspace CHR ''{''" "\<not> py_isspace CHR ''}''"
  by (simp_all add: py_isspace_def)

lemma strip_around:
  assumes "\<not> py_isspace a" "\<not> py_isspace b"
  shows "strip (p @ a # m @ b # q) =
         dropWhile py_isspace p @ a # m @ b # rev (dropWhile py_isspace (rev q))"
proof -
  have 1: "dropWhile py_isspace (p @ a # m @ b # q) = dropWhile py_isspace p @ a # m @ b # q"
    using assms(1) by (simp add: dropWhile_append3)
  have 2: "rev (dropWhile py_isspace p @ a # m @ b # q)
           = rev q @ b # (rev m @ a # rev (dropWhile py_isspace p))"
    by simp
  show ?thesis
    unfolding strip_def 1 2 using assms(2) by (simp add: dropWhile_append3)
qed

lemma strip_object: "strip (CHR ''{'' # m @ [CHR ''}'']) = CHR ''{'' # m @ [CHR ''}'']"
  using strip_around [of "CHR ''{''" "CHR ''}''" "[]" m "[]"] by simp

lemma find_char_absent: "c \<notin> set s \<Longrightarrow> find_char s c = -1"
  by (induction s) auto

lemma find_char_first: "c \<notin> set p \<Longrightarrow> find_char (p @ c # r) c = int (length p)"
  by (induction p) (auto simp: Let_def)

lemma rfind_char_last:
  assumes "c \<notin> set q"
  shows "rfind_char (p @ c # q) c = int (length p)"
proof -
  have "find_char (rev q @ c # rev p) c = int (length q)"
    using assms find_char_first [of c "rev q" "rev p"] by simp
  then show ?thesis by (simp add: rfind_char_def)
qed

lemma take_avoids:
  assumes "c \<notin> set (take n (p @ c # r))"
  shows "n \<le> length p"
proof (rule ccontr)
  assume "\<not> n \<le> length p"
  then obtain k where k: "n - length p = Suc k"
    by (metis Suc_diff_Suc not_le)
  have "take n (p @ c # r) = take n p @ c # take k r"
    by (simp add: k)
  with assms show False by simp
qed

lemma drop_avoids:
  assumes "c \<notin> set (drop m (p @ c # q))"
  shows "length p < m"
proof (rule ccontr)
  assume "\<not> length p < m"
  then have "drop m (p @ c # q) = drop m p @ c # q" by simp
  with assms show False by simp
qed

lemma startswith_fence:
  assumes "startswith (p @ CHR ''{'' # r) ''```json''" "CHR ''{'' \<notin> set p"
  shows "7 \<le> length p"
proof -
  have t: "take (length ''```json'') (p @ CHR ''{'' # r) = ''```json''"
    using assms(1) unfolding startswith_def .
  have "CHR ''{'' \<notin> set ''```json''" by simp
  then have "CHR ''{'' \<notin> set (take (length ''```json'') (p @ CHR ''{'' # r))"
    unfolding t .
  then have "length ''```json'' \<le> length p" by (rule take_avoids)
  then show ?thesis by simp
qed

lemma endswith_fence:
  assumes "endswith (p @ CHR ''}'' # q) ''```''" "CHR ''}'' \<notin> set q"
  shows "3 \<le> length q"
proof -
  have t: "drop (length (p @ CHR ''}'' # q) - length ''```'') (p @ CHR ''}'' # q) = ''```''"
    using assms(1) unfolding endswith_def by (rule conjunct2)
  have "CHR ''}'' \<notin> set ''```''" by simp
  then have "CHR ''}'' \<notin> set (drop (length (p @ CHR ''}'' # q) - length ''```'') (p @ CHR ''}'' # q))"
    unfolding t .
  then have "length p < length (p @ CHR ''}'' # q) - length ''```''" by (rule drop_avoids)
  then show ?thesis by simp
qed

lemma trim_embedded:
  assumes p: "CHR ''{'' \<notin> set prefix" and q: "CHR ''}'' \<notin> set suffix"
  shows "trim_response_content (prefix @ CHR ''{'' # body @ CHR ''}'' # suffix)
         = CHR ''{'' # body @ [CHR ''}'']"
proof -
  let ?o = "CHR ''{'' # body @ [CHR ''}'']"
  define p1 where "p1 = dropWhile py_isspace prefix"
  define q1 where "q1 = rev (dropWhile py_isspace (rev suffix))"
  have s1: "strip (prefix @ CHR ''{'' # body @ CHR ''}'' # suffix) = p1 @ CHR ''{'' # body @ CHR ''}'' # q1"
    by (simp add: strip_around p1_def q1_def)
  have p1: "CHR ''{'' \<notin> set p1"
    using p set_dropWhileD unfolding p1_def by fastforce
  have q1: "CHR ''}'' \<notin> set q1"
    using q set_dropWhileD [of _ py_isspace "rev suffix"] unfolding q1_def by fastforce
  define p2 where "p2 = (if startswith (p1 @ CHR ''{'' # body @ CHR ''}'' # q1) ''```json'' then drop 7 p1 else p1)"
  have s2: "(if startswith (p1 @ CHR ''{'' # body @ CHR ''}'' # q1) ''```json''
             then drop 7 (p1 @ CHR ''{'' # body @ CHR ''}'' # q1)
             else p1 @ CHR ''{'' # body @ CHR ''}'' # q1) = p2 @ CHR ''{'' # body @ CHR ''}'' # q1"
    using startswith_fence [OF _ p1] by (auto simp: p2_def)
  have p2: "CHR ''{'' \<notin> set p2"
    using p1 by (auto simp: p2_def dest: in_set_dropD)
  define q2 where "q2 = (if endswith (p2 @ CHR ''{'' # body @ CHR ''}'' # q1) ''```'' then take (length q1 - 3) q1 else q1)"
  have s3: "(if endswith (p2 @ CHR ''{'' # body @ CHR ''}'' # q1) ''```''
             then take (length (p2 @ CHR ''{'' # body @ CHR ''}'' # q1) - 3) (p2 @ CHR ''{'' # body @ CHR ''}'' # q1)
             else p2 @ CHR ''{'' # body @ CHR ''}'' # q1) = p2 @ CHR ''{'' # body @ CHR ''}'' # q2"
  proof (cases "endswith (p2 @ CHR ''{'' # body @ CHR ''}'' # q1) ''```''")
    case True
    then have "endswith ((p2 @ CHR ''{'' # body) @ CHR ''}'' # q1) ''```''" by simp
    from endswith_fence [OF this q1] have "3 \<le> length q1" .
    then have len: "length (p2 @ CHR ''{'' # body @ CHR ''}'' # q1) - 3
                    = length (p2 @ CHR ''{'' # body @ [CHR ''}'']) + (length q1 - 3)"
      by simp
    have "take (length (p2 @ CHR ''{'' # body @ [CHR ''}'']) + (length q1 - 3))
            ((p2 @ CHR ''{'' # body @ [CHR ''}'']) @ q1)
          = (p2 @ CHR ''{'' # body @ [CHR ''}'']) @ take (length q1 - 3) q1"
      by (simp only: take_append) simp
    then show ?thesis using True unfolding len by (simp add: q2_def)
  next
    case False
    then show ?thesis by (simp add: q2_def)
  qed
  have q2: "CHR ''}'' \<notin> set q2"
    using q1 by (auto simp: q2_def dest: in_set_takeD)
  have f: "find_char (p2 @ CHR ''{'' # body @ CHR ''}'' # q2) CHR ''{'' = int (length p2)"
    using p2 by (rule find_char_first)
  have s4: "(if int (length p2) > 0 then drop (nat (int (length p2))) (p2 @ CHR ''{'' # body @ CHR ''}'' # q2)
            else p2 @ CHR ''{'' # body @ CHR ''}'' # q2) = CHR ''{'' # body @ CHR ''}'' # q2"
    by simp
  have r: "rfind_char (CHR ''{'' # body @ CHR ''}'' # q2) CHR ''}'' = int (length body) + 1"
    using rfind_char_last [OF q2, of "CHR ''{'' # body"] by simp
  have s5: "(if int (length body) + 1 > 0 \<and> int (length body) + 1 < int (length (CHR ''{'' # body @ CHR ''}'' # q2)) - 1
            then take (nat (int (length body) + 1 + 1)) (CHR ''{'' # body @ CHR ''}'' # q2)
            else CHR ''{'' # body @ CHR ''}'' # q2) = ?o"
    by (auto simp: nat_add_distrib)
  show ?thesis
    unfolding trim_response_content_def Let_def s1 s2 s3 f s4 r s5 by (rule strip_object)
qed


lemma find_char_takeWhile:
  "find_char s c = (if c \<in> set s then int (length (takeWhile (\<lambda>x. x \<noteq> c) s)) else -1)"
  by (induction s) (auto simp: Let_def)

lemma discard_before:
  "(if find_char s c > 0 then drop (nat (find_char s c)) s else s)
   = (if c \<in> set s then dropWhile (\<lambda>x. x \<noteq> c) s else s)"
proof (cases "c \<in> set s")
  case False
  then show ?thesis by (simp add: find_char_takeWhile)
next
  case True
  show ?thesis
  proof (cases "find_char s c > 0")
    case True
    then show ?thesis
      by (simp add: find_char_takeWhile dropWhile_eq_drop split: if_splits)
  next
    case False
    with True have "takeWhile (\<lambda>x. x \<noteq> c) s = []"
      by (simp add: find_char_takeWhile)
    then have "dropWhile (\<lambda>x. x \<noteq> c) s = s"
      by (metis takeWhile_dropWhile_id append_Nil)
    with False True show ?thesis by simp
  qed
qed

lemma rfind_char_pos: "rfind_char s c > 0 \<longleftrightarrow> c \<in> set (tl s)"
proof (cases s)
  case Nil
  then show ?thesis by (simp add: rfind_char_def)
next
  case (Cons a t)
  show ?thesis
  proof (cases "c \<in> set t")
    case True
    then have tw: "takeWhile (\<lambda>x. x \<noteq> c) (rev t @ [a]) = takeWhile (\<lambda>x. x \<noteq> c) (rev t)"
      by (intro takeWhile_append1 [of c]) simp_all
    have "takeWhile (\<lambda>x. x \<noteq> c) (rev t) \<noteq> rev t"
      using True by simp
    then have "length (takeWhile (\<lambda>x. x \<noteq> c) (rev t)) \<noteq> length (rev t)"
      by (metis takeWhile_eq_take take_all order_refl)
    moreover have "length (takeWhile (\<lambda>x. x \<noteq> c) (rev t)) \<le> length (rev t)"
      by (rule length_takeWhile_le)
    ultimately have "length (takeWhile (\<lambda>x. x \<noteq> c) (rev t @ [a])) < length t"
      by (simp add: tw)
    with True Cons show ?thesis
      by (simp add: rfind_char_def find_char_takeWhile Let_def)
  next
    case False
    then have "takeWhile (\<lambda>x. x \<noteq> c) (rev t @ [a]) = rev t @ takeWhile (\<lambda>x. x \<noteq> c) [a]"
      by (intro takeWhile_append2) auto
    with False Cons show ?thesis
      by (auto simp: rfind_char_def find_char_takeWhile Let_def)
  qed
qed

lemma discard_after:
  "(if rfind_char s c > 0 \<and> rfind_char s c < int (length s) - 1
    then take (nat (rfind_char s c + 1)) s else s)
   = (if c \<in> set (tl s) then rev (dropWhile (\<lambda>x. x \<noteq> c) (rev s)) else s)"
proof (cases "c \<in> set (tl s)")
  case False
  then show ?thesis using rfind_char_pos [of s c] by simp
next
  case True
  then have pos: "rfind_char s c > 0" by (simp add: rfind_char_pos)
  from True have mem: "c \<in> set s" by (cases s) auto
  let ?k = "length (takeWhile (\<lambda>x. x \<noteq> c) (rev s))"
  have r: "rfind_char s c = int (length s) - 1 - int ?k"
    using mem by (simp add: rfind_char_def find_char_takeWhile Let_def)
  have kle: "?k \<le> length s" by (metis length_rev length_takeWhile_le)
  have d: "rev (dropWhile (\<lambda>x. x \<noteq> c) (rev s)) = take (length s - ?k) s"
    by (simp add: dropWhile_eq_drop rev_drop)
  have n: "nat (rfind_char s c + 1) = length s - ?k"
    using kle by (simp add: r)
  show ?thesis
  proof (cases "?k = 0")
    case True
    with d have "rev (dropWhile (\<lambda>x. x \<noteq> c) (rev s)) = s" by simp
    with \<open>c \<in> set (tl s)\<close> True show ?thesis by (simp add: r)
  next
    case False
    with \<open>c \<in> set (tl s)\<close> pos show ?thesis by (simp add: d n) (simp add: r)
  qed
qed

lemma trim_refines: "trim_response_content s = spec_trim s"
  unfolding trim_response_content_def spec_trim_def Let_def discard_before discard_after ..

section \<open>The weighted overall score\<close>





lemma trim_example_object_text:
  "trim_response_content example_object_text = example_object_text"
  using trim_embedded [of "[]" "[]" "tl (butlast example_object_text)"]
  by (simp add: example_object_text_def)

lemma parse_example_object_text:
  "parse_evaluation_body example_runtime default_config example_object_text
     example_test_result example_context = Inr example_evaluation"
  unfolding parse_evaluation_body_def trim_example_object_text
  by (simp add: example_runtime_def example_loads_def example_object_def
      parse_criteria_def EvaluationCriteria_of_def dict_get_def score_mapping_def
      CriteriaScore_init_def context_expected_behavior_def example_context_def
      example_test_result_def example_response_def example_evaluation_def
      calculate_weighted_score_def weight_of_def default_config_def default_criteria_weights_def)


section \<open>Extraction of the embedded object\<close>

lemma parse_evaluation_response_trim:
  "trim_response_content a = trim_response_content b \<Longrightarrow>
   parse_evaluation_response rt cfg a test_result ctx =
   parse_evaluation_response rt cfg b test_result ctx"
  by (simp add: parse_evaluation_response_def parse_evaluation_body_def)

text \<open>
  Claim C5, as amended. For every response string the parser hands to
  \<^verbatim>\<open>json.loads\<close> the string described by \<^const>\<open>spec_trim\<close>: stripped, without a
  leading \<^verbatim>\<open>```json\<close> and a trailing \<^verbatim>\<open>```\<close>, without the text before the first
  opening brace, without the text after the last closing brace when a closing brace
  occurs after the first character, stripped again. For a response made of a prefix
  without an opening brace, an object text from its opening to its closing brace, and a
  suffix without a closing brace, exactly the object text is extracted, and the
  evaluation is the one of the object text alone.
\<close>

theorem trim_response_content_extracts_object:
  "trim_response_content s = spec_trim s
   \<and> (CHR ''{'' \<notin> set prefix \<and> CHR ''}'' \<notin> set suffix \<longrightarrow>
        trim_response_content (prefix @ CHR ''{'' # body @ CHR ''}'' # suffix)
          = CHR ''{'' # body @ [CHR ''}'']
        \<and> parse_evaluation_response rt cfg
            (prefix @ CHR ''{'' # body @ CHR ''}'' # suffix) test_result ctx
          = parse_evaluation_response rt cfg (CHR ''{'' # body @ [CHR ''}'']) test_result ctx)"
proof (intro conjI impI)
  show "trim_response_content s = spec_trim s" by (rule trim_refines)
next
  assume h: "CHR ''{'' \<notin> set prefix \<and> CHR ''}'' \<notin> set suffix"
  then show e: "trim_response_content (prefix @ CHR ''{'' # body @ CHR ''}'' # suffix)
          = CHR ''{'' # body @ [CHR ''}'']"
    by (simp add: trim_embedded)
  have "trim_response_content (CHR ''{'' # body @ [CHR ''}'']) = CHR ''{'' # body @ [CHR ''}'']"
    using trim_embedded [of "[]" "[]" body] by simp
  with e show "parse_evaluation_response rt cfg
            (prefix @ CHR ''{'' # body @ CHR ''}'' # suffix) test_result ctx
          = parse_evaluation_response rt cfg (CHR ''{'' # body @ [CHR ''}'']) test_result ctx"
    by (intro parse_evaluation_response_trim) simp
qed

theorem trim_response_content_extracts_object_witness:
  \<open>CHR ''{'' \<notin> set ''Sure!\<newline>'' \<and> CHR ''}'' \<notin> set ''\<newline>Hope that helps!''
   \<and> trim_response_content (''Sure!\<newline>'' @ example_object_text @ ''\<newline>Hope that helps!'')
       = example_object_text
   \<and> parse_evaluation_response example_runtime default_config
        (''Sure!\<newline>'' @ example_object_text @ ''\<newline>Hope that helps!'')
        example_test_result example_context
       = Inr example_evaluation\<close>
proof -
  have p: "CHR ''{'' \<notin> set ''Sure!\<newline>'' \<and> CHR ''}'' \<notin> set ''\<newline>Hope that helps!''"
    by simp
  have o: "example_object_text
           = CHR ''{'' # tl (butlast example_object_text) @ [CHR ''}'']"
    by (simp add: example_object_text_def)
  have a: "''Sure!\<newline>'' @ example_object_text @ ''\<newline>Hope that helps!''
           = ''Sure!\<newline>'' @ CHR ''{'' # tl (butlast example_object_text)
               @ CHR ''}'' # ''\<newline>Hope that helps!''"
    by (subst o) simp
  have r: "parse_evaluation_response example_runtime default_config example_object_text
             example_test_result example_context = Inr example_evaluation"
    by (simp add: parse_evaluation_response_def parse_example_object_text)
  from trim_response_content_extracts_object
         [where prefix = "''Sure!\<newline>''" and suffix = "''\<newline>Hope that helps!''"
            and body = "tl (butlast example_object_text)" and rt = example_runtime
            and cfg = default_config and test_result = example_test_result
            and ctx = example_context and s = "[]"] p
  show ?thesis
    unfolding a [symmetric] o [symmetric] r by blast
qed

theorem trim_response_content_brace_in_prefix:
  \<open>trim_response_content (''Scores {final}: '' @ example_object_text @ '' Done.'')
     = ''{final}: '' @ example_object_text
   \<and> trim_response_content (''Scores {final}: '' @ example_object_text @ '' Done.'')
     \<noteq> example_object_text\<close>
  by (simp add: trim_response_content_def strip_def py_isspace_def startswith_def
      endswith_def rfind_char_def example_object_text_def Let_def)

section \<open>The fallback evaluation\<close>

lemma create_fallback_evaluation_ok:
  assumes "context_expected_behavior ctx = JStr eb"
  shows "\<exists>r. create_fallback_evaluation rt cfg test_result ctx msg = Inr r
             \<and> is_fallback_evaluation r msg"
  using assms
  by (simp add: create_fallback_evaluation_def is_fallback_evaluation_def all_criteria_def
      CriteriaScore_init_def)

lemma parse_evaluation_body_loads_error:
  "json_loads rt (trim_response_content content) = Inl e \<Longrightarrow>
   parse_evaluation_body rt cfg content test_result ctx = Inl e"
  by (simp add: parse_evaluation_body_def)

lemma parse_evaluation_response_total:
  assumes "context_expected_behavior ctx = JStr eb"
  shows "\<exists>r. parse_evaluation_response rt cfg content test_result ctx = Inr r
             \<and> (\<forall>e. json_loads rt (trim_response_content content) = Inl e \<longrightarrow>
                    is_fallback_evaluation r (''Parse error: '' @ str_exn rt e))"
proof (cases "parse_evaluation_body rt cfg content test_result ctx")
  case (Inr r)
  then have "\<forall>e. json_loads rt (trim_response_content content) \<noteq> Inl e"
    using parse_evaluation_body_loads_error [of rt content _ cfg test_result ctx] by auto
  with Inr show ?thesis by (simp add: parse_evaluation_response_def)
next
  case (Inl e')
  from create_fallback_evaluation_ok [OF assms]
  obtain r where r: "create_fallback_evaluation rt cfg test_result ctx
                       (''Parse error: '' @ str_exn rt e') = Inr r"
    "is_fallback_evaluation r (''Parse error: '' @ str_exn rt e')"
    by blast
  have "\<forall>e. json_loads rt (trim_response_content content) = Inl e \<longrightarrow> e = e'"
    using Inl parse_evaluation_body_loads_error [of rt content _ cfg test_result ctx] by auto
  with Inl r show ?thesis by (auto simp: parse_evaluation_response_def)
qed

text \<open>
  Claim C1, as amended. When the entry \<^verbatim>\<open>expected_behavior\<close> of the context is absent
  or a string, \<^const>\<open>evaluate_test_result\<close> returns an evaluation and raises nothing;
  when the judge call raises (a timeout, a transport error, a failure before the call),
  or when the trimmed response is rejected by \<^verbatim>\<open>json.loads\<close>, that evaluation gives
  each of the five criteria the level satisfactory with value 3 and a reasoning citing
  the error, and its overall score is 3.
\<close>

theorem evaluate_test_result_returns_fallback:
  assumes "context_expected_behavior ctx = JStr eb"
  shows "\<exists>r. evaluate_test_result rt judge test_result ctx = Inr r
             \<and> (\<forall>e. call_judge judge test_result ctx = Inl e \<longrightarrow>
                    is_fallback_evaluation r (str_exn rt e))
             \<and> (\<forall>response e.
                    call_judge judge test_result ctx = Inr response \<longrightarrow>
                    json_loads rt (trim_response_content (mr_content response)) = Inl e \<longrightarrow>
                    is_fallback_evaluation r (''Parse error: '' @ str_exn rt e))"
proof (cases "call_judge judge test_result ctx")
  case (Inl e)
  from create_fallback_evaluation_ok [OF assms]
  obtain r where "create_fallback_evaluation rt (config judge) test_result ctx (str_exn rt e)
                    = Inr r" "is_fallback_evaluation r (str_exn rt e)"
    by blast
  with Inl show ?thesis
    by (simp add: evaluate_test_result_def evaluate_body_def)
next
  case (Inr response)
  from parse_evaluation_response_total [OF assms]
  obtain r where r:
    "parse_evaluation_response rt (config judge) (mr_content response) test_result ctx = Inr r"
    "\<forall>e. json_loads rt (trim_response_content (mr_content response)) = Inl e \<longrightarrow>
         is_fallback_evaluation r (''Parse error: '' @ str_exn rt e)"
    by blast
  with Inr show ?thesis
    by (simp add: evaluate_test_result_def evaluate_body_def)
qed

lemma call_judge_timeout:
  "call_judge (example_judge always_timeout) example_test_result ctx = Inl TimeoutError"
  by (simp add: call_judge_def example_judge_def actual_model_name_def example_provider_def
      always_timeout_def default_config_def)

lemma call_judge_answer:
  "call_judge (example_judge (always_answer text)) example_test_result ctx
   = Inr (example_response text [])"
  by (simp add: call_judge_def example_judge_def actual_model_name_def example_provider_def
      always_answer_def default_config_def)

lemma loads_no_json:
  "json_loads example_runtime (trim_response_content ''I cannot answer'')
   = Inl (JSONDecodeError ''Expecting value: line 1 column 1 (char 0)'')"
  by (simp add: trim_response_content_def strip_def py_isspace_def startswith_def
      endswith_def rfind_char_def Let_def example_runtime_def example_loads_def
      example_object_text_def unknown_criterion_text_def arguments_with_garbage_def)

theorem evaluate_test_result_returns_fallback_witness:
  "context_expected_behavior example_context = JStr ''list laptops''
   \<and> call_judge (example_judge always_timeout) example_test_result example_context
       = Inl TimeoutError
   \<and> (\<exists>r. evaluate_test_result example_runtime (example_judge always_timeout)
             example_test_result example_context = Inr r
           \<and> is_fallback_evaluation r (str_exn example_runtime TimeoutError))
   \<and> call_judge (example_judge (always_answer ''I cannot answer'')) example_test_result
        example_context = Inr (example_response ''I cannot answer'' [])
   \<and> json_loads example_runtime
        (trim_response_content (mr_content (example_response ''I cannot answer'' [])))
       = Inl (JSONDecodeError ''Expecting value: line 1 column 1 (char 0)'')
   \<and> (\<exists>r. evaluate_test_result example_runtime
             (example_judge (always_answer ''I cannot answer''))
             example_test_result example_context = Inr r
           \<and> is_fallback_evaluation r
               (''Parse error: '' @ str_exn example_runtime
                  (JSONDecodeError ''Expecting value: line 1 column 1 (char 0)'')))"
proof -
  have c: "context_expected_behavior example_context = JStr ''list laptops''"
    by (simp add: context_expected_behavior_def example_context_def dict_get_def)
  have l: "json_loads example_runtime
        (trim_response_content (mr_content (example_response ''I cannot answer'' [])))
       = Inl (JSONDecodeError ''Expecting value: line 1 column 1 (char 0)'')"
    using loads_no_json by (simp add: example_response_def)
  from evaluate_test_result_returns_fallback
         [OF c, of example_runtime "example_judge always_timeout" example_test_result]
       call_judge_timeout [of example_context]
  have 1: "\<exists>r. evaluate_test_result example_runtime (example_judge always_timeout)
             example_test_result example_context = Inr r
           \<and> is_fallback_evaluation r (str_exn example_runtime TimeoutError)"
    by blast
  from evaluate_test_result_returns_fallback
         [OF c, of example_runtime "example_judge (always_answer ''I cannot answer'')"
            example_test_result]
       call_judge_answer [of "''I cannot answer''" example_context] l
  have 2: "\<exists>r. evaluate_test_result example_runtime
             (example_judge (always_answer ''I cannot answer''))
             example_test_result example_context = Inr r
           \<and> is_fallback_evaluation r
               (''Parse error: '' @ str_exn example_runtime
                  (JSONDecodeError ''Expecting value: line 1 column 1 (char 0)''))"
    by blast
  from c 1 2 l call_judge_timeout [of example_context]
       call_judge_answer [of "''I cannot answer''" example_context]
  show ?thesis by blast
qed

text \<open>
  The claim as stated, for every context, fails: with \<^verbatim>\<open>expected_behavior\<close> set to
  \<^verbatim>\<open>None\<close> and a judge that times out, the constructor of the fallback evaluation
  itself raises, inside the handler.
\<close>

theorem evaluate_test_result_raises_on_context:
  "evaluate_test_result example_runtime (example_judge always_timeout) example_test_result
     [(''expected_behavior'', JNull)] = Inl (ValidationError ''EvaluationResult'')"
  by (simp add: evaluate_test_result_def evaluate_body_def call_judge_timeout
      create_fallback_evaluation_def context_expected_behavior_def dict_get_def)

section \<open>Entries of the judge's object that cannot be parsed\<close>

text \<open>
  An entry with a known criterion name whose score or reasoning cannot be read is
  recorded at level satisfactory with a note, and the loop goes on.
\<close>

lemma parse_scores_bad_entry_recorded:
  assumes "criteria_name \<noteq> ''additional_notes''"
    and "EvaluationCriteria_of criteria_name = Inr c"
    and "parse_criteria criteria_name criteria_data = Inl e"
    and "is_KeyError_or_ValueError e"
  shows "parse_scores rt ((criteria_name, criteria_data) # rest) acc =
         parse_scores rt rest
           (acc @ [\<lparr>criteria = c, score = SATISFACTORY,
                     reasoning = ''Failed to parse score: '' @ str_exn rt e,
                     score_value = 3\<rparr>])"
  using assms by (simp add: CriteriaScore_init_def)

text \<open>
  An entry whose name is not a criterion makes the handler raise in its turn, and the
  loop is left with that exception, whatever the other entries are.
\<close>

lemma parse_criteria_unknown_name:
  "EvaluationCriteria_of criteria_name = Inl e \<Longrightarrow>
   parse_criteria criteria_name criteria_data = Inl e"
  by (simp add: parse_criteria_def)

lemma EvaluationCriteria_of_error:
  "EvaluationCriteria_of criteria_name = Inl e \<Longrightarrow> is_KeyError_or_ValueError e"
  by (auto simp: EvaluationCriteria_of_def split: if_splits)

lemma parse_scores_unknown_criterion:
  assumes "(criteria_name, criteria_data) \<in> set d"
    and "criteria_name \<noteq> ''additional_notes''"
    and "EvaluationCriteria_of criteria_name = Inl e"
  shows "\<exists>e'. parse_scores rt d acc = Inl e'"
  using assms(1)
proof (induction d arbitrary: acc)
  case Nil
  then show ?case by simp
next
  case (Cons entry d)
  obtain n v where entry: "entry = (n, v)" by (cases entry)
  show ?case
  proof (cases "entry = (criteria_name, criteria_data)")
    case True
    then show ?thesis
      using assms(2,3) parse_criteria_unknown_name [OF assms(3)]
        EvaluationCriteria_of_error [OF assms(3)]
      by simp
  next
    case False
    with Cons.prems have "(criteria_name, criteria_data) \<in> set d" by simp
    from Cons.IH [OF this] show ?thesis
      unfolding entry by (auto split: sum.splits)
  qed
qed

lemma trim_unknown_criterion_text:
  "trim_response_content unknown_criterion_text = unknown_criterion_text"
  using trim_embedded [of "[]" "[]" "tl (butlast unknown_criterion_text)"]
  by (simp add: unknown_criterion_text_def)

text \<open>
  Claim C2, at the failing input. The judge answers with an object that scores
  \<^verbatim>\<open>task_performance\<close> 5 and has one more entry named \<^verbatim>\<open>accuracy\<close>, which is not a
  criterion. The entry is not recorded with a fallback score next to the first one:
  the whole evaluation is replaced by the all-criteria fallback, in which
  \<^verbatim>\<open>task_performance\<close> is satisfactory with value 3 like the other four.
\<close>

theorem unknown_criterion_discards_evaluation:
  "\<exists>r. parse_evaluation_response example_runtime default_config unknown_criterion_text
          example_test_result example_context = Inr r
       \<and> is_fallback_evaluation r (''Parse error: '' @ [CHR 0x27] @ ''accuracy'' @ [CHR 0x27]
            @ '' is not a valid EvaluationCriteria'')"
proof -
  have b: "parse_evaluation_body example_runtime default_config unknown_criterion_text
             example_test_result example_context
           = Inl (ValueError ''EvaluationCriteria'' (JStr ''accuracy''))"
    unfolding parse_evaluation_body_def trim_unknown_criterion_text
    by (simp add: example_runtime_def example_loads_def unknown_criterion_object_def
        unknown_criterion_text_def example_object_text_def
        parse_criteria_def EvaluationCriteria_of_def dict_get_def score_mapping_def
        CriteriaScore_init_def)
  have c: "context_expected_behavior example_context = JStr ''list laptops''"
    by (simp add: context_expected_behavior_def example_context_def dict_get_def)
  from create_fallback_evaluation_ok [OF c]
  obtain r where "create_fallback_evaluation example_runtime default_config example_test_result
                    example_context (''Parse error: '' @ [CHR 0x27] @ ''accuracy'' @ [CHR 0x27]
            @ '' is not a valid EvaluationCriteria'') = Inr r"
    "is_fallback_evaluation r (''Parse error: '' @ [CHR 0x27] @ ''accuracy'' @ [CHR 0x27]
            @ '' is not a valid EvaluationCriteria'')"
    by blast
  moreover have "str_exn example_runtime (ValueError ''EvaluationCriteria'' (JStr ''accuracy''))
                 = [CHR 0x27] @ ''accuracy'' @ [CHR 0x27] @ '' is not a valid EvaluationCriteria''"
    by (simp add: example_runtime_def)
  ultimately show ?thesis
    by (simp add: parse_evaluation_response_def b)
qed

section \<open>Consensus scores\<close>

declare str_nat.simps [simp del]

lemma clamped_level:
  "\<exists>l. score_level_map (max 1 (min 5 v)) = Some l \<and> SCORE_VALUES l = max 1 (min 5 v)"
proof -
  have "max 1 (min 5 v) \<in> {1, 2, 3, 4, 5::int}" by (auto simp: max_def min_def)
  then show ?thesis by (auto simp: score_level_map_def)
qed

text \<open>\<^verbatim>\<open>round\<close> gives the nearest integer, and the even one half way.\<close>

lemma py_round_rounds: "rounds_to x (py_round x)"
proof -
  have d: "0 \<le> x - of_int \<lfloor>x\<rfloor>" "x - of_int \<lfloor>x\<rfloor> < 1" by linarith+
  consider "x - of_int \<lfloor>x\<rfloor> < 1 / 2" | "x - of_int \<lfloor>x\<rfloor> > 1 / 2"
    | "x - of_int \<lfloor>x\<rfloor> = 1 / 2" "even \<lfloor>x\<rfloor>" | "x - of_int \<lfloor>x\<rfloor> = 1 / 2" "odd \<lfloor>x\<rfloor>"
    by fastforce
  then show ?thesis
  proof cases
    case 1
    then have p: "py_round x = \<lfloor>x\<rfloor>" by (simp add: py_round_def Let_def)
    from 1 d have "\<bar>x - of_int \<lfloor>x\<rfloor>\<bar> < 1 / 2" by linarith
    then show ?thesis unfolding p rounds_to_def by blast
  next
    case 2
    then have p: "py_round x = \<lfloor>x\<rfloor> + 1" by (simp add: py_round_def Let_def)
    from 2 d have "\<bar>x - of_int (\<lfloor>x\<rfloor> + 1)\<bar> < 1 / 2" by (simp; linarith)
    then show ?thesis unfolding p rounds_to_def by blast
  next
    case 3
    then have p: "py_round x = \<lfloor>x\<rfloor>" by (simp add: py_round_def Let_def)
    from 3 have "\<bar>x - of_int \<lfloor>x\<rfloor>\<bar> = 1 / 2" by linarith
    with 3 show ?thesis unfolding p rounds_to_def by blast
  next
    case 4
    then have p: "py_round x = \<lfloor>x\<rfloor> + 1" by (simp add: py_round_def Let_def)
    from 4 have "\<bar>x - of_int (\<lfloor>x\<rfloor> + 1)\<bar> = 1 / 2" by (simp; linarith)
    with 4 show ?thesis unfolding p rounds_to_def by simp
  qed
qed

text \<open>Only one integer is the rounding of a number.\<close>

lemma rounds_to_unique:
  assumes "rounds_to x r" and "rounds_to x r'"
  shows "r = r'"
proof (rule ccontr)
  assume n: "r \<noteq> r'"
  have next_one: False
    if "rounds_to x a" and "rounds_to x (a + 1)" for a
  proof -
    from that have b: "\<bar>x - of_int a\<bar> \<le> 1 / 2" "\<bar>x - of_int a - 1\<bar> \<le> 1 / 2"
      by (auto simp: rounds_to_def diff_diff_eq)
    then have h: "x - of_int a = 1 / 2" by linarith
    then have "\<bar>x - of_int a\<bar> = 1 / 2" "\<bar>x - of_int (a + 1)\<bar> = 1 / 2" by simp_all
    with that have "even a \<and> even (a + 1)" by (auto simp: rounds_to_def)
    then show False by simp
  qed
  from assms have a: "\<bar>x - of_int r\<bar> \<le> 1 / 2" "\<bar>x - of_int r'\<bar> \<le> 1 / 2"
    by (auto simp: rounds_to_def)
  then have "\<bar>(of_int r :: real) - of_int r'\<bar> \<le> 1" by linarith
  then have "\<bar>of_int (r - r') :: real\<bar> \<le> 1" by simp
  then have "\<bar>r - r'\<bar> \<le> 1" by linarith
  with n have "r = r' + 1 \<or> r' = r + 1" by linarith
  with assms next_one [of r'] next_one [of r] show False by auto
qed

lemma find_filter:
  "find P xs = (case filter P xs of [] \<Rightarrow> None | x # rest \<Rightarrow> Some x)"
  by (induction xs) simp_all

lemma list_ex_filter: "list_ex P xs \<longleftrightarrow> filter P xs \<noteq> []"
  by (induction xs) simp_all

lemma collect_criteria_judges_scoring:
  "collect_criteria c evs
   = map (\<lambda>(judge_name, given_score).
            (score_value given_score, judge_name @ '': '' @ reasoning given_score))
       (judges_scoring c evs)"
proof (induction evs)
  case Nil
  then show ?case by (simp add: judges_scoring_def)
next
  case (Cons a evs)
  obtain judge_name evaluation where a: "a = (judge_name, evaluation)" by (cases a)
  from Cons show ?case
    unfolding a
    by (simp add: judges_scoring_def find_filter list_ex_filter split: list.splits)
qed

lemma collected_values:
  "map fst (collect_criteria c evs)
   = map (\<lambda>(judge_name, given_score). score_value given_score) (judges_scoring c evs)"
  by (simp add: collect_criteria_judges_scoring case_prod_beta comp_def)

lemma collected_reasonings:
  "map snd (collect_criteria c evs)
   = map (\<lambda>(judge_name, given_score). judge_name @ '': '' @ reasoning given_score)
       (judges_scoring c evs)"
  by (simp add: collect_criteria_judges_scoring case_prod_beta comp_def)

lemma collected_none: "collect_criteria c evs = [] \<longleftrightarrow> judges_scoring c evs = []"
  by (simp add: collect_criteria_judges_scoring)

lemma consensus_score_none:
  "judges_scoring c evs = [] \<Longrightarrow> consensus_score c evs = Inr None"
  by (simp add: consensus_score_def Let_def collected_none)

lemma consensus_score_some:
  assumes "judges_scoring c evs \<noteq> []"
  shows "\<exists>s. consensus_score c evs = Inr (Some s) \<and> criteria s = c
             \<and> is_consensus_score evs s"
proof -
  define given_values where
    "given_values = map (\<lambda>(judge_name, given_score). score_value given_score)
                      (judges_scoring c evs)"
  define mean :: real where
    "mean = of_int (sum_list given_values) / of_nat (length given_values)"
  define v where "v = max 1 (min 5 (py_round mean))"
  obtain l where l: "score_level_map v = Some l" "SCORE_VALUES l = v"
    using clamped_level unfolding v_def by blast
  define s where
    "s = CriteriaScore_init c l
           (''Consensus from '' @ str_nat (length given_values) @ '' judges (scores: ''
            @ str_int_list given_values @ ''). ''
            @ join ''; '' (map snd (collect_criteria c evs))) None"
  from assms have ne: "given_values \<noteq> []" by (simp add: given_values_def)
  have c: "consensus_score c evs = Inr (Some s)"
    using ne l(1) assms
    by (simp add: consensus_score_def Let_def collected_values collected_none
        given_values_def [symmetric] mean_def [symmetric] v_def [symmetric] s_def)
  have f: "criteria s = c" "score s = l" "score_value s = v"
    using l(2) by (simp_all add: s_def CriteriaScore_init_def)
  have r: "reasoning s =
             ''Consensus from '' @ str_nat (length (judges_scoring c evs))
             @ '' judges (scores: '' @ str_int_list given_values @ ''). ''
             @ join ''; '' (map (\<lambda>(judge_name, given_score).
                                   judge_name @ '': '' @ reasoning given_score)
                              (judges_scoring c evs))"
    by (simp add: s_def CriteriaScore_init_def collected_reasonings given_values_def)
  have "\<exists>r. rounds_to mean r \<and> score_value s = max 1 (min 5 r)"
    using py_round_rounds [of mean] f(3) unfolding v_def by blast
  with assms f l(2) r have "is_consensus_score evs s"
    unfolding is_consensus_score_def Let_def f(1) given_values_def [symmetric]
      mean_def [symmetric]
    by simp
  with c f(1) show ?thesis by blast
qed

lemma consensus_scores_result:
  "\<exists>ss. consensus_scores cs evs = Inr ss
        \<and> map criteria ss = filter (\<lambda>c. judges_scoring c evs \<noteq> []) cs
        \<and> list_all (is_consensus_score evs) ss"
proof (induction cs)
  case Nil
  then show ?case by simp
next
  case (Cons c cs)
  then obtain rest where rest: "consensus_scores cs evs = Inr rest"
    "map criteria rest = filter (\<lambda>c. judges_scoring c evs \<noteq> []) cs"
    "list_all (is_consensus_score evs) rest"
    by blast
  show ?case
  proof (cases "judges_scoring c evs = []")
    case True
    with rest show ?thesis by (simp add: consensus_score_none)
  next
    case False
    from consensus_score_some [OF False]
    obtain s where s: "consensus_score c evs = Inr (Some s)" "criteria s = c"
      "is_consensus_score evs s"
      by blast
    with rest False show ?thesis by simp
  qed
qed

lemma create_consensus_for_test_result:
  assumes "judge_evaluations \<noteq> []"
  shows "\<exists>r. create_consensus_for_test rt test_id judge_evaluations = Inr r
             \<and> map criteria (scores r)
                 = filter (\<lambda>c. judges_scoring c judge_evaluations \<noteq> []) all_criteria
             \<and> list_all (is_consensus_score judge_evaluations) (scores r)
             \<and> overall_score r
                 = sum_list (map (\<lambda>(j, ev). overall_score ev) judge_evaluations)
                   / of_nat (length judge_evaluations)"
proof -
  obtain first rest where evs: "judge_evaluations = first # rest"
    using assms by (cases judge_evaluations) auto
  obtain j ev where first: "first = (j, ev)" by (cases first)
  obtain ss where ss: "consensus_scores all_criteria judge_evaluations = Inr ss"
    "map criteria ss = filter (\<lambda>c. judges_scoring c judge_evaluations \<noteq> []) all_criteria"
    "list_all (is_consensus_score judge_evaluations) ss"
    using consensus_scores_result by blast
  have "create_consensus_for_test rt test_id ((j, ev) # rest) =
          Inr \<lparr>er_test_case_id = er_test_case_id ev,
               er_model_id = er_model_id ev,
               er_scenario_type = er_scenario_type ev,
               er_user_query = er_user_query ev,
               er_model_response = er_model_response ev,
               er_expected_behavior = er_expected_behavior ev,
               scores = ss,
               overall_score =
                 sum_list (map (\<lambda>(j, ev). overall_score ev) ((j, ev) # rest))
                 / of_nat (length ((j, ev) # rest)),
               er_tool_calls_made = er_tool_calls_made ev,
               er_tool_results = er_tool_results ev,
               er_judge_model = ''consensus_of_''
                 @ str_nat (length ((j, ev) # rest)) @ ''_judges'',
               evaluation_timestamp = now_iso rt,
               additional_notes =
                 (if collect_notes ((j, ev) # rest) = [] then None
                  else Some (join ''; '' (collect_notes ((j, ev) # rest))))\<rparr>"
    using ss(1) unfolding evs first
    by (simp add: create_consensus_for_test_def Let_def del: consensus_scores.simps
        collect_notes.simps)
  with ss(2,3) show ?thesis unfolding evs first by simp
qed

text \<open>
  Claim C9. For a non-empty collection of judges' evaluations of one test, the
  consensus evaluation exists; it has one score for each criterion that some judge
  scored, in the order of the enum; each has as value the mean of the values of the
  judges that scored the criterion, rounded to the nearest integer (to the even one half
  way) and clamped to 1..5, as level the level of that value, and as reasoning the
  judges' reasonings, each prefixed by the judge's id and joined by "; ", after the
  header "Consensus from n judges (scores: [...]). "; and the overall score is the
  arithmetic mean of the judges' overall scores.
\<close>

theorem create_consensus_for_test_scores:
  assumes "judge_evaluations \<noteq> []"
  shows "\<exists>r. create_consensus_for_test rt test_id judge_evaluations = Inr r
             \<and> map criteria (scores r)
                 = filter (\<lambda>c. judges_scoring c judge_evaluations \<noteq> []) all_criteria
             \<and> list_all (is_consensus_score judge_evaluations) (scores r)
             \<and> overall_score r
                 = sum_list (map (\<lambda>(j, ev). overall_score ev) judge_evaluations)
                   / of_nat (length judge_evaluations)"
  using assms by (rule create_consensus_for_test_result)

lemma example_consensus_value:
  "create_consensus_for_test example_runtime ''t1'' example_judge_evaluations
   = Inr example_consensus"
  by (simp add: create_consensus_for_test_def example_judge_evaluations_def
      example_evaluation_def second_evaluation_def example_consensus_def all_criteria_def
      consensus_score_def py_round_def score_level_map_def CriteriaScore_init_def
      str_int_list_def str_int_def str_nat.simps example_runtime_def Let_def)

text \<open>
  Three judges. The two values 5 and 4 of the first criterion have the mean 4.5, half
  way, which rounds to the even 4; the three values 5, 5 and 4 of the second have the mean
  14/3, which rounds up to 5. The overall score is the mean 4.5 of the judges' overall
  scores, not the weighted score 49/11 of the consensus scores.
\<close>

lemma three_judge_consensus_value:
  "create_consensus_for_test example_runtime ''t1'' three_judge_evaluations
   = Inr three_judge_consensus"
  by (simp add: create_consensus_for_test_def three_judge_evaluations_def
      first_of_three_def second_of_three_def third_of_three_def
      example_evaluation_def three_judge_consensus_def all_criteria_def
      consensus_score_def py_round_def score_level_map_def CriteriaScore_init_def
      str_int_list_def str_int_def str_nat.simps example_runtime_def Let_def)

lemma three_judge_scoring:
  "map (\<lambda>(judge_name, given_score). (judge_name, score_value given_score))
     (judges_scoring TASK_PERFORMANCE three_judge_evaluations)
   = [(''gpt-4o'', 5), (''gemini'', 4)]"
  "map (\<lambda>(judge_name, given_score). (judge_name, score_value given_score))
     (judges_scoring RESPONSE_QUALITY three_judge_evaluations)
   = [(''gpt-4o'', 5), (''gemini'', 5), (''claude'', 4)]"
  by (simp_all add: judges_scoring_def three_judge_evaluations_def first_of_three_def
      second_of_three_def third_of_three_def)

theorem create_consensus_for_test_scores_witness:
  "three_judge_evaluations \<noteq> []
   \<and> create_consensus_for_test example_runtime ''t1'' three_judge_evaluations
       = Inr three_judge_consensus
   \<and> map criteria (scores three_judge_consensus)
       = filter (\<lambda>c. judges_scoring c three_judge_evaluations \<noteq> []) all_criteria
   \<and> list_all (is_consensus_score three_judge_evaluations) (scores three_judge_consensus)
   \<and> overall_score three_judge_consensus
       = sum_list (map (\<lambda>(j, ev). overall_score ev) three_judge_evaluations)
         / of_nat (length three_judge_evaluations)
   \<and> map criteria (scores three_judge_consensus) = [TASK_PERFORMANCE, RESPONSE_QUALITY]
   \<and> map score_value (scores three_judge_consensus) = [4, 5]
   \<and> rounds_to (9 / 2) 4 \<and> rounds_to (14 / 3) 5
   \<and> overall_score three_judge_consensus = 4.5
   \<and> calculate_weighted_score default_config (scores three_judge_consensus) = 49 / 11"
proof -
  have n: "three_judge_evaluations \<noteq> []"
    by (simp add: three_judge_evaluations_def)
  have v: "map criteria (scores three_judge_consensus) = [TASK_PERFORMANCE, RESPONSE_QUALITY]
           \<and> map score_value (scores three_judge_consensus) = [4, 5]
           \<and> overall_score three_judge_consensus = 4.5
           \<and> calculate_weighted_score default_config (scores three_judge_consensus)
               = 49 / 11"
    by (simp add: three_judge_consensus_def example_evaluation_def
        calculate_weighted_score_def weight_of_def default_config_def
        default_criteria_weights_def)
  have r: "rounds_to (9 / 2) 4 \<and> rounds_to (14 / 3) 5"
    by (simp add: rounds_to_def)
  from create_consensus_for_test_scores [OF n, of example_runtime "''t1''"]
  have "map criteria (scores three_judge_consensus)
          = filter (\<lambda>c. judges_scoring c three_judge_evaluations \<noteq> []) all_criteria
        \<and> list_all (is_consensus_score three_judge_evaluations)
            (scores three_judge_consensus)
        \<and> overall_score three_judge_consensus
          = sum_list (map (\<lambda>(j, ev). overall_score ev) three_judge_evaluations)
            / of_nat (length three_judge_evaluations)"
    unfolding three_judge_consensus_value by blast
  with n v r three_judge_consensus_value show ?thesis by blast
qed

section \<open>The score mapping invariant\<close>

lemma CriteriaScore_init_canonical:
  "score_value (CriteriaScore_init c l t None) = SCORE_VALUES (score (CriteriaScore_init c l t None))"
  by (simp add: CriteriaScore_init_def)

lemma parse_criteria_canonical:
  "parse_criteria criteria_name criteria_data = Inr s \<Longrightarrow> score_value s = SCORE_VALUES (score s)"
  by (auto simp: parse_criteria_def CriteriaScore_init_def split: sum.splits)

lemma parse_scores_canonical:
  "parse_scores rt d acc = Inr ss \<Longrightarrow>
   list_all (\<lambda>s. score_value s = SCORE_VALUES (score s)) acc \<Longrightarrow>
   list_all (\<lambda>s. score_value s = SCORE_VALUES (score s)) ss"
proof (induction rt d acc rule: parse_scores.induct)
  case (1 rt acc)
  then show ?case by simp
next
  case (2 rt criteria_name criteria_data rest acc)
  show ?case
  proof (cases "criteria_name = ''additional_notes''")
    case True
    with 2 show ?thesis by simp
  next
    case False
    show ?thesis
    proof (cases "parse_criteria criteria_name criteria_data")
      case (Inr cs)
      with 2 False parse_criteria_canonical [OF Inr] show ?thesis by simp
    next
      case (Inl e)
      with 2 False show ?thesis
        by (auto simp: CriteriaScore_init_def split: if_splits sum.splits)
    qed
  qed
qed

lemma create_fallback_evaluation_canonical:
  "create_fallback_evaluation rt cfg test_result ctx msg = Inr r \<Longrightarrow> canonical_scores r"
  by (auto simp: create_fallback_evaluation_def canonical_scores_def all_criteria_def
      CriteriaScore_init_def split: sum.splits)

lemma parse_evaluation_response_canonical:
  assumes "parse_evaluation_response rt cfg content test_result ctx = Inr r"
  shows "canonical_scores r"
proof (cases "parse_evaluation_body rt cfg content test_result ctx")
  case (Inl e)
  with assms show ?thesis
    by (simp add: parse_evaluation_response_def create_fallback_evaluation_canonical)
next
  case (Inr r')
  with assms have r: "r' = r" by (simp add: parse_evaluation_response_def)
  from Inr obtain d where "parse_scores rt d [] = Inr (scores r')"
    by (auto simp: parse_evaluation_body_def split: sum.splits)
  from parse_scores_canonical [OF this] r show ?thesis
    by (simp add: canonical_scores_def)
qed

lemma evaluate_test_result_canonical:
  assumes "evaluate_test_result rt judge test_result ctx = Inr r"
  shows "canonical_scores r"
proof (cases "evaluate_body rt judge test_result ctx")
  case (Inl e)
  with assms show ?thesis
    by (simp add: evaluate_test_result_def create_fallback_evaluation_canonical)
next
  case (Inr r')
  with assms have "evaluate_body rt judge test_result ctx = Inr r"
    by (simp add: evaluate_test_result_def)
  then show ?thesis
    by (auto simp: evaluate_body_def parse_evaluation_response_canonical split: sum.splits)
qed

lemma create_consensus_for_test_canonical:
  assumes "create_consensus_for_test rt test_id evs = Inr r"
  shows "canonical_scores r"
proof -
  from assms have ne: "evs \<noteq> []" by (auto simp: create_consensus_for_test_def)
  from create_consensus_for_test_result [OF ne, of rt test_id] assms
  have "list_all (is_consensus_score evs) (scores r)" by auto
  then show ?thesis
    by (simp add: canonical_scores_def is_consensus_score_def Let_def list_all_iff)
qed

lemma multi_create_fallback_evaluation_canonical:
  "multi_create_fallback_evaluation rt test_result ctx judge_name msg = Inr r \<Longrightarrow>
   canonical_scores r"
  by (auto simp: multi_create_fallback_evaluation_def canonical_scores_def all_criteria_def
      CriteriaScore_init_def split: sum.splits)

text \<open>
  Claim C7. In every evaluation that the system builds, every score has as numeric
  value the canonical value of its level (excellent 5, good 4, satisfactory 3, poor 2,
  very poor 1): the scores parsed from a judge's response, the scores of the judge's
  fallback evaluation, whatever \<^const>\<open>evaluate_test_result\<close> returns, the consensus
  scores, and the scores of the multi-judge fallback. No construction site passes a
  numeric value of its own to the constructor.
\<close>

theorem score_value_is_canonical:
  "SCORE_VALUES EXCELLENT = 5 \<and> SCORE_VALUES GOOD = 4 \<and> SCORE_VALUES SATISFACTORY = 3
   \<and> SCORE_VALUES POOR = 2 \<and> SCORE_VALUES VERY_POOR = 1
   \<and> (parse_evaluation_response rt cfg content test_result ctx = Inr r1 \<longrightarrow> canonical_scores r1)
   \<and> (create_fallback_evaluation rt cfg test_result ctx msg = Inr r2 \<longrightarrow> canonical_scores r2)
   \<and> (evaluate_test_result rt judge test_result ctx = Inr r3 \<longrightarrow> canonical_scores r3)
   \<and> (create_consensus_for_test rt test_id evs = Inr r4 \<longrightarrow> canonical_scores r4)
   \<and> (multi_create_fallback_evaluation rt test_result ctx judge_name msg = Inr r5 \<longrightarrow>
        canonical_scores r5)"
proof (intro conjI impI)
  assume "parse_evaluation_response rt cfg content test_result ctx = Inr r1"
  then show "canonical_scores r1" by (rule parse_evaluation_response_canonical)
next
  assume "create_fallback_evaluation rt cfg test_result ctx msg = Inr r2"
  then show "canonical_scores r2" by (rule create_fallback_evaluation_canonical)
next
  assume "evaluate_test_result rt judge test_result ctx = Inr r3"
  then show "canonical_scores r3" by (rule evaluate_test_result_canonical)
next
  assume "create_consensus_for_test rt test_id evs = Inr r4"
  then show "canonical_scores r4" by (rule create_consensus_for_test_canonical)
next
  assume "multi_create_fallback_evaluation rt test_result ctx judge_name msg = Inr r5"
  then show "canonical_scores r5" by (rule multi_create_fallback_evaluation_canonical)
qed simp_all

lemma multi_fallback_example:
  "\<exists>r. multi_create_fallback_evaluation example_runtime example_test_result example_context
          ''gemini'' ''boom'' = Inr r"
  by (simp add: multi_create_fallback_evaluation_def context_expected_behavior_def
      example_context_def dict_get_def)

lemma fallback_example:
  "\<exists>r. create_fallback_evaluation example_runtime default_config example_test_result
          example_context ''boom'' = Inr r"
  by (simp add: create_fallback_evaluation_def context_expected_behavior_def
      example_context_def dict_get_def)

lemma evaluate_example:
  "\<exists>r. evaluate_test_result example_runtime (example_judge always_timeout)
          example_test_result example_context = Inr r"
  by (simp add: evaluate_test_result_def evaluate_body_def call_judge_timeout
      create_fallback_evaluation_def context_expected_behavior_def
      example_context_def dict_get_def)

theorem score_value_is_canonical_witness:
  "parse_evaluation_response example_runtime default_config example_object_text
     example_test_result example_context = Inr example_evaluation
   \<and> canonical_scores example_evaluation
   \<and> (\<exists>r. create_fallback_evaluation example_runtime default_config example_test_result
             example_context ''boom'' = Inr r \<and> canonical_scores r)
   \<and> (\<exists>r. evaluate_test_result example_runtime (example_judge always_timeout)
             example_test_result example_context = Inr r \<and> canonical_scores r)
   \<and> create_consensus_for_test example_runtime ''t1'' example_judge_evaluations
       = Inr example_consensus
   \<and> canonical_scores example_consensus
   \<and> (\<exists>r. multi_create_fallback_evaluation example_runtime example_test_result
             example_context ''gemini'' ''boom'' = Inr r \<and> canonical_scores r)"
proof -
  have p: "parse_evaluation_response example_runtime default_config example_object_text
             example_test_result example_context = Inr example_evaluation"
    by (simp add: parse_evaluation_response_def parse_example_object_text)
  note t = score_value_is_canonical
    [where rt = example_runtime and cfg = default_config and content = example_object_text
       and test_result = example_test_result and ctx = example_context
       and judge = "example_judge always_timeout" and test_id = "''t1''"
       and evs = example_judge_evaluations and judge_name = "''gemini''" and msg = "''boom''"]
  from t [where ?r1.0 = example_evaluation] p
  have 1: "canonical_scores example_evaluation" by blast
  from t fallback_example
  have 2: "\<exists>r. create_fallback_evaluation example_runtime default_config example_test_result
             example_context ''boom'' = Inr r \<and> canonical_scores r" by blast
  from t evaluate_example
  have 3: "\<exists>r. evaluate_test_result example_runtime (example_judge always_timeout)
             example_test_result example_context = Inr r \<and> canonical_scores r" by blast
  from t [where ?r4.0 = example_consensus] example_consensus_value
  have 4: "canonical_scores example_consensus" by blast
  from t multi_fallback_example
  have 5: "\<exists>r. multi_create_fallback_evaluation example_runtime example_test_result
             example_context ''gemini'' ''boom'' = Inr r \<and> canonical_scores r" by blast
  from p 1 2 3 4 5 example_consensus_value show ?thesis by blast
qed

section \<open>One result per test case\<close>

lemma failed_test_result_case_id:
  "tr_test_case_id (fst (failed_test_result rt p model_config test_case model_id t e st))
   = case_id test_case"
  by (simp add: failed_test_result_def Let_def)

lemma run_single_test_case_id:
  "tr_test_case_id (fst (run_single_test rt cfg delay p model_config test_case model_id st))
   = case_id test_case"
  by (simp add: run_single_test_def Let_def failed_test_result_case_id split: sum.splits)

lemma keep_test_results_append:
  "keep_test_results (xs @ ys) = keep_test_results xs @ keep_test_results ys"
  by (induction xs rule: keep_test_results.induct) simp_all

lemma run_tests_results:
  "keep_test_results
     (fst (run_tests rt ex run p model_config model_id n test_cases collected st))
   = keep_test_results collected
     @ results_in_order rt (exec_config ex) (rate_limit_delay ex) p model_config model_id
         test_cases st"
proof (induction test_cases arbitrary: collected st)
  case Nil
  then show ?case by simp
next
  case (Cons test_case rest)
  show ?case
    by (simp add: Let_def case_prod_beta Cons.IH keep_test_results_append
        split: option.splits)
qed

lemma results_in_order_case_ids:
  "map tr_test_case_id (results_in_order rt cfg delay p model_config model_id test_cases st)
   = map case_id test_cases"
  by (induction test_cases arbitrary: st)
     (simp_all add: Let_def case_prod_beta run_single_test_case_id)

lemma failed_test_result_outcome:
  "fst (failed_test_result rt p model_config test_case model_id t e st)
   = \<lparr>tr_test_case_id = case_id test_case,
      tr_model_id = model_id,
      tr_scenario_type = case_scenario_type test_case,
      tr_user_query = case_user_query test_case,
      tr_model_response =
        \<lparr>mr_content = [], mr_usage = None, mr_model = mc_model_name model_config,
         mr_provider = provider_name p, mr_tool_calls = [],
         mr_error = Some (if e = TimeoutError then ''Timeout'' else str_exn rt e),
         mr_latency_ms = None\<rparr>,
      tr_tool_calls_made = [],
      tr_tool_results = [],
      tr_execution_time_ms = (time_time rt (tick st) - t) * 1000,
      tr_timestamp = now_iso rt,
      tr_error = Some (if e = TimeoutError then ''Test timed out'' else str_exn rt e)\<rparr>"
  by (simp add: failed_test_result_def Let_def)

lemma run_single_test_outcome:
  "outcome_recorded rt cfg p model_config model_id test_case
     (fst (run_single_test rt cfg delay p model_config test_case model_id st))"
proof (cases "generate_response p
                (format_messages_with_system_prompt p (case_user_query test_case))
                model_config
                (if include_tool_execution cfg then Some (database_tools p) else None)")
  case (Inl e)
  then show ?thesis
    by (simp add: outcome_recorded_def run_single_test_def Let_def failed_test_result_outcome)
next
  case (Inr response)
  then show ?thesis
    by (simp add: outcome_recorded_def run_single_test_def Let_def failed_test_result_outcome)
qed

lemma results_in_order_outcomes:
  "list_all2 (outcome_recorded rt cfg p model_config model_id) test_cases
     (results_in_order rt cfg delay p model_config model_id test_cases st)"
  by (induction test_cases arbitrary: st)
     (simp_all add: Let_def case_prod_beta run_single_test_outcome)

lemma run_model_benchmark_completed:
  assumes "run_model_benchmark rt ex run model_id test_cases i st = Inr (run', st')"
    and "status (model_results run' ! i) = COMPLETED"
    and "test_results (model_results run ! i) = []"
  shows "\<exists>p d model_config.
           get_provider ex model_id = Some p
           \<and> get_model_config ex model_id = Some d
           \<and> model_config_of rt d model_id = Inr model_config
           \<and> test_results (model_results run' ! i)
               = results_in_order rt (exec_config ex) (rate_limit_delay ex) p model_config
                   model_id test_cases st"
proof -
  from assms(1) have i: "i < length (model_results run)"
    by (auto simp: run_model_benchmark_def split: if_splits)
  show ?thesis
    using assms i
    by (auto simp: run_model_benchmark_def Let_def case_prod_beta run_tests_results
        split: if_splits option.splits list.splits sum.splits)
qed

text \<open>
  Claim C3. When \<^const>\<open>run_model_benchmark\<close> leaves a model, whose entry started with
  no results, in status \<^const>\<open>COMPLETED\<close>, the entry holds exactly the results of the
  tests, run one after the other on the model's provider and configuration: one result
  per input test case, in input order, with the test case's id. Each stored result
  records the outcome of its test: when the generation call raised, the error field is
  the exception's text ("Test timed out" for the timeout) and the response is empty;
  when it answered without asking for a tool, the result has no error and holds the
  answer. Neither an exception in a test nor one in the progress callback drops a
  result.
\<close>

theorem completed_model_has_one_result_per_test_case:
  assumes "run_model_benchmark rt ex run model_id test_cases i st = Inr (run', st')"
    and "status (model_results run' ! i) = COMPLETED"
    and "test_results (model_results run ! i) = []"
  shows "\<exists>p d model_config.
           get_provider ex model_id = Some p
           \<and> get_model_config ex model_id = Some d
           \<and> model_config_of rt d model_id = Inr model_config
           \<and> test_results (model_results run' ! i)
               = results_in_order rt (exec_config ex) (rate_limit_delay ex) p model_config
                   model_id test_cases st
           \<and> length (test_results (model_results run' ! i)) = length test_cases
           \<and> map tr_test_case_id (test_results (model_results run' ! i))
               = map case_id test_cases
           \<and> list_all2 (outcome_recorded rt (exec_config ex) p model_config model_id)
               test_cases (test_results (model_results run' ! i))"
proof -
  from run_model_benchmark_completed [OF assms]
  obtain p d model_config where r:
    "get_provider ex model_id = Some p"
    "get_model_config ex model_id = Some d"
    "model_config_of rt d model_id = Inr model_config"
    "test_results (model_results run' ! i)
       = results_in_order rt (exec_config ex) (rate_limit_delay ex) p model_config
           model_id test_cases st"
    by blast
  have m: "map tr_test_case_id (test_results (model_results run' ! i))
           = map case_id test_cases"
    unfolding r(4) by (rule results_in_order_case_ids)
  from m have "length (map tr_test_case_id (test_results (model_results run' ! i)))
               = length (map case_id test_cases)" by simp
  then have l: "length (test_results (model_results run' ! i)) = length test_cases" by simp
  have o: "list_all2 (outcome_recorded rt (exec_config ex) p model_config model_id)
             test_cases (test_results (model_results run' ! i))"
    unfolding r(4) by (rule results_in_order_outcomes)
  from r m l o show ?thesis by blast
qed

text \<open>
  A model whose provider raises on every call, and one whose provider answers: each run
  completes and stores one result per test case, with the exception's text in the first
  and with the answer in the second.
\<close>

lemma raising_run_completes:
  "\<exists>run' st'.
     run_model_benchmark example_runtime (example_executor always_raise)
       example_run ''m1'' [example_case ''t1'', example_case ''t2''] 0 initial_state
     = Inr (run', st')
     \<and> status (model_results run' ! 0) = COMPLETED"
  by (simp add: run_model_benchmark_def example_run_def initial_run_def example_executor_def
      model_config_of_def example_runtime_def update_progress_def dict_get_def
      example_benchmark_config_def Let_def case_prod_beta)

lemma answering_run_completes:
  "\<exists>run' st'.
     run_model_benchmark example_runtime (example_executor (always_answer ''Here they are''))
       example_run ''m1'' [example_case ''t1'', example_case ''t2''] 0 initial_state
     = Inr (run', st')
     \<and> status (model_results run' ! 0) = COMPLETED"
  by (simp add: run_model_benchmark_def example_run_def initial_run_def example_executor_def
      model_config_of_def example_runtime_def update_progress_def dict_get_def
      example_benchmark_config_def Let_def case_prod_beta)

lemma example_raise:
  "generate_response (example_provider always_raise) messages model_config tools
   = Inl (RuntimeError ''connection reset'')"
  by (simp add: example_provider_def always_raise_def)

lemma example_answer:
  "generate_response (example_provider (always_answer text)) messages model_config tools
   = Inr (example_response text [])"
  by (simp add: example_provider_def always_answer_def)

lemma raising_outcome:
  assumes "outcome_recorded example_runtime example_benchmark_config
             (example_provider always_raise) model_config ''m1'' test_case r"
  shows "tr_error r = Some ''connection reset''
         \<and> mr_error (tr_model_response r) = Some ''connection reset''
         \<and> mr_content (tr_model_response r) = []"
  using assms by (simp add: outcome_recorded_def example_raise example_runtime_def)

lemma answering_outcome:
  assumes "outcome_recorded example_runtime example_benchmark_config
             (example_provider (always_answer text)) model_config ''m1'' test_case r"
  shows "tr_error r = None \<and> mr_content (tr_model_response r) = text"
  using assms by (simp add: outcome_recorded_def example_answer example_response_def)

lemma two_outcomes:
  assumes "list_all2 P [a, b] rs"
  obtains r1 r2 where "rs = [r1, r2]" and "P a r1" and "P b r2"
  using assms by (auto simp: list_all2_Cons1)

theorem completed_model_has_one_result_per_test_case_witness:
  "(\<exists>run' st'.
      run_model_benchmark example_runtime (example_executor always_raise)
        example_run ''m1'' [example_case ''t1'', example_case ''t2''] 0 initial_state
      = Inr (run', st')
      \<and> status (model_results run' ! 0) = COMPLETED
      \<and> test_results (model_results example_run ! 0) = []
      \<and> length (test_results (model_results run' ! 0)) = 2
      \<and> map tr_test_case_id (test_results (model_results run' ! 0)) = [''t1'', ''t2'']
      \<and> map tr_error (test_results (model_results run' ! 0))
          = [Some ''connection reset'', Some ''connection reset'']
      \<and> map (\<lambda>r. mr_content (tr_model_response r)) (test_results (model_results run' ! 0))
          = [[], []])
   \<and> (\<exists>run' st'.
      run_model_benchmark example_runtime (example_executor (always_answer ''Here they are''))
        example_run ''m1'' [example_case ''t1'', example_case ''t2''] 0 initial_state
      = Inr (run', st')
      \<and> status (model_results run' ! 0) = COMPLETED
      \<and> length (test_results (model_results run' ! 0)) = 2
      \<and> map tr_test_case_id (test_results (model_results run' ! 0)) = [''t1'', ''t2'']
      \<and> map tr_error (test_results (model_results run' ! 0)) = [None, None]
      \<and> map (\<lambda>r. mr_content (tr_model_response r)) (test_results (model_results run' ! 0))
          = [''Here they are'', ''Here they are''])"
proof (intro conjI)
  obtain run' st' where r:
    "run_model_benchmark example_runtime (example_executor always_raise)
       example_run ''m1'' [example_case ''t1'', example_case ''t2''] 0 initial_state
     = Inr (run', st')"
    "status (model_results run' ! 0) = COMPLETED"
    using raising_run_completes by blast
  have e: "test_results (model_results example_run ! 0) = []"
    by (simp add: example_run_def initial_run_def)
  have p: "get_provider (example_executor always_raise) ''m1''
           = Some (example_provider always_raise)"
    "exec_config (example_executor always_raise) = example_benchmark_config"
    by (simp_all add: example_executor_def)
  from completed_model_has_one_result_per_test_case [OF r e]
  obtain q model_config where u:
    "get_provider (example_executor always_raise) ''m1'' = Some q"
    "length (test_results (model_results run' ! 0))
       = length [example_case ''t1'', example_case ''t2'']"
    "map tr_test_case_id (test_results (model_results run' ! 0))
       = map case_id [example_case ''t1'', example_case ''t2'']"
    "list_all2 (outcome_recorded example_runtime (exec_config (example_executor always_raise))
                  q model_config ''m1'')
       [example_case ''t1'', example_case ''t2'']
       (test_results (model_results run' ! 0))"
    by blast
  from u(1) p(1) have q: "q = example_provider always_raise" by simp
  from u(2,3) have t:
    "length (test_results (model_results run' ! 0)) = 2"
    "map tr_test_case_id (test_results (model_results run' ! 0)) = [''t1'', ''t2'']"
    by (simp_all add: example_case_def)
  from u(4) obtain r1 r2 where rs: "test_results (model_results run' ! 0) = [r1, r2]"
    "outcome_recorded example_runtime example_benchmark_config
       (example_provider always_raise) model_config ''m1'' (example_case ''t1'') r1"
    "outcome_recorded example_runtime example_benchmark_config
       (example_provider always_raise) model_config ''m1'' (example_case ''t2'') r2"
    unfolding q p(2) by (rule two_outcomes)
  from raising_outcome [OF rs(2)] raising_outcome [OF rs(3)]
  have v: "map tr_error (test_results (model_results run' ! 0))
             = [Some ''connection reset'', Some ''connection reset'']"
    "map (\<lambda>r. mr_content (tr_model_response r)) (test_results (model_results run' ! 0))
             = [[], []]"
    unfolding rs(1) by simp_all
  show "\<exists>run' st'.
      run_model_benchmark example_runtime (example_executor always_raise)
        example_run ''m1'' [example_case ''t1'', example_case ''t2''] 0 initial_state
      = Inr (run', st')
      \<and> status (model_results run' ! 0) = COMPLETED
      \<and> test_results (model_results example_run ! 0) = []
      \<and> length (test_results (model_results run' ! 0)) = 2
      \<and> map tr_test_case_id (test_results (model_results run' ! 0)) = [''t1'', ''t2'']
      \<and> map tr_error (test_results (model_results run' ! 0))
          = [Some ''connection reset'', Some ''connection reset'']
      \<and> map (\<lambda>r. mr_content (tr_model_response r)) (test_results (model_results run' ! 0))
          = [[], []]"
    using r e t v by (intro exI [of _ run'] exI [of _ st'] conjI) simp_all
next
  obtain run' st' where r:
    "run_model_benchmark example_runtime (example_executor (always_answer ''Here they are''))
       example_run ''m1'' [example_case ''t1'', example_case ''t2''] 0 initial_state
     = Inr (run', st')"
    "status (model_results run' ! 0) = COMPLETED"
    using answering_run_completes by blast
  have e: "test_results (model_results example_run ! 0) = []"
    by (simp add: example_run_def initial_run_def)
  have p: "get_provider (example_executor (always_answer ''Here they are'')) ''m1''
           = Some (example_provider (always_answer ''Here they are''))"
    "exec_config (example_executor (always_answer ''Here they are''))
     = example_benchmark_config"
    by (simp_all add: example_executor_def)
  from completed_model_has_one_result_per_test_case [OF r e]
  obtain q model_config where u:
    "get_provider (example_executor (always_answer ''Here they are'')) ''m1'' = Some q"
    "length (test_results (model_results run' ! 0))
       = length [example_case ''t1'', example_case ''t2'']"
    "map tr_test_case_id (test_results (model_results run' ! 0))
       = map case_id [example_case ''t1'', example_case ''t2'']"
    "list_all2 (outcome_recorded example_runtime
                  (exec_config (example_executor (always_answer ''Here they are'')))
                  q model_config ''m1'')
       [example_case ''t1'', example_case ''t2'']
       (test_results (model_results run' ! 0))"
    by blast
  from u(1) p(1) have q: "q = example_provider (always_answer ''Here they are'')" by simp
  from u(2,3) have t:
    "length (test_results (model_results run' ! 0)) = 2"
    "map tr_test_case_id (test_results (model_results run' ! 0)) = [''t1'', ''t2'']"
    by (simp_all add: example_case_def)
  from u(4) obtain r1 r2 where rs: "test_results (model_results run' ! 0) = [r1, r2]"
    "outcome_recorded example_runtime example_benchmark_config
       (example_provider (always_answer ''Here they are'')) model_config ''m1''
       (example_case ''t1'') r1"
    "outcome_recorded example_runtime example_benchmark_config
       (example_provider (always_answer ''Here they are'')) model_config ''m1''
       (example_case ''t2'') r2"
    unfolding q p(2) by (rule two_outcomes)
  from answering_outcome [OF rs(2)] answering_outcome [OF rs(3)]
  have v: "map tr_error (test_results (model_results run' ! 0)) = [None, None]"
    "map (\<lambda>r. mr_content (tr_model_response r)) (test_results (model_results run' ! 0))
             = [''Here they are'', ''Here they are'']"
    unfolding rs(1) by simp_all
  show "\<exists>run' st'.
      run_model_benchmark example_runtime (example_executor (always_answer ''Here they are''))
        example_run ''m1'' [example_case ''t1'', example_case ''t2''] 0 initial_state
      = Inr (run', st')
      \<and> status (model_results run' ! 0) = COMPLETED
      \<and> length (test_results (model_results run' ! 0)) = 2
      \<and> map tr_test_case_id (test_results (model_results run' ! 0)) = [''t1'', ''t2'']
      \<and> map tr_error (test_results (model_results run' ! 0)) = [None, None]
      \<and> map (\<lambda>r. mr_content (tr_model_response r)) (test_results (model_results run' ! 0))
          = [''Here they are'', ''Here they are'']"
    using r t v by (intro exI [of _ run'] exI [of _ st'] conjI) simp_all
qed

section \<open>A generation call that times out\<close>

lemma run_single_test_first_timeout:
  assumes "generate_response p (format_messages_with_system_prompt p (case_user_query test_case))
             model_config
             (if include_tool_execution cfg then Some (database_tools p) else None)
           = Inl TimeoutError"
  shows "run_single_test rt cfg delay p model_config test_case model_id st =
         (\<lparr>tr_test_case_id = case_id test_case,
           tr_model_id = model_id,
           tr_scenario_type = case_scenario_type test_case,
           tr_user_query = case_user_query test_case,
           tr_model_response =
             \<lparr>mr_content = [], mr_usage = None, mr_model = mc_model_name model_config,
              mr_provider = provider_name p, mr_tool_calls = [],
              mr_error = Some ''Timeout'', mr_latency_ms = None\<rparr>,
           tr_tool_calls_made = [],
           tr_tool_results = [],
           tr_execution_time_ms = (time_time rt (tick st + 1) - time_time rt (tick st)) * 1000,
           tr_timestamp = now_iso rt,
           tr_error = Some ''Test timed out''\<rparr>,
          st\<lparr>tick := tick st + 2\<rparr>)"
  using assms by (simp add: run_single_test_def Let_def failed_test_result_def)

text \<open>
  Claim C6, as amended. When the first generation call of a test does not resolve
  within the timeout, \<^const>\<open>run_single_test\<close> returns a result whose model response
  has empty content and the error "Timeout", whose own error field is
  "Test timed out", with no tool calls made and no tool results, and whose execution
  time in milliseconds is 1000 times the difference between the clock reading in the
  handler and the one at the start of the test.
\<close>

theorem first_generation_timeout_result:
  assumes "generate_response p (format_messages_with_system_prompt p (case_user_query test_case))
             model_config
             (if include_tool_execution cfg then Some (database_tools p) else None)
           = Inl TimeoutError"
  shows "run_single_test rt cfg delay p model_config test_case model_id st =
         (\<lparr>tr_test_case_id = case_id test_case,
           tr_model_id = model_id,
           tr_scenario_type = case_scenario_type test_case,
           tr_user_query = case_user_query test_case,
           tr_model_response =
             \<lparr>mr_content = [], mr_usage = None, mr_model = mc_model_name model_config,
              mr_provider = provider_name p, mr_tool_calls = [],
              mr_error = Some ''Timeout'', mr_latency_ms = None\<rparr>,
           tr_tool_calls_made = [],
           tr_tool_results = [],
           tr_execution_time_ms = (time_time rt (tick st + 1) - time_time rt (tick st)) * 1000,
           tr_timestamp = now_iso rt,
           tr_error = Some ''Test timed out''\<rparr>,
          st\<lparr>tick := tick st + 2\<rparr>)"
  using assms by (rule run_single_test_first_timeout)

lemma example_timeout:
  "generate_response (example_provider always_timeout)
     (format_messages_with_system_prompt (example_provider always_timeout)
        (case_user_query (example_case ''t1'')))
     example_model_config
     (if include_tool_execution example_benchmark_config
      then Some (database_tools (example_provider always_timeout)) else None)
   = Inl TimeoutError"
  by (simp add: example_provider_def always_timeout_def)

theorem first_generation_timeout_result_witness:
  "generate_response (example_provider always_timeout)
     (format_messages_with_system_prompt (example_provider always_timeout)
        (case_user_query (example_case ''t1'')))
     example_model_config
     (if include_tool_execution example_benchmark_config
      then Some (database_tools (example_provider always_timeout)) else None)
   = Inl TimeoutError
   \<and> run_single_test example_runtime example_benchmark_config 1
       (example_provider always_timeout) example_model_config (example_case ''t1'') ''m1''
       initial_state =
       (\<lparr>tr_test_case_id = ''t1'',
         tr_model_id = ''m1'',
         tr_scenario_type = ''correct'',
         tr_user_query = ''laptops?'',
         tr_model_response =
           \<lparr>mr_content = [], mr_usage = None, mr_model = ''mock-1'',
            mr_provider = ''mock'', mr_tool_calls = [],
            mr_error = Some ''Timeout'', mr_latency_ms = None\<rparr>,
         tr_tool_calls_made = [],
         tr_tool_results = [],
         tr_execution_time_ms = 1000,
         tr_timestamp = ''2025-01-01T00:00:00'',
         tr_error = Some ''Test timed out''\<rparr>,
        \<lparr>tick = 2, last_request_time = Map.empty, sleeps = []\<rparr>)"
  using first_generation_timeout_result
    [OF example_timeout, of example_runtime 1 "''m1''" initial_state]
    example_timeout
  by (simp add: example_case_def example_model_config_def example_provider_def
      example_runtime_def initial_state_def)

text \<open>
  The claim as stated gives the result the error "Timeout"; the error field of the
  result is "Test timed out", and "Timeout" is the error of the model response in it.
\<close>

theorem timeout_result_error_field:
  "tr_error (fst (run_single_test example_runtime example_benchmark_config 1
                    (example_provider always_timeout) example_model_config
                    (example_case ''t1'') ''m1'' initial_state))
   = Some ''Test timed out''
   \<and> tr_error (fst (run_single_test example_runtime example_benchmark_config 1
                      (example_provider always_timeout) example_model_config
                      (example_case ''t1'') ''m1'' initial_state))
     \<noteq> Some ''Timeout''"
  by (simp add: run_single_test_first_timeout [OF example_timeout])

text \<open>
  A timeout of the generation call that follows a tool call is caught by the handler
  of the tool loop: it becomes one more tool result, the test keeps the first answer
  and ends without an error.
\<close>

lemma followup_timeout_is_a_tool_error:
  "fst (run_single_test example_runtime example_benchmark_config 1
          (example_provider tool_then_timeout) example_model_config
          (example_case ''t1'') ''m1'' initial_state)
   = \<lparr>tr_test_case_id = ''t1'',
      tr_model_id = ''m1'',
      tr_scenario_type = ''correct'',
      tr_user_query = ''laptops?'',
      tr_model_response = example_response ''searching'' [search_call],
      tr_tool_calls_made =
        [JObj [(''name'', JStr ''search_products''),
               (''arguments'', JObj [(''query'', JStr ''laptop'')]),
               (''id'', JStr ''call_1'')]],
      tr_tool_results = [JObj [(''products'', JArr [])], JObj [(''error'', JStr [])]],
      tr_execution_time_ms = 3000,
      tr_timestamp = ''2025-01-01T00:00:00'',
      tr_error = None\<rparr>"
  by (simp add: run_single_test_def Let_def example_provider_def tool_then_timeout_def
      format_messages_with_system_prompt_def example_benchmark_config_def
      example_response_def search_call_def tool_call_step_def make_tool_call_def
      tool_call_holder_def dict_get_def apply_rate_limit_def error_payload_def
      example_runtime_def initial_state_def example_case_def example_model_config_def)

section \<open>Tool-call arguments\<close>

lemma startswith_append: "startswith (sub @ rest) sub"
  by (simp add: startswith_def)

lemma contains_at_start: "contains (sub @ rest) sub"
proof (cases "sub @ rest")
  case Nil
  then show ?thesis by simp
next
  case (Cons a list)
  have "startswith (sub @ rest) sub" by (rule startswith_append)
  then show ?thesis unfolding Cons by simp
qed

lemma decode_error_text_contains: "contains (decode_error_text msg doc pos) msg"
  unfolding decode_error_text_def Let_def by (rule contains_at_start)

text \<open>
  A value at the very start of the string, followed by other text: \<^verbatim>\<open>json.loads\<close>
  raises "Extra data", \<^verbatim>\<open>raw_decode\<close> finds the value, and it is returned with a
  warning.
\<close>

lemma safe_json_loads_extra_data:
  assumes "json_module rt scan s" and "json_then_garbage scan s obj idx"
    and "skip_whitespace s 0 = 0"
  shows "safe_json_loads rt (JStr s) =
         (Inr obj, [LogWarning (''Found extra data after JSON: '' @ [CHR 0x27]
                                 @ drop idx s @ [CHR 0x27])])"
proof -
  from assms have l: "json_loads rt s
      = Inl (JSONDecodeError (decode_error_text ''Extra data'' s (skip_whitespace s idx)))"
    by (simp add: json_module_def json_then_garbage_def decode_def)
  from assms have r: "raw_decode rt s = Inr (obj, idx)"
    by (simp add: json_module_def json_then_garbage_def)
  from assms(1) have e: "str_exn rt
        (JSONDecodeError (decode_error_text ''Extra data'' s (skip_whitespace s idx)))
      = decode_error_text ''Extra data'' s (skip_whitespace s idx)"
    by (simp add: json_module_def)
  show ?thesis
    by (simp add: safe_json_loads_def l r e decode_error_text_contains)
qed

lemma safe_json_loads_not_a_string:
  "\<not> is_str v \<Longrightarrow> safe_json_loads rt v = (Inr v, [])"
  by (cases v) (simp_all add: safe_json_loads_def)

lemma make_tool_call_bad_arguments:
  assumes "subscript (tool_call_holder info) ''name'' = Inr n"
    and "subscript (tool_call_holder info) ''arguments'' = Inr (JStr a)"
    and "fst (safe_json_loads rt (JStr a)) = Inl e"
  shows "make_tool_call rt info = Inl e"
  using assms by (simp add: make_tool_call_def Let_def)

lemma tool_call_step_bad_arguments:
  assumes "make_tool_call rt info = Inl e"
  shows "tool_call_step rt delay p model_config model_id ls info =
         ls\<lparr>ls_tool_results := ls_tool_results ls @ [JObj [(''error'', JStr (str_exn rt e))]]\<rparr>"
  using assms by (simp add: tool_call_step_def error_payload_def)

text \<open>
  Claim C8, as stated, fails. The arguments \<^const>\<open>fenced_arguments\<close> are the object
  \<^verbatim>\<open>{"query": "laptop"}\<close>, written on two lines after a line break, followed by a
  closing fence. \<^verbatim>\<open>json.loads\<close> raises "Extra data"; \<^verbatim>\<open>raw_decode\<close> starts at the
  line break and raises "Expecting value"; the pattern finds nothing in a text whose
  object spans lines; and \<^const>\<open>safe_json_loads\<close> raises the first error.
\<close>

theorem safe_json_loads_raises_after_leading_whitespace:
  "json_module scanning_runtime example_scan fenced_arguments
   \<and> json_then_garbage example_scan fenced_arguments query_object 21
   \<and> safe_json_loads scanning_runtime (JStr fenced_arguments)
       = (Inl (JSONDecodeError ''Extra data: line 4 column 1 (char 22)''),
          [LogError (''Failed to parse JSON: '' @ fenced_arguments)])"
proof -
  have w: "skip_whitespace fenced_arguments 0 = 1" "skip_whitespace fenced_arguments 21 = 22"
    by (simp_all add: skip_whitespace_def fenced_arguments_def json_whitespace_def)
  have s: "example_scan fenced_arguments 1 = Inr (query_object, 21)"
    "example_scan fenced_arguments 0
       = Inl (JSONDecodeError ''Expecting value: line 1 column 1 (char 0)'')"
    by (simp_all add: example_scan_def fenced_arguments_def arguments_with_garbage_def
        spaced_arguments_def query_text_def decode_error_text_def str_nat.simps)
  have x: "decode_error_text ''Extra data'' fenced_arguments 22
           = ''Extra data: line 4 column 1 (char 22)''"
    by (simp add: decode_error_text_def fenced_arguments_def str_nat.simps)
  have n: "length fenced_arguments = 25" by (simp add: fenced_arguments_def)
  have "decode example_scan fenced_arguments
        = Inl (JSONDecodeError ''Extra data: line 4 column 1 (char 22)'')"
    unfolding decode_def w(1) s(1) by (simp add: w(2) x n)
  then have l: "json_loads scanning_runtime fenced_arguments
           = Inl (JSONDecodeError ''Extra data: line 4 column 1 (char 22)'')"
    by (simp add: scanning_runtime_def)
  have r: "raw_decode scanning_runtime fenced_arguments
           = Inl (JSONDecodeError ''Expecting value: line 1 column 1 (char 0)'')"
    by (simp add: scanning_runtime_def s)
  have m: "re_search scanning_runtime json_pattern fenced_arguments = None"
    by (simp add: scanning_runtime_def example_search_def fenced_arguments_def
        spaced_arguments_def arguments_with_garbage_def)
  have e: "str_exn scanning_runtime (JSONDecodeError m) = m" for m
    by (simp add: scanning_runtime_def example_runtime_def)
  have c: "contains ''Extra data: line 4 column 1 (char 22)'' ''Extra data''"
    using contains_at_start [of "''Extra data''" "'': line 4 column 1 (char 22)''"] by simp
  have 1: "json_module scanning_runtime example_scan fenced_arguments"
    by (simp add: json_module_def e) (simp add: scanning_runtime_def)
  have 2: "json_then_garbage example_scan fenced_arguments query_object 21"
    unfolding json_then_garbage_def w s(1) by (simp add: n)
  have 3: "safe_json_loads scanning_runtime (JStr fenced_arguments)
       = (Inl (JSONDecodeError ''Extra data: line 4 column 1 (char 22)''),
          [LogError (''Failed to parse JSON: '' @ fenced_arguments)])"
    by (simp add: safe_json_loads_def l r m e c)
  from 1 2 3 show ?thesis by blast
qed

text \<open>
  The same object after a space and before a word is recovered by the pattern instead,
  and no warning is logged.
\<close>

lemma safe_json_loads_recovers_without_warning:
  "json_then_garbage example_scan spaced_arguments query_object 20
   \<and> safe_json_loads scanning_runtime (JStr spaced_arguments) = (Inr query_object, [])"
proof -
  have w: "skip_whitespace spaced_arguments 0 = 1" "skip_whitespace spaced_arguments 20 = 21"
    "skip_whitespace query_text 0 = 0"
    "skip_whitespace query_text 19 = 19"
    by (simp_all add: skip_whitespace_def spaced_arguments_def query_text_def
        json_whitespace_def)
  have s: "example_scan spaced_arguments 1 = Inr (query_object, 20)"
    "example_scan spaced_arguments 0
       = Inl (JSONDecodeError ''Expecting value: line 1 column 1 (char 0)'')"
    "example_scan query_text 0 = Inr (query_object, 19)"
    by (simp_all add: example_scan_def spaced_arguments_def fenced_arguments_def
        arguments_with_garbage_def query_text_def decode_error_text_def str_nat.simps)
  have x: "decode_error_text ''Extra data'' spaced_arguments 21
           = ''Extra data: line 1 column 22 (char 21)''"
    by (simp add: decode_error_text_def spaced_arguments_def str_nat.simps)
  have n: "length spaced_arguments = 29" by (simp add: spaced_arguments_def)
  have "decode example_scan spaced_arguments
        = Inl (JSONDecodeError ''Extra data: line 1 column 22 (char 21)'')"
    unfolding decode_def w(1) s(1) by (simp add: w(2) x n)
  then have l: "json_loads scanning_runtime spaced_arguments
           = Inl (JSONDecodeError ''Extra data: line 1 column 22 (char 21)'')"
    by (simp add: scanning_runtime_def)
  have k: "length query_text = 19" by (simp add: query_text_def)
  have l2: "json_loads scanning_runtime query_text = Inr query_object"
    using k by (simp add: scanning_runtime_def decode_def w s)
  have r: "raw_decode scanning_runtime spaced_arguments
           = Inl (JSONDecodeError ''Expecting value: line 1 column 1 (char 0)'')"
    by (simp add: scanning_runtime_def s)
  have m: "re_search scanning_runtime json_pattern spaced_arguments
           = Some query_text"
    by (simp add: scanning_runtime_def example_search_def)
  have e: "str_exn scanning_runtime (JSONDecodeError m) = m" for m
    by (simp add: scanning_runtime_def example_runtime_def)
  have 2: "json_then_garbage example_scan spaced_arguments query_object 20"
    unfolding json_then_garbage_def w s(1) by (simp add: n)
  have 3: "safe_json_loads scanning_runtime (JStr spaced_arguments) = (Inr query_object, [])"
    by (simp add: safe_json_loads_def l r m e l2 startswith_def)
  from 2 3 show ?thesis by blast
qed

text \<open>
  Claim C8, amended. For a string that starts, without whitespace before it, with a
  JSON value followed by text that is not only whitespace, \<^const>\<open>safe_json_loads\<close>
  returns that first value and logs a warning that quotes the rest; for an input that
  is not a string it returns the input unchanged; and when the string arguments of a
  tool call cannot be recovered, the step of the tool loop for that call appends the
  payload \<^verbatim>\<open>{"error": str(e)}\<close> to the tool results and the loop goes on with the next
  tool call.
\<close>

theorem safe_json_loads_recovers_value_at_start:
  "(json_module rt scan s \<and> json_then_garbage scan s obj idx \<and> skip_whitespace s 0 = 0 \<longrightarrow>
      safe_json_loads rt (JStr s) =
        (Inr obj, [LogWarning (''Found extra data after JSON: '' @ [CHR 0x27]
                                @ drop idx s @ [CHR 0x27])]))
   \<and> (\<not> is_str v \<longrightarrow> safe_json_loads rt v = (Inr v, []))
   \<and> (subscript (tool_call_holder info) ''name'' = Inr n
       \<and> subscript (tool_call_holder info) ''arguments'' = Inr (JStr a)
       \<and> fst (safe_json_loads rt (JStr a)) = Inl e \<longrightarrow>
        tool_call_step rt delay p model_config model_id ls info =
          ls\<lparr>ls_tool_results :=
               ls_tool_results ls @ [JObj [(''error'', JStr (str_exn rt e))]]\<rparr>
        \<and> tool_call_loop rt delay p model_config model_id ls (info # rest) =
          tool_call_loop rt delay p model_config model_id
            (ls\<lparr>ls_tool_results :=
                  ls_tool_results ls @ [JObj [(''error'', JStr (str_exn rt e))]]\<rparr>) rest)"
proof (intro conjI impI)
  assume "json_module rt scan s \<and> json_then_garbage scan s obj idx \<and> skip_whitespace s 0 = 0"
  then show "safe_json_loads rt (JStr s) =
        (Inr obj, [LogWarning (''Found extra data after JSON: '' @ [CHR 0x27]
                                @ drop idx s @ [CHR 0x27])])"
    using safe_json_loads_extra_data by blast
next
  assume "\<not> is_str v"
  then show "safe_json_loads rt v = (Inr v, [])" by (rule safe_json_loads_not_a_string)
next
  assume a: "subscript (tool_call_holder info) ''name'' = Inr n
       \<and> subscript (tool_call_holder info) ''arguments'' = Inr (JStr a)
       \<and> fst (safe_json_loads rt (JStr a)) = Inl e"
  then have m: "make_tool_call rt info = Inl e"
    using make_tool_call_bad_arguments by blast
  from tool_call_step_bad_arguments [OF m]
  show s: "tool_call_step rt delay p model_config model_id ls info =
          ls\<lparr>ls_tool_results :=
               ls_tool_results ls @ [JObj [(''error'', JStr (str_exn rt e))]]\<rparr>" .
  show "tool_call_loop rt delay p model_config model_id ls (info # rest) =
          tool_call_loop rt delay p model_config model_id
            (ls\<lparr>ls_tool_results :=
                  ls_tool_results ls @ [JObj [(''error'', JStr (str_exn rt e))]]\<rparr>) rest"
    by (simp add: s)
qed

lemma example_garbage:
  "json_module scanning_runtime example_scan arguments_with_garbage
   \<and> json_then_garbage example_scan arguments_with_garbage query_object 19
   \<and> skip_whitespace arguments_with_garbage 0 = 0"
proof -
  have w: "skip_whitespace arguments_with_garbage 0 = 0"
    "skip_whitespace arguments_with_garbage 19 = 20"
    by (simp_all add: skip_whitespace_def arguments_with_garbage_def json_whitespace_def)
  have s: "example_scan arguments_with_garbage 0 = Inr (query_object, 19)"
    by (simp add: example_scan_def)
  have e: "str_exn scanning_runtime (JSONDecodeError m) = m" for m
    by (simp add: scanning_runtime_def example_runtime_def)
  have 1: "json_module scanning_runtime example_scan arguments_with_garbage"
    by (simp add: json_module_def e) (simp add: scanning_runtime_def)
  have 2: "json_then_garbage example_scan arguments_with_garbage query_object 19"
    unfolding json_then_garbage_def w s by (simp add: arguments_with_garbage_def)
  from 1 2 w(1) show ?thesis by blast
qed

lemma example_not_json:
  "fst (safe_json_loads example_runtime (JStr ''not json''))
   = Inl (JSONDecodeError ''Expecting value: line 1 column 1 (char 0)'')"
  by (simp add: safe_json_loads_def example_runtime_def example_loads_def
      arguments_with_garbage_def example_object_text_def unknown_criterion_text_def
      startswith_def)

lemma example_bad_call:
  "subscript (tool_call_holder bad_arguments_call) ''name'' = Inr (JStr ''search_products'')
   \<and> subscript (tool_call_holder bad_arguments_call) ''arguments'' = Inr (JStr ''not json'')"
  by (simp add: tool_call_holder_def bad_arguments_call_def dict_get_def)

text \<open>The whole test with such a tool call: one error payload, no tool call made, no error.\<close>

lemma bad_arguments_test_result:
  "fst (run_single_test example_runtime example_benchmark_config 1
          (example_provider (answer_with_calls [bad_arguments_call])) example_model_config
          (example_case ''t1'') ''m1'' initial_state)
   = \<lparr>tr_test_case_id = ''t1'',
      tr_model_id = ''m1'',
      tr_scenario_type = ''correct'',
      tr_user_query = ''laptops?'',
      tr_model_response = example_response ''searching'' [bad_arguments_call],
      tr_tool_calls_made = [],
      tr_tool_results =
        [JObj [(''error'', JStr ''Expecting value: line 1 column 1 (char 0)'')]],
      tr_execution_time_ms = 1000,
      tr_timestamp = ''2025-01-01T00:00:00'',
      tr_error = None\<rparr>"
proof -
  have m: "make_tool_call example_runtime bad_arguments_call
           = Inl (JSONDecodeError ''Expecting value: line 1 column 1 (char 0)'')"
    using make_tool_call_bad_arguments example_bad_call example_not_json by blast
  have s: "str_exn example_runtime (JSONDecodeError ''Expecting value: line 1 column 1 (char 0)'')
           = ''Expecting value: line 1 column 1 (char 0)''"
    by (simp add: example_runtime_def)
  have t: "time_time example_runtime = real" "now_iso example_runtime = ''2025-01-01T00:00:00''"
    by (simp_all add: example_runtime_def)
  show ?thesis
    by (simp add: run_single_test_def Let_def example_provider_def answer_with_calls_def
        format_messages_with_system_prompt_def example_benchmark_config_def
        example_response_def tool_call_step_bad_arguments [OF m] s t
        initial_state_def example_case_def example_model_config_def)
qed

lemma scanning_not_json:
  "fst (safe_json_loads scanning_runtime (JStr ''not json''))
   = Inl (JSONDecodeError ''Expecting value: line 1 column 1 (char 0)'')"
proof -
  have w: "skip_whitespace ''not json'' 0 = 0"
    by (simp add: skip_whitespace_def json_whitespace_def)
  have s: "example_scan ''not json'' 0
           = Inl (JSONDecodeError ''Expecting value: line 1 column 1 (char 0)'')"
    by (simp add: example_scan_def spaced_arguments_def fenced_arguments_def
        arguments_with_garbage_def query_text_def decode_error_text_def str_nat.simps)
  have l: "json_loads scanning_runtime ''not json''
           = Inl (JSONDecodeError ''Expecting value: line 1 column 1 (char 0)'')"
    by (simp add: scanning_runtime_def decode_def w s)
  have e: "str_exn scanning_runtime (JSONDecodeError m) = m" for m
    by (simp add: scanning_runtime_def example_runtime_def)
  show ?thesis
    by (simp add: safe_json_loads_def l e startswith_def)
qed

theorem safe_json_loads_recovers_value_at_start_witness:
  "json_module scanning_runtime example_scan arguments_with_garbage
   \<and> json_then_garbage example_scan arguments_with_garbage query_object 19
   \<and> skip_whitespace arguments_with_garbage 0 = 0
   \<and> safe_json_loads scanning_runtime (JStr arguments_with_garbage) =
       (Inr query_object,
        [LogWarning (''Found extra data after JSON: '' @ [CHR 0x27] @ '' trailing''
                      @ [CHR 0x27])])
   \<and> \<not> is_str query_object
   \<and> safe_json_loads scanning_runtime query_object = (Inr query_object, [])
   \<and> subscript (tool_call_holder bad_arguments_call) ''name'' = Inr (JStr ''search_products'')
   \<and> subscript (tool_call_holder bad_arguments_call) ''arguments'' = Inr (JStr ''not json'')
   \<and> fst (safe_json_loads scanning_runtime (JStr ''not json''))
       = Inl (JSONDecodeError ''Expecting value: line 1 column 1 (char 0)'')
   \<and> tool_call_loop scanning_runtime 1 (example_provider always_timeout) example_model_config
        ''m1''
        \<lparr>ls_messages = [], ls_response = example_response ''searching'' [bad_arguments_call],
         ls_tool_calls_made = [], ls_tool_results = [], ls_exec = initial_state\<rparr>
        [bad_arguments_call]
       = \<lparr>ls_messages = [], ls_response = example_response ''searching'' [bad_arguments_call],
          ls_tool_calls_made = [],
          ls_tool_results =
            [JObj [(''error'', JStr ''Expecting value: line 1 column 1 (char 0)'')]],
          ls_exec = initial_state\<rparr>"
proof -
  note t = safe_json_loads_recovers_value_at_start
    [where rt = scanning_runtime and scan = example_scan and s = arguments_with_garbage
       and obj = query_object and idx = 19
       and v = query_object and info = bad_arguments_call
       and n = "JStr ''search_products''" and a = "''not json''"
       and e = "JSONDecodeError ''Expecting value: line 1 column 1 (char 0)''"
       and delay = 1 and p = "example_provider always_timeout"
       and model_config = example_model_config and model_id = "''m1''"
       and ls = "\<lparr>ls_messages = [],
                   ls_response = example_response ''searching'' [bad_arguments_call],
                   ls_tool_calls_made = [], ls_tool_results = [], ls_exec = initial_state\<rparr>"
       and rest = "[]"]
  have d: "drop 19 arguments_with_garbage = '' trailing''"
    by (simp add: arguments_with_garbage_def)
  have s: "str_exn scanning_runtime
             (JSONDecodeError ''Expecting value: line 1 column 1 (char 0)'')
           = ''Expecting value: line 1 column 1 (char 0)''"
    by (simp add: scanning_runtime_def example_runtime_def)
  have n: "\<not> is_str query_object" by (simp add: query_object_def)
  from t example_garbage
  have 1: "safe_json_loads scanning_runtime (JStr arguments_with_garbage) =
       (Inr query_object,
        [LogWarning (''Found extra data after JSON: '' @ [CHR 0x27] @ '' trailing''
                      @ [CHR 0x27])])"
    unfolding d by blast
  from t n
  have 2: "safe_json_loads scanning_runtime query_object = (Inr query_object, [])"
    by blast
  from t example_bad_call scanning_not_json
  have 3: "tool_call_loop scanning_runtime 1 (example_provider always_timeout)
             example_model_config ''m1''
        \<lparr>ls_messages = [], ls_response = example_response ''searching'' [bad_arguments_call],
         ls_tool_calls_made = [], ls_tool_results = [], ls_exec = initial_state\<rparr>
        [bad_arguments_call]
       = \<lparr>ls_messages = [], ls_response = example_response ''searching'' [bad_arguments_call],
          ls_tool_calls_made = [],
          ls_tool_results =
            [JObj [(''error'', JStr ''Expecting value: line 1 column 1 (char 0)'')]],
          ls_exec = initial_state\<rparr>"
    unfolding s by simp
  show ?thesis
    using example_bad_call example_garbage
    by (intro conjI 1 n 2 scanning_not_json 3) simp_all
qed

section \<open>The bound on concurrently running models\<close>

lemma count_list_update:
  "i < length xs \<Longrightarrow>
   length (filter P (xs[i := y])) + (if P (xs ! i) then 1 else 0)
   = length (filter P xs) + (if P y then 1 else 0)"
proof (induction xs arbitrary: i)
  case Nil
  then show ?case by simp
next
  case (Cons x xs)
  show ?case
  proof (cases i)
    case 0
    then show ?thesis by simp
  next
    case (Suc j)
    with Cons.prems have "j < length xs" by simp
    from Cons.IH [OF this] Suc show ?thesis by simp
  qed
qed

lemma count_le:
  "(\<And>x. x \<in> set xs \<Longrightarrow> P x \<Longrightarrow> Q x) \<Longrightarrow> length (filter P xs) \<le> length (filter Q xs)"
proof (induction xs)
  case Nil
  then show ?case by simp
next
  case (Cons x xs)
  then have "length (filter P xs) \<le> length (filter Q xs)" by simp
  with Cons.prems [of x] show ?case by auto
qed

lemma list_all_update:
  "list_all P xs \<Longrightarrow> P y \<Longrightarrow> list_all P (xs[i := y])"
  by (induction xs arbitrary: i) (auto split: nat.splits)

lemma list_all_nth: "list_all P xs \<Longrightarrow> i < length xs \<Longrightarrow> P (xs ! i)"
  by (simp add: list_all_length)

lemma initial_pool_invariant: "admission_invariant cfg (initial_pool cfg model_ids)"
  by (induction model_ids)
     (simp_all add: admission_invariant_def initial_pool_def inside_workers_def list_all_iff)

lemma step_invariant:
  assumes "step s s'" and "admission_invariant cfg s"
  shows "admission_invariant cfg s'"
  using assms
proof (induction rule: step.induct)
  case (acquire i s)
  from count_list_update [OF acquire(1),
         of "\<lambda>w. w_position w = Inside" "(workers s ! i)\<lparr>w_position := Inside\<rparr>"]
       acquire
  show ?case
    by (auto simp: admission_invariant_def inside_workers_def intro!: list_all_update)
next
  case (start i s)
  from count_list_update [OF start(1),
         of "\<lambda>w. w_position w = Inside" "(workers s ! i)\<lparr>w_status := RUNNING\<rparr>"]
       start
  show ?case
    by (auto simp: admission_invariant_def inside_workers_def intro!: list_all_update)
next
  case (complete i s)
  from count_list_update [OF complete(1),
         of "\<lambda>w. w_position w = Inside" "(workers s ! i)\<lparr>w_status := COMPLETED\<rparr>"]
       complete
  show ?case
    by (auto simp: admission_invariant_def inside_workers_def intro!: list_all_update)
next
  case (fail i s)
  from count_list_update [OF fail(1),
         of "\<lambda>w. w_position w = Inside" "(workers s ! i)\<lparr>w_status := FAILED\<rparr>"]
       fail
  show ?case
    by (auto simp: admission_invariant_def inside_workers_def intro!: list_all_update)
next
  case (release i s)
  from count_list_update [OF release(1),
         of "\<lambda>w. w_position w = Inside" "(workers s ! i)\<lparr>w_position := Past\<rparr>"]
       release
  show ?case
    by (auto simp: admission_invariant_def inside_workers_def intro!: list_all_update)
next
  case (cancel i s)
  from count_list_update [OF cancel(1),
         of "\<lambda>w. w_position w = Inside" "(workers s ! i)\<lparr>w_position := Past\<rparr>"]
       cancel
  show ?case
    by (auto simp: admission_invariant_def inside_workers_def intro!: list_all_update)
next
  case (give_up i s)
  from count_list_update [OF give_up(1),
         of "\<lambda>w. w_position w = Inside" "(workers s ! i)\<lparr>w_position := Past\<rparr>"]
       give_up
  show ?case
    by (auto simp: admission_invariant_def inside_workers_def intro!: list_all_update)
qed

lemma reachable_invariant:
  "reachable cfg model_ids s \<Longrightarrow> admission_invariant cfg s"
  by (induction rule: reachable.induct) (auto intro: initial_pool_invariant step_invariant)

lemma executing_le_inside: "executing_workers s \<le> inside_workers s"
  unfolding executing_workers_def inside_workers_def by (intro count_le) simp

lemma running_split:
  assumes "list_all (\<lambda>w. w_position w = Before \<longrightarrow> w_status w = PENDING) ws"
  shows "length (filter (\<lambda>w. w_status w = RUNNING) ws)
         = length (filter (\<lambda>w. w_position w = Inside \<and> w_status w = RUNNING) ws)
           + length (filter (\<lambda>w. w_position w = Past \<and> w_status w = RUNNING) ws)"
  using assms
proof (induction ws)
  case Nil
  then show ?case by simp
next
  case (Cons w ws)
  then show ?case by (cases "w_position w") auto
qed

lemma running_is_executing_or_stale:
  assumes "admission_invariant cfg s"
  shows "running_workers s = executing_workers s + stale_workers s"
  using assms running_split [of "workers s"]
  by (simp add: admission_invariant_def running_workers_def executing_workers_def
      stale_workers_def)

lemma no_admission_without_permit:
  assumes "step s s'" and "semaphore s = 0"
  shows "inside_workers s' \<le> inside_workers s"
  using assms
proof (induction rule: step.induct)
  case (acquire i s)
  then show ?case by simp
next
  case (start i s)
  from count_list_update [OF start(1),
         of "\<lambda>w. w_position w = Inside" "(workers s ! i)\<lparr>w_status := RUNNING\<rparr>"]
  show ?case by (simp add: inside_workers_def)
next
  case (complete i s)
  from count_list_update [OF complete(1),
         of "\<lambda>w. w_position w = Inside" "(workers s ! i)\<lparr>w_status := COMPLETED\<rparr>"]
  show ?case by (simp add: inside_workers_def)
next
  case (fail i s)
  from count_list_update [OF fail(1),
         of "\<lambda>w. w_position w = Inside" "(workers s ! i)\<lparr>w_status := FAILED\<rparr>"]
  show ?case by (simp add: inside_workers_def)
next
  case (release i s)
  from count_list_update [OF release(1),
         of "\<lambda>w. w_position w = Inside" "(workers s ! i)\<lparr>w_position := Past\<rparr>"]
       release
  show ?case by (simp add: inside_workers_def)
next
  case (cancel i s)
  from count_list_update [OF cancel(1),
         of "\<lambda>w. w_position w = Inside" "(workers s ! i)\<lparr>w_position := Past\<rparr>"]
       cancel
  show ?case by (simp add: inside_workers_def)
next
  case (give_up i s)
  from count_list_update [OF give_up(1),
         of "\<lambda>w. w_position w = Inside" "(workers s ! i)\<lparr>w_position := Past\<rparr>"]
       give_up
  show ?case by (simp add: inside_workers_def)
qed

lemma step_one: "step (initial_pool example_benchmark_config five_models) pool_one_inside"
  using step.acquire [of 0 "initial_pool example_benchmark_config five_models"]
  by (simp add: initial_pool_def five_models_def example_benchmark_config_def
      pool_one_inside_def)

lemma step_two: "step pool_one_inside pool_one_running"
  using step.start [of 0 pool_one_inside]
  by (simp add: pool_one_inside_def pool_one_running_def)

lemma step_three: "step pool_one_running pool_two_inside"
  using step.acquire [of 1 pool_one_running]
  by (simp add: pool_one_running_def pool_two_inside_def)

lemma step_four: "step pool_two_inside pool_two_running"
  using step.start [of 1 pool_two_inside]
  by (simp add: pool_two_inside_def pool_two_running_def)

text \<open>The first worker is cancelled while its model runs; the third worker enters.\<close>

lemma step_five: "step pool_two_running pool_one_cancelled"
  using step.cancel [of 0 pool_two_running]
  by (simp add: pool_two_running_def pool_one_cancelled_def)

lemma step_six: "step pool_one_cancelled pool_third_inside"
  using step.acquire [of 2 pool_one_cancelled]
  by (simp add: pool_one_cancelled_def pool_third_inside_def)

lemma step_seven: "step pool_third_inside pool_three_running"
  using step.start [of 2 pool_third_inside]
  by (simp add: pool_third_inside_def pool_three_running_def)

lemma step_eight: "step pool_three_running pool_second_completed"
  using step.complete [of 1 pool_three_running]
  by (simp add: pool_three_running_def pool_second_completed_def)

lemma pool_three_running_reachable:
  "reachable example_benchmark_config five_models pool_three_running"
  by (intro reachable.after_step [OF _ step_seven] reachable.after_step [OF _ step_six]
      reachable.after_step [OF _ step_five] reachable.after_step [OF _ step_four]
      reachable.after_step [OF _ step_three] reachable.after_step [OF _ step_two]
      reachable.after_step [OF _ step_one] reachable.start_of_run)

text \<open>
  Claim C10, as stated, fails. With \<^const>\<open>concurrent_models\<close> = 2 and five models, the
  workers reach a state in which three models have the status \<^const>\<open>RUNNING\<close>: the
  first worker was cancelled while its model ran, which freed its permit and left the
  status as it was, and the second and the third worker are inside the block.
\<close>

theorem three_running_statuses_under_limit_two:
  "reachable example_benchmark_config five_models pool_three_running
   \<and> concurrent_models example_benchmark_config = 2
   \<and> running_workers pool_three_running = 3
   \<and> \<not> running_workers pool_three_running \<le> concurrent_models example_benchmark_config"
  using pool_three_running_reachable
  by (simp add: running_workers_def pool_three_running_def example_benchmark_config_def)

text \<open>
  Claim C10, amended. In every state that the workers of a run can reach, the workers
  inside the semaphore's block and the free permits add up to \<^const>\<open>concurrent_models\<close>,
  so at most \<^const>\<open>concurrent_models\<close> models are executing, that is, have a worker
  inside the block and the status \<^const>\<open>RUNNING\<close>. The models with the status
  \<^const>\<open>RUNNING\<close> are the executing ones and those whose worker left the block by a
  cancellation, with the status still \<^const>\<open>RUNNING\<close>. A worker that waits before the
  block has not started its model, and while no permit is free, no step brings a
  further worker into the block. The default bound is 3.
\<close>

theorem executing_models_bounded:
  assumes "reachable cfg model_ids s"
  shows "inside_workers s + semaphore s = concurrent_models cfg
         \<and> executing_workers s \<le> concurrent_models cfg
         \<and> running_workers s = executing_workers s + stale_workers s
         \<and> list_all (\<lambda>w. w_position w = Before \<longrightarrow> w_status w = PENDING) (workers s)
         \<and> (\<forall>s'. semaphore s = 0 \<longrightarrow> step s s' \<longrightarrow> inside_workers s' \<le> inside_workers s)
         \<and> concurrent_models default_benchmark_config = 3"
proof -
  from reachable_invariant [OF assms] have i: "admission_invariant cfg s" .
  then have 1: "inside_workers s + semaphore s = concurrent_models cfg"
    by (simp add: admission_invariant_def)
  from executing_le_inside [of s] 1
  have 2: "executing_workers s \<le> concurrent_models cfg" by simp
  have 3: "concurrent_models default_benchmark_config = 3"
    by (simp add: default_benchmark_config_def)
  from i have 4: "list_all (\<lambda>w. w_position w = Before \<longrightarrow> w_status w = PENDING) (workers s)"
    by (simp add: admission_invariant_def)
  from 1 2 3 4 running_is_executing_or_stale [OF i] no_admission_without_permit
  show ?thesis by blast
qed

theorem executing_models_bounded_witness:
  "reachable example_benchmark_config five_models pool_three_running
   \<and> inside_workers pool_three_running + semaphore pool_three_running
       = concurrent_models example_benchmark_config
   \<and> executing_workers pool_three_running = 2
   \<and> executing_workers pool_three_running \<le> concurrent_models example_benchmark_config
   \<and> stale_workers pool_three_running = 1
   \<and> running_workers pool_three_running
       = executing_workers pool_three_running + stale_workers pool_three_running
   \<and> list_all (\<lambda>w. w_position w = Before \<longrightarrow> w_status w = PENDING)
        (workers pool_three_running)
   \<and> semaphore pool_three_running = 0
   \<and> step pool_three_running pool_second_completed
   \<and> inside_workers pool_second_completed \<le> inside_workers pool_three_running"
proof -
  have z: "semaphore pool_three_running = 0" by (simp add: pool_three_running_def)
  have c: "executing_workers pool_three_running = 2" "stale_workers pool_three_running = 1"
    by (simp_all add: executing_workers_def stale_workers_def pool_three_running_def)
  from executing_models_bounded [OF pool_three_running_reachable] z step_eight
  have "inside_workers pool_three_running + semaphore pool_three_running
          = concurrent_models example_benchmark_config
        \<and> executing_workers pool_three_running \<le> concurrent_models example_benchmark_config
        \<and> running_workers pool_three_running
            = executing_workers pool_three_running + stale_workers pool_three_running
        \<and> list_all (\<lambda>w. w_position w = Before \<longrightarrow> w_status w = PENDING)
             (workers pool_three_running)
        \<and> inside_workers pool_second_completed \<le> inside_workers pool_three_running"
    by blast
  with pool_three_running_reachable z c step_eight show ?thesis by blast
qed

end
